theory Spec2Isabelle
  imports Complex_Main
begin

section \<open>Numbers\<close>

text \<open>
  A number of the code is an IEEE 754 double. A finite double is given here by the
  rational it is; the other values are the two infinities and \<^verbatim>\<open>NaN\<close>. The sign of a
  zero is not kept: it shows only in a division by zero, and the code divides by
  \<^verbatim>\<open>100\<close>.
\<close>

datatype number = Fin rat | PInf | NInf | NaN

text \<open>\<open>log2floor n\<close> is the position of the leading bit of \<open>n\<close>; \<open>exponent x\<close>, for a
  positive \<open>x\<close>, is the \<open>e\<close> with \<open>2 ^ e \<le> x < 2 ^ (e + 1)\<close>.\<close>

fun log2floor :: "nat \<Rightarrow> nat" where
  "log2floor n = (if n < 2 then 0 else Suc (log2floor (n div 2)))"

declare log2floor.simps [simp del]

definition pow2 :: "int \<Rightarrow> rat" where
  "pow2 k = (if 0 \<le> k then 2 ^ nat k else 1 / 2 ^ nat (- k))"

definition exponent_below :: "rat \<Rightarrow> int \<Rightarrow> int" where
  "exponent_below x j = (if x * pow2 j = 1 then - j else - j - 1)"

definition exponent :: "rat \<Rightarrow> int" where
  "exponent x =
     (if 1 \<le> x then int (log2floor (nat \<lfloor>x\<rfloor>))
      else exponent_below x (int (log2floor (nat \<lfloor>1 / x\<rfloor>))))"

text \<open>Rounding to the nearest integer, a tie going to the even one.\<close>

definition ties_to_even :: "rat \<Rightarrow> int \<Rightarrow> int" where
  "ties_to_even y f =
     (if y - of_int f < 1 / 2 then f
      else if 1 / 2 < y - of_int f then f + 1
      else if even f then f else f + 1)"

definition round_half_even :: "rat \<Rightarrow> int" where
  "round_half_even y = ties_to_even y \<lfloor>y\<rfloor>"

text \<open>
  The double nearest to a rational: a positive \<open>a\<close> is rounded to a multiple of
  \<open>2 ^ (e - 52)\<close>, where \<open>e\<close> is its exponent (53 significant bits), and never below
  \<open>- 1022\<close> (the subnormal numbers); what rounds to \<open>2 ^ 1024\<close> or more overflows to an
  infinity.
\<close>

definition quantize :: "rat \<Rightarrow> rat \<Rightarrow> rat" where
  "quantize a q = of_int (round_half_even (a / q)) * q"

definition nearest :: "rat \<Rightarrow> rat" where
  "nearest a = quantize a (pow2 (max (exponent a) (- 1022) - 52))"

definition overflow :: "bool \<Rightarrow> rat \<Rightarrow> number" where
  "overflow positive r =
     (if pow2 1024 \<le> r then (if positive then PInf else NInf)
      else Fin (if positive then r else - r))"

definition fl :: "rat \<Rightarrow> number" where
  "fl x = (if x = 0 then Fin 0 else overflow (0 < x) (nearest \<bar>x\<bar>))"

text \<open>The operators \<^verbatim>\<open>*\<close>, \<^verbatim>\<open>/\<close>, \<^verbatim>\<open>+\<close>, \<^verbatim>\<open>-\<close> and \<^verbatim>\<open><\<close> on numbers: on finite
  operands the exact result, rounded; on the others what IEEE 754 lays down.\<close>

fun sign :: "number \<Rightarrow> int" where
  "sign (Fin a) = (if a = 0 then 0 else if 0 < a then 1 else - 1)"
| "sign PInf = 1"
| "sign NInf = - 1"
| "sign NaN = 0"

definition infinity :: "int \<Rightarrow> number" where
  "infinity s = (if 0 < s then PInf else NInf)"

fun js_mul :: "number \<Rightarrow> number \<Rightarrow> number" where
  "js_mul (Fin a) (Fin b) = fl (a * b)"
| "js_mul x y =
     (if x = NaN \<or> y = NaN \<or> sign x * sign y = 0 then NaN else infinity (sign x * sign y))"

fun js_div :: "number \<Rightarrow> number \<Rightarrow> number" where
  "js_div (Fin a) (Fin b) =
     (if b = 0 then (if a = 0 then NaN else infinity (sign (Fin a))) else fl (a / b))"
| "js_div (Fin a) y = (if y = NaN then NaN else Fin 0)"
| "js_div x (Fin b) = (if x = NaN then NaN else infinity (sign x * (if b < 0 then - 1 else 1)))"
| "js_div x y = NaN"

fun js_add :: "number \<Rightarrow> number \<Rightarrow> number" where
  "js_add (Fin a) (Fin b) = fl (a + b)"
| "js_add (Fin a) y = y"
| "js_add x (Fin b) = x"
| "js_add x y = (if x = y then x else NaN)"

fun js_neg :: "number \<Rightarrow> number" where
  "js_neg (Fin a) = Fin (- a)"
| "js_neg PInf = NInf"
| "js_neg NInf = PInf"
| "js_neg NaN = NaN"

definition js_sub :: "number \<Rightarrow> number \<Rightarrow> number" where
  "js_sub x y = js_add x (js_neg y)"

fun js_lt :: "number \<Rightarrow> number \<Rightarrow> bool" where
  "js_lt (Fin a) (Fin b) = (a < b)"
| "js_lt x y = (x \<noteq> NaN \<and> y \<noteq> NaN \<and> x \<noteq> y \<and> (x = NInf \<or> y = PInf))"

section \<open>Values crossing the service boundary\<close>

text \<open>
  The service methods of \<^verbatim>\<open>SalesServices.js\<close> document their scalar parameters as
  \<^verbatim>\<open>{number}\<close>. A caller can also leave such a parameter out or pass \<^verbatim>\<open>null\<close> or
  \<^verbatim>\<open>NaN\<close>, and the guards of the methods are written for exactly these values. The
  embedding therefore lets a scalar parameter range over \<^verbatim>\<open>undefined\<close>, \<^verbatim>\<open>null\<close>,
  \<^verbatim>\<open>NaN\<close> and the finite numbers. The definitions take a finite number to be any
  rational, of which the doubles are some; every operation of the code on numbers is one
  of the rounding operations above.
\<close>

datatype jsval = JUndefined | JNull | JNaN | JNum rat

text \<open>\<^verbatim>\<open>Number(v)\<close>, the conversion every arithmetic operator and comparison applies to
  its operands.\<close>

fun ToNumber :: "jsval \<Rightarrow> number" where
  "ToNumber JUndefined = NaN"
| "ToNumber JNull = Fin 0"
| "ToNumber JNaN = NaN"
| "ToNumber (JNum r) = Fin r"

text \<open>A parameter declared with a default takes it when it is left out.\<close>

definition default_parameter :: "jsval \<Rightarrow> jsval \<Rightarrow> jsval" where
  "default_parameter d v = (if v = JUndefined then d else v)"

text \<open>\<^verbatim>\<open>!v\<close> is true of \<^verbatim>\<open>undefined\<close>, \<^verbatim>\<open>null\<close>, \<^verbatim>\<open>NaN\<close> and \<^verbatim>\<open>0\<close>.\<close>

fun truthy :: "jsval \<Rightarrow> bool" where
  "truthy (JNum r) = (r \<noteq> 0)"
| "truthy _ = False"

text \<open>\<^verbatim>\<open>isNaN(v)\<close> converts with \<^verbatim>\<open>Number(v)\<close> first: \<^verbatim>\<open>Number(undefined)\<close> is
  \<^verbatim>\<open>NaN\<close>, \<^verbatim>\<open>Number(null)\<close> is \<^verbatim>\<open>0\<close>.\<close>

fun isNaN_js :: "jsval \<Rightarrow> bool" where
  "isNaN_js JUndefined = True"
| "isNaN_js JNull = False"
| "isNaN_js JNaN = True"
| "isNaN_js (JNum r) = False"

text \<open>\<^verbatim>\<open>v == null\<close> holds of \<^verbatim>\<open>null\<close> and \<^verbatim>\<open>undefined\<close> only.\<close>

fun eq_null :: "jsval \<Rightarrow> bool" where
  "eq_null JUndefined = True"
| "eq_null JNull = True"
| "eq_null _ = False"

text \<open>The number a value holds. It is applied only behind a guard that has already
  rejected every value but a number.\<close>

fun number_of :: "jsval \<Rightarrow> rat" where
  "number_of (JNum r) = r"
| "number_of _ = 0"

text \<open>\<^verbatim>\<open>parseInt\<close> of a number drops its fraction (towards zero); \<^verbatim>\<open>parseFloat\<close> of a
  number is the number. (Both go through the decimal text of the number, which is exact
  for the magnitudes an \<^verbatim>\<open>integer\<close> column admits.)\<close>

definition parseInt_js :: "rat \<Rightarrow> rat" where
  "parseInt_js r = (if 0 \<le> r then of_int \<lfloor>r\<rfloor> else of_int \<lceil>r\<rceil>)"

definition parseFloat_js :: "rat \<Rightarrow> rat" where
  "parseFloat_js r = r"

text \<open>A line item as the caller passes it: \<^verbatim>\<open>{ product_id, quantity, price_at_sale }\<close>;
  a property that is missing reads as \<^verbatim>\<open>undefined\<close>.\<close>

record item =
  product_id :: jsval
  quantity :: jsval
  price_at_sale :: jsval

section \<open>The relational store\<close>

text \<open>
  The storage is a PostgreSQL database reached through a connection pool. The code holds
  its statements as SQL texts; the embedding gives each statement the meaning SQL gives
  it, on tables that are lists of rows.

  Modelled from the spec: the schema of the tables. No file of the sources declares it.
  The columns are those the statements name; their types and constraints are those of the
  specification's section 6: the identities and quantities are \<^verbatim>\<open>integer\<close>, the
  amounts and the price are \<^verbatim>\<open>numeric\<close>, the dates are timestamps; the primary keys
  are unique, \<^verbatim>\<open>sale_items.quantity\<close> is checked \<^verbatim>\<open>> 0\<close> and
  \<^verbatim>\<open>inventory.quantity_in_stock\<close> is checked \<^verbatim>\<open>>= 0\<close>. The statements below
  enforce these. Foreign keys, and whatever else the schema may hold, are refusals of the
  storage (see \<open>fault\<close> below). No statement of the code adds a row to
  \<^verbatim>\<open>inventory\<close>, so that \<^verbatim>\<open>product_id\<close> is unique there is a property of the
  tables a call starts from; no theorem below needs it.

  A \<^verbatim>\<open>numeric\<close> column is written with the decimal text of a number and read back as
  that text, which denotes the number it was printed from and no other; the column is
  given here by that number. It also holds \<^verbatim>\<open>NaN\<close> and the infinities. The percentage
  of a sale may be \<^verbatim>\<open>NULL\<close> besides (\<open>None\<close>): the section declares no column
  \<^verbatim>\<open>NOT NULL\<close>, and the other amounts are never written with \<^verbatim>\<open>NULL\<close>.

  Calendar dates are \<open>(year, month, day)\<close>; a timestamp is a date and the seconds since
  midnight.
\<close>

type_synonym date = "nat \<times> nat \<times> nat"

record timestamp =
  ts_date :: date
  ts_secs :: nat

record sale_row =
  sale_id :: int
  user_id :: int
  sale_date :: timestamp
  subtotal :: number
  discount_percentage :: "number option"
  discount_amount :: number
  total_amount :: number

record sale_item_row =
  sale_item_id :: int
  si_sale_id :: int
  si_product_id :: int
  si_quantity :: int
  si_price_at_sale :: rat

record inventory_row =
  inventory_id :: int
  inv_product_id :: int
  quantity_in_stock :: int
  last_updated :: timestamp

record tables =
  sales :: "sale_row list"
  sale_items :: "sale_item_row list"
  inventory :: "inventory_row list"

text \<open>The statements the code sends, with the parameters it binds, and the two calls on
  the connection pool.\<close>

datatype query =
    Connect
  | Release
  | Begin
  | Commit
  | Rollback
  | InsertSale rat
  | SelectStockForUpdate rat
  | InsertSaleItem rat rat rat rat
  | UpdateStock rat rat
  | UpdateSaleTotals number "number option" number number rat
  | UpdateTotalAmount rat rat
  | SelectSaleById rat
  | SelectSalesBetween string string

text \<open>
  The state of the storage: the committed tables, the uncommitted tables of the
  checked-out connection while it has a transaction open, the two identity sequences
  (a sequence is not rolled back), the clock, and the calls made on the storage so far, in
  order.
\<close>

record world =
  committed :: tables
  txn :: "tables option"
  sale_seq :: int
  sale_item_seq :: int
  clock :: timestamp
  calls :: "query list"

text \<open>
  What the storage refuses for a reason the tables of the model do not show (a foreign
  key, a constraint that the specification does not declare, a lost connection) is given
  by an oracle: whether the call made after \<open>n\<close> earlier calls fails. A theorem that
  holds for every oracle holds whatever further constraints the schema has.
\<close>

type_synonym fault = "nat \<Rightarrow> query \<Rightarrow> bool"

datatype operation =
    FailedToCreateSaleWithItems
  | FailedToUpdateSaleTotal
  | FailedToApplyDiscount
  | FailedToGetSales
  | FailedToUpdateSaleTotalAmount
  | FailedToUpdateSaleWithDiscount
  | FailedToFindSaleById
  | FailedToFindSalesBetweenDates

datatype error =
    InvalidUserID
  | SaleMustHaveItems
  | DiscountOutOfRange
  | ItemFieldsRequired
  | InventoryNotFound rat
  | InsufficientStock rat int rat
  | InvalidSaleID
  | InvalidTotalAmount
  | InvalidDiscountPercentage
  | SaleNotFound
  | DatesRequired
  | InvalidDateFormat
  | StorageError
  | TypeError
  | Wrapped operation error

definition issue :: "fault \<Rightarrow> query \<Rightarrow> world \<Rightarrow> bool \<times> world" where
  "issue flt q w = (flt (length (calls w)) q, w\<lparr>calls := calls w @ [q]\<rparr>)"

text \<open>The tables a statement on the connection sees and writes: those of the open
  transaction, the committed ones when no transaction is open.\<close>

definition view :: "world \<Rightarrow> tables" where
  "view w = (case txn w of None \<Rightarrow> committed w | Some t \<Rightarrow> t)"

definition store :: "tables \<Rightarrow> world \<Rightarrow> world" where
  "store t w = (case txn w of None \<Rightarrow> w\<lparr>committed := t\<rparr> | Some _ \<Rightarrow> w\<lparr>txn := Some t\<rparr>)"

text \<open>A parameter bound to an \<^verbatim>\<open>integer\<close> column must be the text of a 32-bit
  integer; anything else is refused by the storage. A parameter bound to a
  \<^verbatim>\<open>numeric\<close> column is the text of a number, or \<^verbatim>\<open>NULL\<close> for \<^verbatim>\<open>null\<close> and
  \<^verbatim>\<open>undefined\<close>.\<close>

definition bind_numeric :: "jsval \<Rightarrow> number option" where
  "bind_numeric v = (if v = JUndefined \<or> v = JNull then None else Some (ToNumber v))"

definition int4_ok :: "int \<Rightarrow> bool" where
  "int4_ok i = (- 2147483648 \<le> i \<and> i \<le> 2147483647)"

definition pg_int4 :: "rat \<Rightarrow> int option" where
  "pg_int4 r = (if r = of_int \<lfloor>r\<rfloor> \<and> int4_ok \<lfloor>r\<rfloor> then Some \<lfloor>r\<rfloor> else None)"

subsection \<open>Dates as text\<close>

definition digit_char :: "nat \<Rightarrow> char" where
  "digit_char n = ''0123456789'' ! (n mod 10)"

definition digit_of :: "char \<Rightarrow> nat option" where
  "digit_of =
     map_of [(CHR ''0'', 0), (CHR ''1'', 1), (CHR ''2'', 2), (CHR ''3'', 3), (CHR ''4'', 4),
             (CHR ''5'', 5), (CHR ''6'', 6), (CHR ''7'', 7), (CHR ''8'', 8), (CHR ''9'', 9)]"

text \<open>\<^verbatim>\<open>TO_CHAR(d, 'DD/MM/YYYY')\<close>: two digits, two digits, four digits (the years of
  the model stay below 10000).\<close>

definition TO_CHAR :: "date \<Rightarrow> string" where
  "TO_CHAR dt =
     (case dt of (y, m, d) \<Rightarrow>
        [digit_char (d div 10), digit_char d, CHR ''/'',
         digit_char (m div 10), digit_char m, CHR ''/'',
         digit_char (y div 1000), digit_char (y div 100), digit_char (y div 10), digit_char y])"

definition leap_year :: "nat \<Rightarrow> bool" where
  "leap_year y = (y mod 4 = 0 \<and> (y mod 100 \<noteq> 0 \<or> y mod 400 = 0))"

definition days_in_month :: "nat \<Rightarrow> nat \<Rightarrow> nat" where
  "days_in_month y m =
     (if m = 2 then (if leap_year y then 29 else 28)
      else if m = 4 \<or> m = 6 \<or> m = 9 \<or> m = 11 then 30 else 31)"

text \<open>\<^verbatim>\<open>TO_DATE(s, 'DD/MM/YYYY')\<close> on a text of the shape the service lets through. A
  field that reads zero counts as not given: a day or a month \<^verbatim>\<open>00\<close> is the first.
  The storage raises an error when the month or the day is beyond its range.\<close>

definition field_or_first :: "nat \<Rightarrow> nat" where
  "field_or_first n = (if n = 0 then 1 else n)"

definition TO_DATE :: "string \<Rightarrow> date option" where
  "TO_DATE s =
     (case map digit_of s of
        [Some d1, Some d2, None, Some m1, Some m2, None, Some y1, Some y2, Some y3, Some y4] \<Rightarrow>
          (let d = field_or_first (10 * d1 + d2);
               m = field_or_first (10 * m1 + m2);
               y = 1000 * y1 + 100 * y2 + 10 * y3 + y4
           in if m \<le> 12 \<and> d \<le> days_in_month y m then Some (y, m, d) else None)
      | _ \<Rightarrow> None)"

definition date_le :: "date \<Rightarrow> date \<Rightarrow> bool" where
  "date_le a b =
     (case a of (y, m, d) \<Rightarrow> case b of (y', m', d') \<Rightarrow>
        y < y' \<or> (y = y' \<and> (m < m' \<or> (m = m' \<and> d \<le> d'))))"

text \<open>The order of the storage on texts, character by character.\<close>

fun text_le :: "string \<Rightarrow> string \<Rightarrow> bool" where
  "text_le [] t = True"
| "text_le (c # s) [] = False"
| "text_le (c # s) (c' # t) =
     ((of_char c :: nat) < of_char c' \<or> (c = c' \<and> text_le s t))"

text \<open>\<^verbatim>\<open>ORDER BY key DESC\<close>, by insertion.\<close>

fun insert_desc :: "('a \<Rightarrow> string) \<Rightarrow> 'a \<Rightarrow> 'a list \<Rightarrow> 'a list" where
  "insert_desc key x [] = [x]"
| "insert_desc key x (y # ys) =
     (if text_le (key y) (key x) then x # y # ys else y # insert_desc key x ys)"

definition order_by_desc :: "('a \<Rightarrow> string) \<Rightarrow> 'a list \<Rightarrow> 'a list" where
  "order_by_desc key xs = foldr (insert_desc key) xs []"

subsection \<open>Rows as the statements return them\<close>

text \<open>Every statement on \<^verbatim>\<open>sales\<close> returns the columns
  \<^verbatim>\<open>sale_id, user_id, subtotal, discount_percentage, discount_amount, total_amount\<close>
  and \<^verbatim>\<open>TO_CHAR(sale_date, 'DD/MM/YYYY') as sale_date\<close>.\<close>

record Sales =
  e_sale_id :: int
  e_user_id :: int
  e_sale_date :: string
  e_subtotal :: number
  e_discount_percentage :: "number option"
  e_discount_amount :: number
  e_total_amount :: number

definition returning :: "sale_row \<Rightarrow> Sales" where
  "returning r =
     \<lparr>e_sale_id = sale_id r, e_user_id = user_id r,
      e_sale_date = TO_CHAR (ts_date (sale_date r)),
      e_subtotal = subtotal r, e_discount_percentage = discount_percentage r,
      e_discount_amount = discount_amount r, e_total_amount = total_amount r\<rparr>"

text \<open>Modelled from the spec: the classes \<^verbatim>\<open>Sales\<close> (entity) and \<^verbatim>\<open>SalesDTO\<close> are
  not among the source files. The spec has the entity mapper translate a storage row into
  a typed record and the transfer object normalise its numeric fields; on the typed rows
  of the model both keep every field.\<close>

definition new_Sales :: "Sales \<Rightarrow> Sales" where
  "new_Sales r = r"

definition SalesDTO_fromEntity :: "Sales \<Rightarrow> Sales" where
  "SalesDTO_fromEntity e = e"

subsection \<open>Calls on the storage\<close>

text \<open>Every call is recorded; the oracle may make it fail before it does anything.\<close>

definition storage_call ::
  "fault \<Rightarrow> query \<Rightarrow> (world \<Rightarrow> (error + 'a) \<times> world) \<Rightarrow> world \<Rightarrow> (error + 'a) \<times> world" where
  "storage_call flt q run w =
     (case issue flt q w of
        (True, w') \<Rightarrow> (Inl StorageError, w')
      | (False, w') \<Rightarrow> run w')"

text \<open>A statement is a function on tables. On the checked-out connection
  (\<^verbatim>\<open>client.query\<close>) it runs inside the open transaction; through the pool
  (\<^verbatim>\<open>pool.query\<close>) it runs on the committed tables and commits by itself.\<close>

definition on_client :: "(tables \<Rightarrow> error + 'a \<times> tables) \<Rightarrow> world \<Rightarrow> (error + 'a) \<times> world" where
  "on_client stmt w =
     (case stmt (view w) of
        Inl e \<Rightarrow> (Inl e, w)
      | Inr (x, t) \<Rightarrow> (Inr x, store t w))"

definition on_pool :: "(tables \<Rightarrow> error + 'a \<times> tables) \<Rightarrow> world \<Rightarrow> (error + 'a) \<times> world" where
  "on_pool stmt w =
     (case stmt (committed w) of
        Inl e \<Rightarrow> (Inl e, w)
      | Inr (x, t) \<Rightarrow> (Inr x, w\<lparr>committed := t\<rparr>))"

subsection \<open>Connection and transaction control\<close>

definition pool_connect :: "fault \<Rightarrow> world \<Rightarrow> (error + unit) \<times> world" where
  "pool_connect flt = storage_call flt Connect (\<lambda>w. (Inr (), w\<lparr>txn := None\<rparr>))"

text \<open>A released connection is not committed: a transaction it still has open is lost.\<close>

definition client_release :: "world \<Rightarrow> world" where
  "client_release w = w\<lparr>txn := None, calls := calls w @ [Release]\<rparr>"

definition query_begin :: "fault \<Rightarrow> world \<Rightarrow> (error + unit) \<times> world" where
  "query_begin flt =
     storage_call flt Begin
       (\<lambda>w. (Inr (), case txn w of None \<Rightarrow> w\<lparr>txn := Some (committed w)\<rparr> | Some _ \<Rightarrow> w))"

definition query_commit :: "fault \<Rightarrow> world \<Rightarrow> (error + unit) \<times> world" where
  "query_commit flt =
     storage_call flt Commit
       (\<lambda>w. (Inr (), case txn w of None \<Rightarrow> w | Some t \<Rightarrow> w\<lparr>committed := t, txn := None\<rparr>))"

definition query_rollback :: "fault \<Rightarrow> world \<Rightarrow> (error + unit) \<times> world" where
  "query_rollback flt = storage_call flt Rollback (\<lambda>w. (Inr (), w\<lparr>txn := None\<rparr>))"

subsection \<open>The statements\<close>

text \<open>\<^verbatim>\<open>INSERT INTO sales (user_id, subtotal, discount_percentage, discount_amount,
  total_amount) VALUES ($1, 0, 0, 0, 0) RETURNING ...\<close>, with the identity \<open>sid\<close> drawn
  from the sequence and the date from the clock.\<close>

definition INSERT_sale :: "rat \<Rightarrow> int \<Rightarrow> timestamp \<Rightarrow> tables \<Rightarrow> error + Sales \<times> tables" where
  "INSERT_sale uid sid now t =
     (case pg_int4 uid of
        None \<Rightarrow> Inl StorageError
      | Some u \<Rightarrow>
          if \<not> int4_ok sid \<or> sid \<in> set (map sale_id (sales t)) then Inl StorageError
          else
            (let row = \<lparr>sale_id = sid, user_id = u, sale_date = now, subtotal = Fin 0,
                        discount_percentage = Some (Fin 0), discount_amount = Fin 0,
                        total_amount = Fin 0\<rparr>
             in Inr (returning row, t\<lparr>sales := sales t @ [row]\<rparr>)))"

text \<open>\<^verbatim>\<open>SELECT quantity_in_stock FROM inventory WHERE product_id = $1 FOR UPDATE\<close>.\<close>

definition SELECT_stock_for_update :: "rat \<Rightarrow> tables \<Rightarrow> error + int list \<times> tables" where
  "SELECT_stock_for_update pid t =
     (case pg_int4 pid of
        None \<Rightarrow> Inl StorageError
      | Some p \<Rightarrow>
          Inr (map quantity_in_stock (filter (\<lambda>r. inv_product_id r = p) (inventory t)), t))"

text \<open>\<^verbatim>\<open>INSERT INTO sale_items (sale_id, product_id, quantity, price_at_sale)
  VALUES ($1, $2, $3, $4)\<close>. The row must pass the check \<^verbatim>\<open>quantity > 0\<close>.\<close>

definition INSERT_sale_item ::
  "rat \<Rightarrow> rat \<Rightarrow> rat \<Rightarrow> rat \<Rightarrow> int \<Rightarrow> tables \<Rightarrow> error + unit \<times> tables" where
  "INSERT_sale_item sid pid qty price iid t =
     (case (pg_int4 sid, pg_int4 pid, pg_int4 qty) of
        (Some s, Some p, Some n) \<Rightarrow>
          if \<not> int4_ok iid \<or> iid \<in> set (map sale_item_id (sale_items t)) \<or> n \<le> 0
          then Inl StorageError
          else
            Inr ((), t\<lparr>sale_items := sale_items t @
                   [\<lparr>sale_item_id = iid, si_sale_id = s, si_product_id = p,
                     si_quantity = n, si_price_at_sale = price\<rparr>]\<rparr>)
      | _ \<Rightarrow> Inl StorageError)"

text \<open>\<^verbatim>\<open>UPDATE inventory SET quantity_in_stock = quantity_in_stock - $1,
  last_updated = CURRENT_TIMESTAMP WHERE product_id = $2\<close>. Every row it writes must
  pass the check \<^verbatim>\<open>quantity_in_stock >= 0\<close>.\<close>

definition UPDATE_stock :: "rat \<Rightarrow> rat \<Rightarrow> timestamp \<Rightarrow> tables \<Rightarrow> error + unit \<times> tables" where
  "UPDATE_stock qty pid now t =
     (case (pg_int4 qty, pg_int4 pid) of
        (Some n, Some p) \<Rightarrow>
          if \<exists>r \<in> set (inventory t).
               inv_product_id r = p \<and>
               (\<not> int4_ok (quantity_in_stock r - n) \<or> quantity_in_stock r - n < 0)
          then Inl StorageError
          else
            Inr ((), t\<lparr>inventory :=
                   map (\<lambda>r. if inv_product_id r = p
                             then r\<lparr>quantity_in_stock := quantity_in_stock r - n,
                                    last_updated := now\<rparr>
                             else r)
                       (inventory t)\<rparr>)
      | _ \<Rightarrow> Inl StorageError)"

text \<open>\<^verbatim>\<open>UPDATE sales SET subtotal = $1, discount_percentage = $2, discount_amount = $3,
  total_amount = $4 WHERE sale_id = $5 RETURNING ...\<close>.\<close>

definition UPDATE_sale_totals ::
  "number \<Rightarrow> number option \<Rightarrow> number \<Rightarrow> number \<Rightarrow> rat \<Rightarrow> tables \<Rightarrow>
   error + Sales list \<times> tables" where
  "UPDATE_sale_totals sub pct disc tot sid t =
     (case pg_int4 sid of
        None \<Rightarrow> Inl StorageError
      | Some s \<Rightarrow>
          (let rows = map (\<lambda>r. if sale_id r = s
                                then r\<lparr>subtotal := sub, discount_percentage := pct,
                                       discount_amount := disc, total_amount := tot\<rparr>
                                else r)
                          (sales t)
           in Inr (map returning (filter (\<lambda>r. sale_id r = s) rows), t\<lparr>sales := rows\<rparr>)))"

text \<open>\<^verbatim>\<open>UPDATE sales SET total_amount = $1 WHERE sale_id = $2 RETURNING ...\<close>.\<close>

definition UPDATE_total_amount :: "rat \<Rightarrow> rat \<Rightarrow> tables \<Rightarrow> error + Sales list \<times> tables" where
  "UPDATE_total_amount tot sid t =
     (case pg_int4 sid of
        None \<Rightarrow> Inl StorageError
      | Some s \<Rightarrow>
          (let rows = map (\<lambda>r. if sale_id r = s then r\<lparr>total_amount := Fin tot\<rparr> else r) (sales t)
           in Inr (map returning (filter (\<lambda>r. sale_id r = s) rows), t\<lparr>sales := rows\<rparr>)))"

text \<open>\<^verbatim>\<open>SELECT ... FROM sales WHERE sale_id = $1\<close>.\<close>

definition SELECT_sale_by_id :: "rat \<Rightarrow> tables \<Rightarrow> error + Sales list \<times> tables" where
  "SELECT_sale_by_id sid t =
     (case pg_int4 sid of
        None \<Rightarrow> Inl StorageError
      | Some s \<Rightarrow> Inr (map returning (filter (\<lambda>r. sale_id r = s) (sales t)), t))"

text \<open>
  \<^verbatim>\<open>SELECT ..., TO_CHAR(sale_date, 'DD/MM/YYYY') as sale_date FROM sales
  WHERE sale_date::date BETWEEN TO_DATE($1, 'DD/MM/YYYY') AND TO_DATE($2, 'DD/MM/YYYY')
  ORDER BY sale_date DESC\<close>.
  In the \<^verbatim>\<open>WHERE\<close> clause \<^verbatim>\<open>sale_date\<close> is the column of the table. In
  \<^verbatim>\<open>ORDER BY\<close> a plain name that is both an output column and a column of the table
  is the output column (SQL, and PostgreSQL with it): the rows are ordered by the text
  \<^verbatim>\<open>TO_CHAR(sale_date, 'DD/MM/YYYY')\<close>.
\<close>

definition SELECT_sales_between :: "string \<Rightarrow> string \<Rightarrow> tables \<Rightarrow> error + Sales list \<times> tables" where
  "SELECT_sales_between first second t =
     (case (TO_DATE first, TO_DATE second) of
        (Some lo, Some hi) \<Rightarrow>
          Inr (order_by_desc e_sale_date
                 (map returning
                    (filter (\<lambda>r. date_le lo (ts_date (sale_date r)) \<and>
                                  date_le (ts_date (sale_date r)) hi)
                            (sales t))),
               t)
      | _ \<Rightarrow> Inl StorageError)"

section \<open>SalesRepository\<close>

text \<open>Each method sends one statement through the pool and rethrows a failure under
  its own message. \<^verbatim>\<open>updateWithDiscount\<close> is handed the subtotal as the storage
  returned it and the percentage the service has found to be a number.\<close>

definition updateTotalAmount :: "fault \<Rightarrow> rat \<Rightarrow> rat \<Rightarrow> world \<Rightarrow> (error + Sales option) \<times> world" where
  "updateTotalAmount flt sid tot w =
     (case storage_call flt (UpdateTotalAmount tot sid) (on_pool (UPDATE_total_amount tot sid)) w of
        (Inl e, w') \<Rightarrow> (Inl (Wrapped FailedToUpdateSaleTotalAmount e), w')
      | (Inr [], w') \<Rightarrow> (Inr None, w')
      | (Inr (r # rs), w') \<Rightarrow> (Inr (Some (new_Sales r)), w'))"

definition updateWithDiscount ::
  "fault \<Rightarrow> rat \<Rightarrow> number \<Rightarrow> rat \<Rightarrow> world \<Rightarrow> (error + Sales option) \<times> world" where
  "updateWithDiscount flt sid sub pct w =
     (let discount_amount' = js_div (js_mul sub (Fin pct)) (Fin 100);
          total_amount' = js_sub sub discount_amount'
      in case storage_call flt
                (UpdateSaleTotals sub (Some (Fin pct)) discount_amount' total_amount' sid)
                (on_pool
                   (UPDATE_sale_totals sub (Some (Fin pct)) discount_amount' total_amount' sid))
                w of
           (Inl e, w') \<Rightarrow> (Inl (Wrapped FailedToUpdateSaleWithDiscount e), w')
         | (Inr [], w') \<Rightarrow> (Inr None, w')
         | (Inr (r # rs), w') \<Rightarrow> (Inr (Some (new_Sales r)), w'))"

definition findById :: "fault \<Rightarrow> rat \<Rightarrow> world \<Rightarrow> (error + Sales option) \<times> world" where
  "findById flt sid w =
     (case storage_call flt (SelectSaleById sid) (on_pool (SELECT_sale_by_id sid)) w of
        (Inl e, w') \<Rightarrow> (Inl (Wrapped FailedToFindSaleById e), w')
      | (Inr [], w') \<Rightarrow> (Inr None, w')
      | (Inr (r # rs), w') \<Rightarrow> (Inr (Some (new_Sales r)), w'))"

definition findBetweenDates ::
  "fault \<Rightarrow> string \<Rightarrow> string \<Rightarrow> world \<Rightarrow> (error + Sales list) \<times> world" where
  "findBetweenDates flt startDate endDate w =
     (case storage_call flt (SelectSalesBetween startDate endDate)
             (on_pool (SELECT_sales_between startDate endDate)) w of
        (Inl e, w') \<Rightarrow> (Inl (Wrapped FailedToFindSalesBetweenDates e), w')
      | (Inr rows, w') \<Rightarrow> (Inr (map new_Sales rows), w'))"

section \<open>SalesServices\<close>

subsection \<open>getSalesBetweenDates\<close>

text \<open>The pattern \<^verbatim>\<open>/^\d{2}\/\d{2}\/\d{4}$/\<close>: a sequence of atoms, matched against
  the whole text.\<close>

datatype atom = Digit | Lit char

fun regex_test :: "atom list \<Rightarrow> string \<Rightarrow> bool" where
  "regex_test [] s = (s = [])"
| "regex_test (a # as) [] = False"
| "regex_test (Digit # as) (c # s) = (digit_of c \<noteq> None \<and> regex_test as s)"
| "regex_test (Lit x # as) (c # s) = (c = x \<and> regex_test as s)"

definition dateRegex :: "atom list" where
  "dateRegex = [Digit, Digit, Lit (CHR ''/''), Digit, Digit, Lit (CHR ''/''),
                Digit, Digit, Digit, Digit]"

text \<open>A date parameter is a text or absent; \<^verbatim>\<open>!s\<close> holds of an absent and of an empty
  text.\<close>

definition absent :: "string option \<Rightarrow> bool" where
  "absent s = (case s of None \<Rightarrow> True | Some t \<Rightarrow> t = [])"

definition getSalesBetweenDates ::
  "fault \<Rightarrow> string option \<Rightarrow> string option \<Rightarrow> world \<Rightarrow> (error + Sales list) \<times> world" where
  "getSalesBetweenDates flt startDate endDate w =
     (if absent startDate \<or> absent endDate then (Inl (Wrapped FailedToGetSales DatesRequired), w)
      else if \<not> regex_test dateRegex (the startDate) \<or> \<not> regex_test dateRegex (the endDate)
      then (Inl (Wrapped FailedToGetSales InvalidDateFormat), w)
      else
        (case findBetweenDates flt (the startDate) (the endDate) w of
           (Inl e, w') \<Rightarrow> (Inl (Wrapped FailedToGetSales e), w')
         | (Inr found, w') \<Rightarrow> (Inr (map SalesDTO_fromEntity found), w')))"

subsection \<open>createSaleWithItems\<close>

text \<open>The three guards under \<^verbatim>\<open>// Validate inputs\<close>. \<^verbatim>\<open>items\<close> is a list of
  items, or absent (\<^verbatim>\<open>undefined\<close>, \<^verbatim>\<open>null\<close>, or no array). The third guard
  compares numbers: \<^verbatim>\<open>null\<close> counts as \<^verbatim>\<open>0\<close>, and \<^verbatim>\<open>NaN\<close> is neither below
  \<^verbatim>\<open>0\<close> nor above \<^verbatim>\<open>100\<close>.\<close>

definition validate_inputs :: "jsval \<Rightarrow> item list option \<Rightarrow> jsval \<Rightarrow> error option" where
  "validate_inputs user_id' items discount_percentage' =
     (if \<not> truthy user_id' \<or> isNaN_js user_id' then Some InvalidUserID
      else if items = None \<or> items = Some [] then Some SaleMustHaveItems
      else if js_lt (ToNumber discount_percentage') (Fin 0) \<or>
              js_lt (Fin 100) (ToNumber discount_percentage')
      then Some DiscountOutOfRange
      else None)"

text \<open>\<^verbatim>\<open>// 1. Create sale record\<close>\<close>

definition create_sale_record :: "fault \<Rightarrow> jsval \<Rightarrow> world \<Rightarrow> (error + Sales) \<times> world" where
  "create_sale_record flt user_id' =
     storage_call flt (InsertSale (number_of user_id'))
       (\<lambda>w. on_client (INSERT_sale (number_of user_id') (sale_seq w) (clock w))
               (w\<lparr>sale_seq := sale_seq w + 1\<rparr>))"

text \<open>\<^verbatim>\<open>// 2. Create sale items and update inventory atomically\<close>: the body of the
  loop for one item. It returns what the item adds to the subtotal.\<close>

definition sale_item_step :: "fault \<Rightarrow> int \<Rightarrow> item \<Rightarrow> world \<Rightarrow> (error + number) \<times> world" where
  "sale_item_step flt sid it w =
     (if \<not> truthy (product_id it) \<or> \<not> truthy (quantity it) \<or> \<not> truthy (price_at_sale it)
      then (Inl ItemFieldsRequired, w)
      else
        (let pid = number_of (product_id it);
             qty = number_of (quantity it);
             price = number_of (price_at_sale it)
         in case storage_call flt (SelectStockForUpdate pid)
                   (on_client (SELECT_stock_for_update pid)) w of
              (Inl e, w1) \<Rightarrow> (Inl e, w1)
            | (Inr [], w1) \<Rightarrow> (Inl (InventoryNotFound pid), w1)
            | (Inr (availableStock # rows), w1) \<Rightarrow>
                if of_int availableStock < qty
                then (Inl (InsufficientStock pid availableStock qty), w1)
                else
                  (case storage_call flt (InsertSaleItem (of_int sid) pid qty price)
                          (\<lambda>w. on_client
                                  (INSERT_sale_item (of_int sid) pid qty price (sale_item_seq w))
                                  (w\<lparr>sale_item_seq := sale_item_seq w + 1\<rparr>)) w1 of
                     (Inl e, w2) \<Rightarrow> (Inl e, w2)
                   | (Inr u, w2) \<Rightarrow>
                       (case storage_call flt (UpdateStock qty pid)
                               (\<lambda>w. on_client (UPDATE_stock qty pid (clock w)) w) w2 of
                          (Inl e, w3) \<Rightarrow> (Inl e, w3)
                        | (Inr u', w3) \<Rightarrow>
                            (Inr (js_mul (Fin (parseFloat_js price)) (Fin (parseInt_js qty))),
                             w3)))))"

fun sale_items_loop ::
  "fault \<Rightarrow> int \<Rightarrow> item list \<Rightarrow> number \<Rightarrow> world \<Rightarrow> (error + number) \<times> world" where
  "sale_items_loop flt sid [] sub w = (Inr sub, w)"
| "sale_items_loop flt sid (it # its) sub w =
     (case sale_item_step flt sid it w of
        (Inl e, w') \<Rightarrow> (Inl e, w')
      | (Inr amount, w') \<Rightarrow> sale_items_loop flt sid its (js_add sub amount) w')"

text \<open>\<^verbatim>\<open>// 3. Calculate discount and total\<close>, \<^verbatim>\<open>// 4. Update sale with calculated
  totals\<close>, the \<^verbatim>\<open>COMMIT\<close>, and the transfer object made of the first updated row
  (of \<^verbatim>\<open>undefined\<close> when there is none, which throws).\<close>

definition update_totals_and_commit ::
  "fault \<Rightarrow> int \<Rightarrow> number \<Rightarrow> jsval \<Rightarrow> world \<Rightarrow> (error + Sales) \<times> world" where
  "update_totals_and_commit flt sid sub discount_percentage' w =
     (let discount_amount' = js_div (js_mul sub (ToNumber discount_percentage')) (Fin 100);
          total_amount' = js_sub sub discount_amount'
      in case storage_call flt
                (UpdateSaleTotals sub (bind_numeric discount_percentage') discount_amount'
                   total_amount' (of_int sid))
                (on_client
                   (UPDATE_sale_totals sub (bind_numeric discount_percentage') discount_amount'
                      total_amount' (of_int sid))) w of
           (Inl e, w1) \<Rightarrow> (Inl e, w1)
         | (Inr rows, w1) \<Rightarrow>
             (case query_commit flt w1 of
                (Inl e, w2) \<Rightarrow> (Inl e, w2)
              | (Inr u, w2) \<Rightarrow>
                  (case rows of
                     [] \<Rightarrow> (Inl TypeError, w2)
                   | r # rs \<Rightarrow> (Inr (SalesDTO_fromEntity r), w2))))"

text \<open>The body of the \<^verbatim>\<open>try\<close> block. \<^verbatim>\<open>discount_percentage\<close> is declared with
  the default \<^verbatim>\<open>0\<close>.\<close>

definition createSaleWithItems_try ::
  "fault \<Rightarrow> jsval \<Rightarrow> item list option \<Rightarrow> jsval \<Rightarrow> world \<Rightarrow> (error + Sales) \<times> world" where
  "createSaleWithItems_try flt user_id' items discount w =
     (let discount_percentage' = default_parameter (JNum 0) discount
      in case query_begin flt w of
           (Inl e, w1) \<Rightarrow> (Inl e, w1)
         | (Inr u, w1) \<Rightarrow>
             (case validate_inputs user_id' items discount_percentage' of
                Some e \<Rightarrow> (Inl e, w1)
              | None \<Rightarrow>
                  (case create_sale_record flt user_id' w1 of
                     (Inl e, w2) \<Rightarrow> (Inl e, w2)
                   | (Inr sale, w2) \<Rightarrow>
                       (case sale_items_loop flt (e_sale_id sale) (the items) (Fin 0) w2 of
                          (Inl e, w3) \<Rightarrow> (Inl e, w3)
                        | (Inr sub, w3) \<Rightarrow>
                            update_totals_and_commit flt (e_sale_id sale) sub
                              discount_percentage' w3))))"

text \<open>The whole method: the connection is taken before the \<^verbatim>\<open>try\<close>; the
  \<^verbatim>\<open>catch\<close> block rolls back and rethrows under the method's message (an error of
  the rollback itself escapes as it is); \<^verbatim>\<open>finally\<close> releases the connection.\<close>

definition createSaleWithItems ::
  "fault \<Rightarrow> jsval \<Rightarrow> item list option \<Rightarrow> jsval \<Rightarrow> world \<Rightarrow> (error + Sales) \<times> world" where
  "createSaleWithItems flt user_id' items discount w =
     (case pool_connect flt w of
        (Inl e, w0) \<Rightarrow> (Inl e, w0)
      | (Inr u, w0) \<Rightarrow>
          (case createSaleWithItems_try flt user_id' items discount w0 of
             (Inr dto, w1) \<Rightarrow> (Inr dto, client_release w1)
           | (Inl e, w1) \<Rightarrow>
               (case query_rollback flt w1 of
                  (Inl e', w2) \<Rightarrow> (Inl e', client_release w2)
                | (Inr u', w2) \<Rightarrow>
                    (Inl (Wrapped FailedToCreateSaleWithItems e), client_release w2))))"

subsection \<open>updateSaleTotal and applyDiscount\<close>

definition updateSaleTotal ::
  "fault \<Rightarrow> jsval \<Rightarrow> jsval \<Rightarrow> world \<Rightarrow> (error + Sales option) \<times> world" where
  "updateSaleTotal flt sale_id' total_amount' w =
     (if \<not> truthy sale_id' \<or> isNaN_js sale_id'
      then (Inl (Wrapped FailedToUpdateSaleTotal InvalidSaleID), w)
      else if eq_null total_amount' \<or> isNaN_js total_amount'
      then (Inl (Wrapped FailedToUpdateSaleTotal InvalidTotalAmount), w)
      else
        (case updateTotalAmount flt (number_of sale_id') (number_of total_amount') w of
           (Inl e, w') \<Rightarrow> (Inl (Wrapped FailedToUpdateSaleTotal e), w')
         | (Inr None, w') \<Rightarrow> (Inr None, w')
         | (Inr (Some sale), w') \<Rightarrow> (Inr (Some (SalesDTO_fromEntity sale)), w')))"

definition applyDiscount ::
  "fault \<Rightarrow> jsval \<Rightarrow> jsval \<Rightarrow> world \<Rightarrow> (error + Sales option) \<times> world" where
  "applyDiscount flt sale_id' discount_percentage' w =
     (if \<not> truthy sale_id' \<or> isNaN_js sale_id'
      then (Inl (Wrapped FailedToApplyDiscount InvalidSaleID), w)
      else if eq_null discount_percentage' \<or> isNaN_js discount_percentage'
      then (Inl (Wrapped FailedToApplyDiscount InvalidDiscountPercentage), w)
      else if number_of discount_percentage' < 0 \<or> number_of discount_percentage' > 100
      then (Inl (Wrapped FailedToApplyDiscount DiscountOutOfRange), w)
      else
        (case findById flt (number_of sale_id') w of
           (Inl e, w1) \<Rightarrow> (Inl (Wrapped FailedToApplyDiscount e), w1)
         | (Inr None, w1) \<Rightarrow> (Inl (Wrapped FailedToApplyDiscount SaleNotFound), w1)
         | (Inr (Some currentSale), w1) \<Rightarrow>
             (case updateWithDiscount flt (number_of sale_id') (e_subtotal currentSale)
                     (number_of discount_percentage') w1 of
                (Inl e, w2) \<Rightarrow> (Inl (Wrapped FailedToApplyDiscount e), w2)
              | (Inr None, w2) \<Rightarrow> (Inr None, w2)
              | (Inr (Some sale), w2) \<Rightarrow> (Inr (Some (SalesDTO_fromEntity sale)), w2))))"

section \<open>Notions used to state the properties\<close>

text \<open>The definitions of this section are not part of the program. They name what the
  theorems below say about it.\<close>

text \<open>Between two states of a connection with an open transaction: nothing has been
  committed, the transaction is still open, and the calls of the first are a prefix of
  the calls of the second. And between any two states: the calls of the first are a
  prefix of the calls of the second, and the storage has refused none of the calls made
  since.\<close>

definition tx_step :: "world \<Rightarrow> world \<Rightarrow> bool" where
  "tx_step w w' = (committed w' = committed w \<and> txn w' \<noteq> None \<and> (\<exists>ls. calls w' = calls w @ ls))"

definition accepted :: "fault \<Rightarrow> world \<Rightarrow> world \<Rightarrow> bool" where
  "accepted flt w w' =
     (\<exists>ls. calls w' = calls w @ ls \<and> (\<forall>i<length ls. \<not> flt (length (calls w) + i) (ls ! i)))"

text \<open>What the \<^verbatim>\<open>UPDATE\<close> of the inventory does to one row.\<close>

definition sell :: "int \<Rightarrow> int \<Rightarrow> timestamp \<Rightarrow> inventory_row \<Rightarrow> inventory_row" where
  "sell p n now r =
     (if inv_product_id r = p
      then r\<lparr>quantity_in_stock := quantity_in_stock r - n, last_updated := now\<rparr> else r)"

text \<open>What an item adds to the subtotal, \<^verbatim>\<open>price_at_sale * quantity\<close> rounded to a
  double; the subtotal after a list of items, each amount added in turn and each sum
  rounded to a double; the quantity sold of a product, summed over the items that name
  it; and the stock of an inventory row after these sales.\<close>

definition line_amount :: "item \<Rightarrow> number" where
  "line_amount it =
     js_mul (Fin (parseFloat_js (number_of (price_at_sale it))))
            (Fin (parseInt_js (number_of (quantity it))))"

definition add_lines :: "number \<Rightarrow> item list \<Rightarrow> number" where
  "add_lines sub its = foldl (\<lambda>s it. js_add s (line_amount it)) sub its"

definition subtotal_of :: "item list \<Rightarrow> number" where
  "subtotal_of its = add_lines (Fin 0) its"

definition sold_of :: "int \<Rightarrow> item list \<Rightarrow> rat" where
  "sold_of p its =
     sum_list (map (\<lambda>it. number_of (quantity it))
                 (filter (\<lambda>it. number_of (product_id it) = of_int p) its))"

definition stock_after :: "item list \<Rightarrow> inventory_row \<Rightarrow> rat" where
  "stock_after its r = of_int (quantity_in_stock r) - sold_of (inv_product_id r) its"

text \<open>An item that passes the guard of the loop and the check of the schema on its
  quantity; an item whose product has an inventory row; an inventory row whose product
  is named by an item of a list.\<close>

definition sellable :: "item \<Rightarrow> bool" where
  "sellable it =
     (truthy (product_id it) \<and> truthy (quantity it) \<and> truthy (price_at_sale it) \<and>
      0 < number_of (quantity it))"

definition in_inventory :: "tables \<Rightarrow> item \<Rightarrow> bool" where
  "in_inventory t it =
     (\<exists>r \<in> set (inventory t). of_int (inv_product_id r) = number_of (product_id it))"

definition sold_in :: "item list \<Rightarrow> inventory_row \<Rightarrow> bool" where
  "sold_in its r = (\<exists>it \<in> set its. number_of (product_id it) = of_int (inv_product_id r))"

text \<open>What the \<^verbatim>\<open>UPDATE\<close> of the four totals, and the one of
  \<^verbatim>\<open>total_amount\<close> alone, do to one row of \<^verbatim>\<open>sales\<close>.\<close>

definition set_totals ::
  "int \<Rightarrow> number \<Rightarrow> number option \<Rightarrow> number \<Rightarrow> number \<Rightarrow> sale_row \<Rightarrow> sale_row" where
  "set_totals s sub pct disc tot r =
     (if sale_id r = s
      then r\<lparr>subtotal := sub, discount_percentage := pct, discount_amount := disc, total_amount := tot\<rparr>
      else r)"

definition set_total :: "int \<Rightarrow> rat \<Rightarrow> sale_row \<Rightarrow> sale_row" where
  "set_total s tot r = (if sale_id r = s then r\<lparr>total_amount := Fin tot\<rparr> else r)"

text \<open>The number a stored percentage stands for in a product: \<^verbatim>\<open>NULL\<close> is what
  \<^verbatim>\<open>null\<close> was stored as, and \<^verbatim>\<open>null\<close> counts as \<^verbatim>\<open>0\<close>.\<close>

definition percentage_number :: "number option \<Rightarrow> number" where
  "percentage_number p = (case p of None \<Rightarrow> Fin 0 | Some x \<Rightarrow> x)"

text \<open>The two amounts of a sale follow from its subtotal and its percentage as the code
  computes them, with no rounding to two decimal places.\<close>

definition amounts_recomputed :: "Sales \<Rightarrow> bool" where
  "amounts_recomputed s =
     (e_discount_amount s =
        js_div (js_mul (e_subtotal s) (percentage_number (e_discount_percentage s))) (Fin 100) \<and>
      e_total_amount s = js_sub (e_subtotal s) (e_discount_amount s))"

text \<open>The invariant in the words of the specification:
  \<^verbatim>\<open>discount_amount == round(subtotal * discount_percentage / 100, 2)\<close> and
  \<^verbatim>\<open>total_amount == subtotal - discount_amount\<close>. The amount is compared with the
  double nearest to the rounded value.\<close>

definition round2 :: "rat \<Rightarrow> rat" where
  "round2 x = of_int (round (x * 100)) / 100"

definition rounded_invariant :: "Sales \<Rightarrow> bool" where
  "rounded_invariant s =
     (case (e_subtotal s, e_discount_percentage s) of
        (Fin sub, Some (Fin pct)) \<Rightarrow>
          e_discount_amount s = fl (round2 (sub * pct / 100)) \<and>
          e_total_amount s = js_sub (e_subtotal s) (e_discount_amount s)
      | _ \<Rightarrow> False)"

text \<open>The totals of a sale in the words of the specification, read in exact arithmetic:
  the subtotal is the sum over the items of \<^verbatim>\<open>price_at_sale * quantity\<close>,
  \<^verbatim>\<open>discount_amount = subtotal * discount_percentage / 100\<close> and
  \<^verbatim>\<open>total_amount = subtotal - discount_amount\<close>.\<close>

definition exact_totals :: "item list \<Rightarrow> rat \<Rightarrow> Sales \<Rightarrow> bool" where
  "exact_totals its pct s =
     (case (e_subtotal s, e_discount_amount s, e_total_amount s) of
        (Fin sub, Fin disc, Fin tot) \<Rightarrow>
          sub = sum_list (map (\<lambda>it. number_of (price_at_sale it) * number_of (quantity it)) its) \<and>
          disc = sub * pct / 100 \<and>
          tot = sub - disc
      | _ \<Rightarrow> False)"

text \<open>The shape \<^verbatim>\<open>DD/MM/YYYY\<close> in the words of the specification: two digits, a
  slash, two digits, a slash, four digits.\<close>

definition DD_MM_YYYY_shape :: "string \<Rightarrow> bool" where
  "DD_MM_YYYY_shape s =
     (\<exists>d1 d2 m1 m2 y1 y2 y3 y4.
        s = [d1, d2, CHR ''/'', m1, m2, CHR ''/'', y1, y2, y3, y4] \<and>
        set [d1, d2, m1, m2, y1, y2, y3, y4] \<subseteq> set ''0123456789'')"

subsection \<open>A shop to run the scenarios in\<close>

text \<open>A storage that refuses nothing, and one that refuses every \<^verbatim>\<open>INSERT\<close> into
  \<^verbatim>\<open>sale_items\<close>; a shop with ten of product 1 and two of product 2 in stock and no
  sale yet; a line item of numbers; the double a decimal stands for; and a ledger of two
  sales, of 20 January and of 15 February 2024.\<close>

definition no_fault :: fault where
  "no_fault n q = False"

definition refuse_item_inserts :: fault where
  "refuse_item_inserts n q = (case q of InsertSaleItem a b c d \<Rightarrow> True | _ \<Rightarrow> False)"

definition shop :: world where
  "shop =
     \<lparr>committed =
        \<lparr>sales = [], sale_items = [],
         inventory =
           [\<lparr>inventory_id = 1, inv_product_id = 1, quantity_in_stock = 10,
             last_updated = \<lparr>ts_date = (2024, 1, 2), ts_secs = 0\<rparr>\<rparr>,
            \<lparr>inventory_id = 2, inv_product_id = 2, quantity_in_stock = 2,
             last_updated = \<lparr>ts_date = (2024, 1, 2), ts_secs = 0\<rparr>\<rparr>]\<rparr>,
      txn = None, sale_seq = 1, sale_item_seq = 1,
      clock = \<lparr>ts_date = (2024, 1, 15), ts_secs = 43200\<rparr>, calls = []\<rparr>"

definition line :: "rat \<Rightarrow> rat \<Rightarrow> rat \<Rightarrow> item" where
  "line p q price = \<lparr>product_id = JNum p, quantity = JNum q, price_at_sale = JNum price\<rparr>"

definition double :: "rat \<Rightarrow> rat" where
  "double r = (case fl r of Fin d \<Rightarrow> d | _ \<Rightarrow> 0)"

definition ledger :: world where
  "ledger =
     \<lparr>committed =
        \<lparr>sales =
           [\<lparr>sale_id = 1, user_id = 7, sale_date = \<lparr>ts_date = (2024, 1, 20), ts_secs = 36000\<rparr>,
             subtotal = Fin 15, discount_percentage = Some (Fin 10), discount_amount = Fin (3 / 2),
             total_amount = Fin (27 / 2)\<rparr>,
            \<lparr>sale_id = 2, user_id = 8, sale_date = \<lparr>ts_date = (2024, 2, 15), ts_secs = 54000\<rparr>,
             subtotal = Fin (double (111 / 20)), discount_percentage = Some (Fin 0),
             discount_amount = Fin 0, total_amount = Fin (double (111 / 20))\<rparr>],
         sale_items = [], inventory = []\<rparr>,
      txn = None, sale_seq = 3, sale_item_seq = 1,
      clock = \<lparr>ts_date = (2024, 3, 1), ts_secs = 0\<rparr>, calls = []\<rparr>"

section \<open>Transactions: what a step inside one may touch\<close>

lemma tx_step_refl: "txn w \<noteq> None \<Longrightarrow> tx_step w w"
  by (simp add: tx_step_def)

lemma tx_step_trans: "tx_step w w1 \<Longrightarrow> tx_step w1 w2 \<Longrightarrow> tx_step w w2"
  by (auto simp: tx_step_def)

lemma storage_call_eq:
  "storage_call flt q run w =
     (if flt (length (calls w)) q then (Inl StorageError, w\<lparr>calls := calls w @ [q]\<rparr>)
      else run (w\<lparr>calls := calls w @ [q]\<rparr>))"
  by (simp add: storage_call_def issue_def)

lemma on_client_tx:
  assumes "txn w \<noteq> None" and "on_client stmt w = (r, w')"
  shows "committed w' = committed w \<and> txn w' \<noteq> None \<and> calls w' = calls w"
  using assms
  by (auto simp: on_client_def store_def split: sum.splits prod.splits option.splits)

lemma storage_call_tx:
  assumes "txn w \<noteq> None" and "storage_call flt q run w = (r, w')"
    and "\<And>w r w'. txn w \<noteq> None \<Longrightarrow> run w = (r, w') \<Longrightarrow>
           committed w' = committed w \<and> txn w' \<noteq> None \<and> calls w' = calls w"
  shows "tx_step w w'"
proof (cases "flt (length (calls w)) q")
  case True
  with assms(1,2) show ?thesis by (auto simp: storage_call_eq tx_step_def)
next
  case False
  let ?w1 = "w\<lparr>calls := calls w @ [q]\<rparr>"
  from False assms(2) have run: "run ?w1 = (r, w')"
    by (simp add: storage_call_eq)
  have "txn ?w1 \<noteq> None" using assms(1) by simp
  from assms(3)[OF this run] show ?thesis
    by (simp add: tx_step_def)
qed

lemma select_stock_tx:
  assumes "txn w \<noteq> None"
    and "storage_call flt (SelectStockForUpdate pid) (on_client (SELECT_stock_for_update pid)) w = (r, w')"
  shows "tx_step w w'"
  using assms(1,2) by (rule storage_call_tx) (rule on_client_tx)

lemma insert_item_tx:
  assumes "txn w \<noteq> None"
    and "storage_call flt q (\<lambda>w. on_client (INSERT_sale_item a b c d (sale_item_seq w))
                                  (w\<lparr>sale_item_seq := sale_item_seq w + 1\<rparr>)) w = (r, w')"
  shows "tx_step w w'"
  using assms(1,2)
proof (rule storage_call_tx)
  fix w r w'
  assume a: "txn w \<noteq> None"
    and b: "on_client (INSERT_sale_item a b c d (sale_item_seq w)) (w\<lparr>sale_item_seq := sale_item_seq w + 1\<rparr>) = (r, w')"
  have "txn (w\<lparr>sale_item_seq := sale_item_seq w + 1\<rparr>) \<noteq> None" using a by simp
  from on_client_tx[OF this b] show "committed w' = committed w \<and> txn w' \<noteq> None \<and> calls w' = calls w"
    by simp
qed

lemma update_stock_tx:
  assumes "txn w \<noteq> None"
    and "storage_call flt q (\<lambda>w. on_client (UPDATE_stock a b (clock w)) w) w = (r, w')"
  shows "tx_step w w'"
  using assms(1,2) by (rule storage_call_tx) (rule on_client_tx)

lemma sale_item_step_tx:
  assumes "txn w \<noteq> None" and "sale_item_step flt sid it w = (r, w')"
  shows "tx_step w w'"
proof (cases "\<not> truthy (product_id it) \<or> \<not> truthy (quantity it) \<or> \<not> truthy (price_at_sale it)")
  case True
  with assms show ?thesis by (auto simp: sale_item_step_def tx_step_def)
next
  case False
  define pid where "pid = number_of (product_id it)"
  define qty where "qty = number_of (quantity it)"
  define price where "price = number_of (price_at_sale it)"
  obtain r1 w1 where s1: "storage_call flt (SelectStockForUpdate pid) (on_client (SELECT_stock_for_update pid)) w = (r1, w1)"
    by (cases "storage_call flt (SelectStockForUpdate pid) (on_client (SELECT_stock_for_update pid)) w")
  have t1: "tx_step w w1" by (rule select_stock_tx[OF assms(1) s1])
  hence n1: "txn w1 \<noteq> None" by (simp add: tx_step_def)
  obtain r2 w2 where s2: "storage_call flt (InsertSaleItem (of_int sid) pid qty price)
                          (\<lambda>w. on_client
                                  (INSERT_sale_item (of_int sid) pid qty price (sale_item_seq w))
                                  (w\<lparr>sale_item_seq := sale_item_seq w + 1\<rparr>)) w1 = (r2, w2)"
    by (cases "storage_call flt (InsertSaleItem (of_int sid) pid qty price)
                          (\<lambda>w. on_client
                                  (INSERT_sale_item (of_int sid) pid qty price (sale_item_seq w))
                                  (w\<lparr>sale_item_seq := sale_item_seq w + 1\<rparr>)) w1")
  have t2: "tx_step w1 w2" by (rule insert_item_tx[OF n1 s2])
  hence n2: "txn w2 \<noteq> None" by (simp add: tx_step_def)
  obtain r3 w3 where s3: "storage_call flt (UpdateStock qty pid)
                               (\<lambda>w. on_client (UPDATE_stock qty pid (clock w)) w) w2 = (r3, w3)"
    by (cases "storage_call flt (UpdateStock qty pid)
                               (\<lambda>w. on_client (UPDATE_stock qty pid (clock w)) w) w2")
  have t3: "tx_step w2 w3" by (rule update_stock_tx[OF n2 s3])
  have t12: "tx_step w w2" by (rule tx_step_trans[OF t1 t2])
  have t13: "tx_step w w3" by (rule tx_step_trans[OF t12 t3])
  from assms(2) False s1 s2 s3 have "w' = w1 \<or> w' = w2 \<or> w' = w3"
    unfolding sale_item_step_def pid_def[symmetric] qty_def[symmetric] price_def[symmetric] Let_def
    by (auto split: sum.splits list.splits if_splits)
  with t1 t12 t13 show ?thesis by auto
qed

lemma accepted_refl: "accepted flt w w"
  by (simp add: accepted_def)

lemma accepted_trans:
  assumes "accepted flt w w1" and "accepted flt w1 w2"
  shows "accepted flt w w2"
proof -
  from assms(1) obtain ls1 where a: "calls w1 = calls w @ ls1"
    and a': "\<forall>i<length ls1. \<not> flt (length (calls w) + i) (ls1 ! i)"
    unfolding accepted_def by blast
  from assms(2) obtain ls2 where b: "calls w2 = calls w1 @ ls2"
    and b': "\<forall>i<length ls2. \<not> flt (length (calls w1) + i) (ls2 ! i)"
    unfolding accepted_def by blast
  have "\<not> flt (length (calls w) + i) ((ls1 @ ls2) ! i)" if "i < length (ls1 @ ls2)" for i
  proof (cases "i < length ls1")
    case True
    with a' show ?thesis by (simp add: nth_append)
  next
    case False
    with that have "i - length ls1 < length ls2" by simp
    with b' have "\<not> flt (length (calls w1) + (i - length ls1)) (ls2 ! (i - length ls1))" by blast
    with False a show ?thesis by (simp add: nth_append)
  qed
  with a b show ?thesis unfolding accepted_def by auto
qed

lemma accepted_call:
  assumes "calls w' = calls w @ [q]" and "\<not> flt (length (calls w)) q"
  shows "accepted flt w w'"
  unfolding accepted_def using assms by auto

lemma accepted_same: "calls w' = calls w \<Longrightarrow> accepted flt w w'"
  by (simp add: accepted_def)

lemma storage_call_accepted:
  assumes "storage_call flt q run w = (Inr x, w')"
    and "\<And>w r w'. run w = (r, w') \<Longrightarrow> calls w' = calls w"
  shows "accepted flt w w'"
proof -
  from assms(1) have nf: "\<not> flt (length (calls w)) q"
    and run: "run (w\<lparr>calls := calls w @ [q]\<rparr>) = (Inr x, w')"
    by (auto simp: storage_call_eq split: if_splits)
  from assms(2)[OF run] have "calls w' = calls w @ [q]" by simp
  with nf show ?thesis by (rule accepted_call[rotated])
qed

lemma on_client_calls: "on_client stmt w = (r, w') \<Longrightarrow> calls w' = calls w"
  by (auto simp: on_client_def store_def split: sum.splits prod.splits option.splits)

lemma sale_item_step_accepted:
  assumes "sale_item_step flt sid it w = (Inr amount, w')"
  shows "accepted flt w w'"
proof -
  define pid where "pid = number_of (product_id it)"
  define qty where "qty = number_of (quantity it)"
  define price where "price = number_of (price_at_sale it)"
  let ?ins = "\<lambda>w. on_client (INSERT_sale_item (of_int sid) pid qty price (sale_item_seq w))
                      (w\<lparr>sale_item_seq := sale_item_seq w + 1\<rparr>)"
  let ?upd = "\<lambda>w. on_client (UPDATE_stock qty pid (clock w)) w"
  from assms obtain rows w1 u w2 u' where
    s1: "storage_call flt (SelectStockForUpdate pid) (on_client (SELECT_stock_for_update pid)) w
           = (Inr rows, w1)"
    and s2: "storage_call flt (InsertSaleItem (of_int sid) pid qty price) ?ins w1 = (Inr u, w2)"
    and s3: "storage_call flt (UpdateStock qty pid) ?upd w2 = (Inr u', w')"
    unfolding sale_item_step_def pid_def[symmetric] qty_def[symmetric] price_def[symmetric] Let_def
    by (auto split: sum.splits list.splits if_splits prod.splits)
  have a1: "accepted flt w w1"
    using s1 by (rule storage_call_accepted) (rule on_client_calls)
  have a2: "accepted flt w1 w2"
    using s2 by (rule storage_call_accepted) (auto dest: on_client_calls)
  have a3: "accepted flt w2 w'"
    using s3 by (rule storage_call_accepted) (rule on_client_calls)
  from a1 a2 a3 show ?thesis by (blast intro: accepted_trans)
qed

section \<open>The loop over the line items\<close>

lemma pg_int4_Some: "pg_int4 r = Some i \<Longrightarrow> r = of_int i \<and> int4_ok i"
  by (auto simp: pg_int4_def split: if_splits)

lemma pg_int4_of_int: "pg_int4 (of_int i) = (if int4_ok i then Some i else None)"
  by (simp add: pg_int4_def)

lemma parseInt_js_of_int: "parseInt_js (of_int n) = of_int n"
  by (simp add: parseInt_js_def)

lemma truthy_num: "truthy v \<Longrightarrow> v = JNum (number_of v) \<and> number_of v \<noteq> 0"
  by (cases v) auto

lemma filter_Cons_first: "filter P xs = y # ys \<Longrightarrow> y \<in> set xs \<and> P y"
  by (induction xs) (auto split: if_splits)

lemma sale_item_step_Inr:
  assumes "txn w \<noteq> None" and "sale_item_step flt sid it w = (Inr amount, w')"
  shows "\<exists>p n. number_of (product_id it) = of_int p \<and> number_of (quantity it) = of_int n \<and>
           truthy (product_id it) \<and> truthy (quantity it) \<and> truthy (price_at_sale it) \<and>
           amount = line_amount it \<and> 0 < n \<and>
           (\<exists>r \<in> set (inventory (view w)). inv_product_id r = p) \<and>
           (\<forall>r \<in> set (inventory (view w)). inv_product_id r = p \<longrightarrow> n \<le> quantity_in_stock r) \<and>
           inventory (view w') = map (sell p n (clock w)) (inventory (view w)) \<and>
           sales (view w') = sales (view w) \<and>
           clock w' = clock w"
  using assms
  unfolding sale_item_step_def Let_def storage_call_eq line_amount_def
  apply (simp split: if_splits sum.splits list.splits prod.splits)
  apply (auto simp: on_client_def SELECT_stock_for_update_def INSERT_sale_item_def UPDATE_stock_def
       view_def store_def sell_def filter_empty_conv
      split: if_splits sum.splits list.splits prod.splits option.splits
      dest!: pg_int4_Some)
  subgoal by (blast dest: filter_Cons_first)
  subgoal by (drule (1) bspec) simp
  done

lemma stock_after_sell:
  assumes "number_of (product_id it) = of_int p" and "number_of (quantity it) = of_int n"
  shows "stock_after its (sell p n now r) = stock_after (it # its) r"
  using assms by (simp add: stock_after_def sold_of_def sell_def)

lemma sale_items_loop_Inr:
  assumes "txn w \<noteq> None" and "sale_items_loop flt sid its sub w = (Inr sub', w')"
  shows "sub' = add_lines sub its \<and>
         map (\<lambda>r. of_int (quantity_in_stock r)) (inventory (view w')) =
           map (stock_after its) (inventory (view w)) \<and>
         map inv_product_id (inventory (view w')) = map inv_product_id (inventory (view w)) \<and>
         sales (view w') = sales (view w)"
  using assms
proof (induction its arbitrary: sub w)
  case Nil
  then show ?case by (simp add: add_lines_def stock_after_def sold_of_def)
next
  case (Cons it its)
  from Cons.prems(2) obtain amount w1 where
    step: "sale_item_step flt sid it w = (Inr amount, w1)" and
    rest: "sale_items_loop flt sid its (js_add sub amount) w1 = (Inr sub', w')"
    by (auto split: prod.splits sum.splits)
  from sale_item_step_Inr[OF Cons.prems(1) step] obtain p n where
    p: "number_of (product_id it) = of_int p" and n: "number_of (quantity it) = of_int n" and
    am: "amount = line_amount it" and
    inv: "inventory (view w1) = map (sell p n (clock w)) (inventory (view w))" and
    sal: "sales (view w1) = sales (view w)"
    by blast
  have "tx_step w w1" by (rule sale_item_step_tx[OF Cons.prems(1) step])
  hence t1: "txn w1 \<noteq> None" by (simp add: tx_step_def)
  note ih = Cons.IH[OF t1 rest]
  have a: "sub' = add_lines sub (it # its)"
    using ih am by (simp add: add_lines_def)
  have b: "map (\<lambda>r. of_int (quantity_in_stock r)) (inventory (view w')) =
           map (stock_after (it # its)) (inventory (view w))"
    using ih by (simp add: inv stock_after_sell[OF p n] comp_def)
  have c: "map inv_product_id (inventory (view w')) = map inv_product_id (inventory (view w))"
    using ih by (simp add: inv comp_def sell_def)
  from a b c ih sal show ?case by simp
qed

lemma sale_items_loop_tx:
  assumes "txn w \<noteq> None" and "sale_items_loop flt sid its sub w = (r, w')"
  shows "tx_step w w'"
  using assms
proof (induction its arbitrary: sub w)
  case Nil
  then show ?case by (simp add: tx_step_refl)
next
  case (Cons it its)
  obtain r1 w1 where step: "sale_item_step flt sid it w = (r1, w1)"
    by (cases "sale_item_step flt sid it w")
  have t1: "tx_step w w1" by (rule sale_item_step_tx[OF Cons.prems(1) step])
  show ?case
  proof (cases r1)
    case (Inl e)
    with Cons.prems(2) step t1 show ?thesis by simp
  next
    case (Inr amount)
    with Cons.prems(2) step have rest: "sale_items_loop flt sid its (js_add sub amount) w1 = (r, w')"
      by simp
    from t1 have "txn w1 \<noteq> None" by (simp add: tx_step_def)
    from Cons.IH[OF this rest] t1 show ?thesis by (rule tx_step_trans[rotated])
  qed
qed

lemma sale_item_step_sales:
  assumes "txn w \<noteq> None" and "sale_item_step flt sid it w = (r, w')"
  shows "sales (view w') = sales (view w)"
  using assms
  unfolding sale_item_step_def Let_def storage_call_eq
  apply (simp split: if_splits sum.splits list.splits prod.splits)
  apply (auto simp: on_client_def SELECT_stock_for_update_def INSERT_sale_item_def UPDATE_stock_def
       view_def store_def
      split: if_splits sum.splits list.splits prod.splits option.splits)
  done

lemma sale_items_loop_sales:
  assumes "txn w \<noteq> None" and "sale_items_loop flt sid its sub w = (r, w')"
  shows "sales (view w') = sales (view w)"
  using assms
proof (induction its arbitrary: sub w)
  case Nil
  then show ?case by simp
next
  case (Cons it its)
  obtain r1 w1 where step: "sale_item_step flt sid it w = (r1, w1)"
    by (cases "sale_item_step flt sid it w")
  have s1: "sales (view w1) = sales (view w)" by (rule sale_item_step_sales[OF Cons.prems(1) step])
  have "tx_step w w1" by (rule sale_item_step_tx[OF Cons.prems(1) step])
  hence t1: "txn w1 \<noteq> None" by (simp add: tx_step_def)
  show ?case
  proof (cases r1)
    case (Inl e)
    with Cons.prems(2) step s1 show ?thesis by simp
  next
    case (Inr amount)
    with Cons.prems(2) step have "sale_items_loop flt sid its (js_add sub amount) w1 = (r, w')" by simp
    from Cons.IH[OF t1 this] s1 show ?thesis by simp
  qed
qed

lemma create_sale_record_tx:
  assumes "txn w \<noteq> None" and "create_sale_record flt u w = (r, w')"
  shows "tx_step w w'"
  using assms(1) assms(2)[unfolded create_sale_record_def]
proof (rule storage_call_tx)
  fix w r w'
  assume a: "txn w \<noteq> None"
    and b: "on_client (INSERT_sale (number_of u) (sale_seq w) (clock w)) (w\<lparr>sale_seq := sale_seq w + 1\<rparr>) = (r, w')"
  have "txn (w\<lparr>sale_seq := sale_seq w + 1\<rparr>) \<noteq> None" using a by simp
  from on_client_tx[OF this b] show "committed w' = committed w \<and> txn w' \<noteq> None \<and> calls w' = calls w"
    by simp
qed

lemma create_sale_record_Inr:
  assumes "txn w \<noteq> None" and "create_sale_record flt u w = (Inr sale, w')"
  shows "int4_ok (e_sale_id sale) \<and> (\<exists>x \<in> set (sales (view w')). sale_id x = e_sale_id sale) \<and>
         inventory (view w') = inventory (view w)"
  using assms
  unfolding create_sale_record_def storage_call_eq
  by (auto simp: on_client_def INSERT_sale_def view_def store_def returning_def Let_def
      split: if_splits option.splits)

lemma sale_items_loop_accepted:
  assumes "sale_items_loop flt sid its sub w = (Inr sub', w')"
  shows "accepted flt w w'"
  using assms
proof (induction its arbitrary: sub w)
  case Nil
  then show ?case by (simp add: accepted_refl)
next
  case (Cons it its)
  from Cons.prems obtain amount w1 where
    step: "sale_item_step flt sid it w = (Inr amount, w1)" and
    rest: "sale_items_loop flt sid its (js_add sub amount) w1 = (Inr sub', w')"
    by (auto split: prod.splits sum.splits)
  from sale_item_step_accepted[OF step] Cons.IH[OF rest] show ?case
    by (rule accepted_trans)
qed

lemma sold_of_none:
  assumes "\<forall>it \<in> set its. number_of (product_id it) \<noteq> of_int p"
  shows "sold_of p its = 0"
proof -
  from assms have "filter (\<lambda>it. number_of (product_id it) = of_int p) its = []"
    by (simp add: filter_empty_conv)
  thus ?thesis by (simp add: sold_of_def)
qed

lemma in_inventory_cong:
  "map inv_product_id (inventory t') = map inv_product_id (inventory t) \<Longrightarrow>
   in_inventory t' it = in_inventory t it"
proof -
  assume "map inv_product_id (inventory t') = map inv_product_id (inventory t)"
  hence eq: "inv_product_id ` set (inventory t') = inv_product_id ` set (inventory t)"
    by (metis set_map)
  have a: "in_inventory t it =
          (\<exists>p \<in> inv_product_id ` set (inventory t). of_int p = number_of (product_id it))" for t
    unfolding in_inventory_def by blast
  show ?thesis unfolding a eq by (rule refl)
qed

lemma sale_items_loop_Inr_items:
  assumes "txn w \<noteq> None" and "sale_items_loop flt sid its sub w = (Inr sub', w')"
  shows "(\<forall>it \<in> set its. sellable it \<and> in_inventory (view w) it) \<and>
         (\<forall>r \<in> set (inventory (view w)). sold_in its r \<longrightarrow> 0 \<le> stock_after its r)"
  using assms
proof (induction its arbitrary: sub w)
  case Nil
  then show ?case by (simp add: sold_in_def)
next
  case (Cons it its)
  from Cons.prems(2) obtain amount w1 where
    step: "sale_item_step flt sid it w = (Inr amount, w1)" and
    rest: "sale_items_loop flt sid its (js_add sub amount) w1 = (Inr sub', w')"
    by (auto split: prod.splits sum.splits)
  from sale_item_step_Inr[OF Cons.prems(1) step] obtain p n where
    p: "number_of (product_id it) = of_int p" and n: "number_of (quantity it) = of_int n" and
    tr: "truthy (product_id it)" "truthy (quantity it)" "truthy (price_at_sale it)" and
    pos: "0 < n" and
    ex: "\<exists>r \<in> set (inventory (view w)). inv_product_id r = p" and
    enough: "\<forall>r \<in> set (inventory (view w)). inv_product_id r = p \<longrightarrow> n \<le> quantity_in_stock r" and
    inv: "inventory (view w1) = map (sell p n (clock w)) (inventory (view w))"
    by blast
  have "tx_step w w1" by (rule sale_item_step_tx[OF Cons.prems(1) step])
  hence t1: "txn w1 \<noteq> None" by (simp add: tx_step_def)
  note ih = Cons.IH[OF t1 rest]
  have ids: "map inv_product_id (inventory (view w1)) = map inv_product_id (inventory (view w))"
    by (simp add: inv comp_def sell_def)
  have it_ok: "sellable it \<and> in_inventory (view w) it"
    using tr pos n p ex by (auto simp: sellable_def in_inventory_def)
  have its_ok: "\<forall>it' \<in> set its. sellable it' \<and> in_inventory (view w) it'"
    using ih in_inventory_cong[OF ids] by simp
  have stock: "0 \<le> stock_after (it # its) r"
    if r: "r \<in> set (inventory (view w))" and s: "sold_in (it # its) r" for r
  proof (cases "sold_in its r")
    case True
    let ?r' = "sell p n (clock w) r"
    have "?r' \<in> set (inventory (view w1))" using r inv by simp
    moreover have "inv_product_id ?r' = inv_product_id r" by (simp add: sell_def)
    hence "sold_in its ?r'" using True by (simp add: sold_in_def)
    ultimately have "0 \<le> stock_after its ?r'" using ih by blast
    thus ?thesis by (simp add: stock_after_sell[OF p n])
  next
    case False
    with s have "number_of (product_id it) = of_int (inv_product_id r)"
      by (auto simp: sold_in_def)
    with p have "(of_int p :: rat) = of_int (inv_product_id r)" by simp
    hence pr: "inv_product_id r = p" by simp
    from False have "sold_of (inv_product_id r) its = 0"
      by (intro sold_of_none) (auto simp: sold_in_def)
    moreover from enough r pr have "n \<le> quantity_in_stock r" by blast
    ultimately show ?thesis using p n pr
      by (simp add: stock_after_def sold_of_def)
  qed
  from it_ok its_ok stock show ?case by simp
qed

lemma create_sale_record_accepted:
  assumes "create_sale_record flt u w = (Inr sale, w')"
  shows "accepted flt w w'"
  using assms[unfolded create_sale_record_def]
  by (rule storage_call_accepted) (auto dest: on_client_calls)

section \<open>Writing the totals and committing\<close>

lemma UPDATE_sale_totals_Inr:
  assumes "UPDATE_sale_totals sub pct disc tot (of_int sid) t = Inr (rows, t')"
  shows "int4_ok sid \<and> t' = t\<lparr>sales := map (set_totals sid sub pct disc tot) (sales t)\<rparr> \<and>
         rows = map returning (filter (\<lambda>r. sale_id r = sid) (sales t'))"
proof -
  have ok: "int4_ok sid" using assms
    by (simp add: UPDATE_sale_totals_def pg_int4_of_int split: if_splits)
  hence "pg_int4 (of_int sid) = Some sid" by (simp add: pg_int4_of_int)
  with assms ok show ?thesis
    by (auto simp: UPDATE_sale_totals_def Let_def set_totals_def[abs_def])
qed

lemma UPDATE_sale_totals_rows:
  assumes "UPDATE_sale_totals sub pct disc tot (of_int sid) t = Inr (rows, t')" and "d \<in> set rows"
  shows "e_sale_id d = sid \<and> e_subtotal d = sub \<and> e_discount_percentage d = pct \<and>
         e_discount_amount d = disc \<and> e_total_amount d = tot \<and>
         (\<exists>r \<in> set (sales t'). returning r = d)"
proof -
  note u = UPDATE_sale_totals_Inr[OF assms(1)]
  from assms(2) u obtain r where r: "r \<in> set (sales t')" "sale_id r = sid" "d = returning r"
    by auto
  from r(1) u obtain r0 where r0: "r = set_totals sid sub pct disc tot r0" by auto
  with r(2) have "sale_id r0 = sid" by (simp add: set_totals_def split: if_splits)
  with r0 have "subtotal r = sub \<and> discount_percentage r = pct \<and> discount_amount r = disc \<and>
     total_amount r = tot" by (simp add: set_totals_def)
  with r show ?thesis by (auto simp: returning_def)
qed

lemma UPDATE_sale_totals_nonempty:
  assumes "int4_ok sid" and "x \<in> set (sales t)" and "sale_id x = sid"
  shows "\<exists>d rs t'. UPDATE_sale_totals sub pct disc tot (of_int sid) t = Inr (d # rs, t')"
proof -
  have "set_totals sid sub pct disc tot x \<in> set (filter (\<lambda>r. sale_id r = sid) (map (set_totals sid sub pct disc tot) (sales t)))"
    using assms(2,3) by (auto simp: set_totals_def)
  then obtain y ys where "filter (\<lambda>r. sale_id r = sid) (map (set_totals sid sub pct disc tot) (sales t)) = y # ys"
    by (cases "filter (\<lambda>r. sale_id r = sid) (map (set_totals sid sub pct disc tot) (sales t))") auto
  with assms(1) show ?thesis
    by (simp add: UPDATE_sale_totals_def pg_int4_of_int Let_def set_totals_def[abs_def])
qed

lemma update_totals_and_commit_Inl:
  assumes "txn w \<noteq> None" and "int4_ok sid" and "\<exists>x \<in> set (sales (view w)). sale_id x = sid"
    and "update_totals_and_commit flt sid sub pct w = (Inl e, w')"
  shows "tx_step w w'"
proof -
  define disc where "disc = js_div (js_mul sub (ToNumber pct)) (Fin 100)"
  define tot where "tot = js_sub sub disc"
  define q where "q = UpdateSaleTotals sub (bind_numeric pct) disc tot (of_int sid)"
  define w1 where "w1 = w\<lparr>calls := calls w @ [q]\<rparr>"
  from assms(1) obtain t where t: "txn w = Some t" by auto
  hence v: "view w = t" "view w1 = t" "txn w1 = Some t" by (simp_all add: view_def w1_def)
  from assms(3) v obtain x where x: "x \<in> set (sales t)" "sale_id x = sid" by auto
  from UPDATE_sale_totals_nonempty[OF assms(2) x, of sub "bind_numeric pct" disc tot]
  obtain d rs t' where
    u: "UPDATE_sale_totals sub (bind_numeric pct) disc tot (of_int sid) t = Inr (d # rs, t')"
    by blast
  have s: "store t' w1 = w1\<lparr>txn := Some t'\<rparr>" using v by (simp add: store_def)
  have unf: "update_totals_and_commit flt sid sub pct w =
     (if flt (length (calls w)) q then (Inl StorageError, w1)
      else if flt (length (calls w1)) Commit then (Inl StorageError, (w1\<lparr>txn := Some t'\<rparr>)\<lparr>calls := calls w1 @ [Commit]\<rparr>)
      else (Inr (SalesDTO_fromEntity d), (w1\<lparr>txn := Some t'\<rparr>)\<lparr>calls := calls w1 @ [Commit], committed := t', txn := None\<rparr>))"
    unfolding update_totals_and_commit_def Let_def storage_call_eq disc_def[symmetric] tot_def[symmetric]
      q_def[symmetric] w1_def[symmetric] query_commit_def
    by (simp add: on_client_def v u s)
  from assms(4)[unfolded unf] t show ?thesis
    by (auto simp: tx_step_def w1_def split: if_splits)
qed

lemma update_totals_and_commit_Inr:
  assumes "txn w \<noteq> None" and "update_totals_and_commit flt sid sub pct w = (Inr d, w')"
  shows "e_sale_id d = sid \<and> e_subtotal d = sub \<and> e_discount_percentage d = bind_numeric pct \<and>
         e_discount_amount d = js_div (js_mul sub (ToNumber pct)) (Fin 100) \<and>
         e_total_amount d = js_sub sub (js_div (js_mul sub (ToNumber pct)) (Fin 100)) \<and>
         (\<exists>r \<in> set (sales (committed w')). returning r = d) \<and>
         inventory (committed w') = inventory (view w) \<and>
         sale_items (committed w') = sale_items (view w) \<and> txn w' = None"
proof -
  define disc where "disc = js_div (js_mul sub (ToNumber pct)) (Fin 100)"
  define tot where "tot = js_sub sub disc"
  define q where "q = UpdateSaleTotals sub (bind_numeric pct) disc tot (of_int sid)"
  define w1 where "w1 = w\<lparr>calls := calls w @ [q]\<rparr>"
  from assms(1) obtain t where t: "txn w = Some t" by auto
  hence v: "view w = t" "view w1 = t" "txn w1 = Some t" by (simp_all add: view_def w1_def)
  obtain res where res: "UPDATE_sale_totals sub (bind_numeric pct) disc tot (of_int sid) t = res"
    by simp
  have "\<exists>rs t'. res = Inr (d # rs, t') \<and> query_commit flt (store t' w1) = (Inr (), w')"
    using assms(2)
    unfolding update_totals_and_commit_def Let_def storage_call_eq disc_def[symmetric] tot_def[symmetric]
      q_def[symmetric] w1_def[symmetric]
    by (cases res) (auto simp: on_client_def v res SalesDTO_fromEntity_def
        split: if_splits sum.splits list.splits prod.splits)
  then obtain rs t' where
    u: "UPDATE_sale_totals sub (bind_numeric pct) disc tot (of_int sid) t = Inr (d # rs, t')" and
    c: "query_commit flt (store t' w1) = (Inr (), w')"
    using res by auto
  from c v have w': "committed w' = t'" "txn w' = None"
    by (auto simp: query_commit_def storage_call_eq store_def split: if_splits)
  have "d \<in> set (d # rs)" by simp
  note rows = UPDATE_sale_totals_rows[OF u this]
  have "inventory t' = inventory t \<and> sale_items t' = sale_items t"
    using UPDATE_sale_totals_Inr[OF u] by simp
  with rows w' v show ?thesis
    by (simp add: disc_def tot_def)
qed

lemma query_commit_calls: "query_commit flt w = (r, w') \<Longrightarrow> calls w' = calls w @ [Commit]"
  by (auto simp: query_commit_def storage_call_eq split: if_splits option.splits)

lemma update_totals_and_commit_accepted:
  assumes "update_totals_and_commit flt sid sub pct w = (Inr d, w')"
  shows "accepted flt w w'"
proof -
  define disc where "disc = js_div (js_mul sub (ToNumber pct)) (Fin 100)"
  define tot where "tot = js_sub sub disc"
  define q where "q = UpdateSaleTotals sub (bind_numeric pct) disc tot (of_int sid)"
  from assms obtain rows w1 where
    s1: "storage_call flt q
           (on_client (UPDATE_sale_totals sub (bind_numeric pct) disc tot (of_int sid))) w
         = (Inr rows, w1)"
    and s2: "query_commit flt w1 = (Inr (), w')"
    unfolding update_totals_and_commit_def Let_def disc_def[symmetric] tot_def[symmetric]
      q_def[symmetric]
    by (auto split: sum.splits list.splits prod.splits)
  have a1: "accepted flt w w1"
    using s1 by (rule storage_call_accepted) (rule on_client_calls)
  have a2: "accepted flt w1 w'"
    using s2[unfolded query_commit_def]
    by (rule storage_call_accepted) (auto split: option.splits)
  from a1 a2 show ?thesis by (rule accepted_trans)
qed

section \<open>The body of the transaction\<close>

lemma query_begin_Inr:
  assumes "txn w = None" and "query_begin flt w = (Inr u, w')"
  shows "txn w' = Some (committed w) \<and> committed w' = committed w \<and> calls w' = calls w @ [Begin] \<and>
    view w' = committed w"
  using assms by (auto simp: query_begin_def storage_call_eq view_def split: if_splits)

lemma query_begin_Inl:
  assumes "query_begin flt w = (Inl e, w')"
  shows "committed w' = committed w \<and> calls w' = calls w @ [Begin]"
  using assms by (auto simp: query_begin_def storage_call_eq split: if_splits)

lemma createSaleWithItems_try_Inl:
  assumes "txn w = None" and "createSaleWithItems_try flt u items discount w = (Inl e, w')"
  shows "committed w' = committed w \<and> (\<exists>ls. calls w' = calls w @ ls)"
proof -
  define pct where "pct = default_parameter (JNum 0) discount"
  obtain r1 w1 where b: "query_begin flt w = (r1, w1)" by (cases "query_begin flt w")
  show ?thesis
  proof (cases r1)
    case (Inl e1)
    with b assms(2) have "w' = w1" by (simp add: createSaleWithItems_try_def)
    with query_begin_Inl[OF b[unfolded Inl]] show ?thesis by simp
  next
    case (Inr u1)
    note b1 = query_begin_Inr[OF assms(1) b[unfolded Inr]]
    hence t1: "txn w1 \<noteq> None" by simp
    have s01: "committed w1 = committed w \<and> (\<exists>ls. calls w1 = calls w @ ls)" using b1 by simp
    show ?thesis
    proof (cases "validate_inputs u items pct")
      case (Some ev)
      with b Inr assms(2) have "w' = w1"
        by (simp add: createSaleWithItems_try_def pct_def)
      with s01 show ?thesis by simp
    next
      case None
      obtain r2 w2 where c: "create_sale_record flt u w1 = (r2, w2)"
        by (cases "create_sale_record flt u w1")
      have s12: "tx_step w1 w2" by (rule create_sale_record_tx[OF t1 c])
      hence t2: "txn w2 \<noteq> None" by (simp add: tx_step_def)
      show ?thesis
      proof (cases r2)
        case (Inl e2)
        with b Inr None c assms(2) have "w' = w2"
          by (simp add: createSaleWithItems_try_def pct_def)
        with s01 s12 show ?thesis by (auto simp: tx_step_def)
      next
        case (Inr sale)
        note cs = create_sale_record_Inr[OF t1 c[unfolded Inr]]
        obtain r3 w3 where l: "sale_items_loop flt (e_sale_id sale) (the items) (Fin 0) w2 = (r3, w3)"
          by (cases "sale_items_loop flt (e_sale_id sale) (the items) (Fin 0) w2")
        have s23: "tx_step w2 w3" by (rule sale_items_loop_tx[OF t2 l])
        hence t3: "txn w3 \<noteq> None" by (simp add: tx_step_def)
        have sal: "sales (view w3) = sales (view w2)" by (rule sale_items_loop_sales[OF t2 l])
        show ?thesis
        proof (cases r3)
          case (Inl e3)
          with b \<open>r1 = Inr u1\<close> None c Inr l assms(2) have "w' = w3"
            by (simp add: createSaleWithItems_try_def pct_def)
          with s01 s12 s23 show ?thesis by (auto simp: tx_step_def)
        next
          case (Inr sub)
          with b \<open>r1 = Inr u1\<close> None c \<open>r2 = Inr sale\<close> l assms(2)
          have f: "update_totals_and_commit flt (e_sale_id sale) sub pct w3 = (Inl e, w')"
            by (simp add: createSaleWithItems_try_def pct_def)
          have "tx_step w3 w'"
            using t3 _ _ f
          proof (rule update_totals_and_commit_Inl)
            show "int4_ok (e_sale_id sale)" using cs by simp
            show "\<exists>x\<in>set (sales (view w3)). sale_id x = e_sale_id sale" using cs sal by simp
          qed
          with s01 s12 s23 show ?thesis by (auto simp: tx_step_def)
        qed
      qed
    qed
  qed
qed

section \<open>Runs on concrete values\<close>

lemma floor_numeral_quotient:
  "\<lfloor>(numeral a :: rat) / numeral b\<rfloor> = numeral a div numeral b"
  using floor_divide_of_int_eq [of "numeral a" "numeral b", where ?'a = rat] by simp

lemma floor_one_quotient: "\<lfloor>(1 :: rat) / numeral b\<rfloor> = 1 div numeral b"
  using floor_divide_of_int_eq [of 1 "numeral b", where ?'a = rat] by simp

lemma log2floor_numeral:
  "log2floor (numeral k) = (if (numeral k :: nat) < 2 then 0 else Suc (log2floor (numeral k div 2)))"
  "log2floor 0 = 0" "log2floor 1 = 0" "log2floor (Suc 0) = 0"
  by (simp_all add: log2floor.simps [of "numeral k"] log2floor.simps [of 0]
        log2floor.simps [of 1] log2floor.simps [of "Suc 0"])

text \<open>
  The definitions that the evaluation of a number on concrete values unfolds.
\<close>

lemmas number_defs =
  fl_def overflow_def nearest_def quantize_def round_half_even_def ties_to_even_def
  exponent_def exponent_below_def pow2_def log2floor_numeral floor_numeral_quotient
  floor_one_quotient double_def js_sub_def infinity_def

lemma fl_tenth: "fl (1 / 10) = Fin (3602879701896397 / 36028797018963968)"
  by (simp add: number_defs)

text \<open>
  The definitions a run of \<^verbatim>\<open>createSaleWithItems\<close> on concrete values unfolds.
\<close>

lemmas run_defs =
  createSaleWithItems_def createSaleWithItems_try_def validate_inputs_def create_sale_record_def
  sale_item_step_def update_totals_and_commit_def pool_connect_def storage_call_def issue_def
  query_begin_def query_commit_def query_rollback_def client_release_def on_client_def on_pool_def
  view_def store_def INSERT_sale_def SELECT_stock_for_update_def INSERT_sale_item_def
  UPDATE_stock_def UPDATE_sale_totals_def pg_int4_def int4_ok_def returning_def TO_CHAR_def
  digit_char_def parseInt_js_def parseFloat_js_def SalesDTO_fromEntity_def new_Sales_def Let_def
  no_fault_def shop_def line_def default_parameter_def bind_numeric_def number_defs

section \<open>Failure and success of createSaleWithItems\<close>

lemma pool_connect_cases:
  "pool_connect flt w =
     (if flt (length (calls w)) Connect then (Inl StorageError, w\<lparr>calls := calls w @ [Connect]\<rparr>)
      else (Inr (), w\<lparr>calls := calls w @ [Connect], txn := None\<rparr>))"
  by (simp add: pool_connect_def storage_call_eq)

lemma query_rollback_cases:
  "query_rollback flt w =
     (if flt (length (calls w)) Rollback then (Inl StorageError, w\<lparr>calls := calls w @ [Rollback]\<rparr>)
      else (Inr (), w\<lparr>calls := calls w @ [Rollback], txn := None\<rparr>))"
  by (simp add: query_rollback_def storage_call_eq)

lemma createSaleWithItems_Inl:
  assumes "createSaleWithItems flt user_id' items discount w = (Inl e, w')"
  shows "committed w' = committed w \<and>
         ((\<exists>cause. e = Wrapped FailedToCreateSaleWithItems cause \<and> txn w' = None \<and>
             (\<exists>pre. calls w' = calls w @ pre @ [Rollback, Release])) \<or>
          (e = StorageError \<and> (flt (length (calls w)) Connect \<or> (\<exists>n. flt n Rollback))))"
proof (cases "flt (length (calls w)) Connect")
  case True
  with assms show ?thesis
    by (auto simp: createSaleWithItems_def pool_connect_cases)
next
  case False
  define w0 where "w0 = w\<lparr>calls := calls w @ [Connect], txn := None\<rparr>"
  have w0: "txn w0 = None" "committed w0 = committed w" "calls w0 = calls w @ [Connect]"
    by (simp_all add: w0_def)
  obtain r1 w1 where t: "createSaleWithItems_try flt user_id' items discount w0 = (r1, w1)"
    by (cases "createSaleWithItems_try flt user_id' items discount w0")
  from assms False t obtain cause where r1: "r1 = Inl cause"
    by (cases r1) (auto simp: createSaleWithItems_def pool_connect_cases w0_def[symmetric])
  from createSaleWithItems_try_Inl[OF w0(1) t[unfolded r1]] w0 obtain ls where
    w1: "committed w1 = committed w" "calls w1 = calls w @ [Connect] @ ls"
    by auto
  show ?thesis
  proof (cases "flt (length (calls w1)) Rollback")
    case True
    with assms False t r1 have "e = StorageError" "w' = client_release (w1\<lparr>calls := calls w1 @ [Rollback]\<rparr>)"
      by (auto simp: createSaleWithItems_def pool_connect_cases w0_def[symmetric] query_rollback_cases)
    with w1 True show ?thesis by (auto simp: client_release_def)
  next
    case nofault: False
    with assms False t r1 have "e = Wrapped FailedToCreateSaleWithItems cause"
      "w' = client_release (w1\<lparr>calls := calls w1 @ [Rollback], txn := None\<rparr>)"
      by (auto simp: createSaleWithItems_def pool_connect_cases w0_def[symmetric] query_rollback_cases)
    with w1 show ?thesis by (simp add: client_release_def)
  qed
qed

lemma createSaleWithItems_Inr:
  assumes "createSaleWithItems flt u items discount w = (Inr d, w')"
  shows "\<exists>its (sale::Sales) w1 w2 sub w3 w4.
           items = Some its \<and>
           validate_inputs u items (default_parameter (JNum 0) discount) = None \<and>
           \<not> flt (length (calls w)) Connect \<and>
           query_begin flt (w\<lparr>calls := calls w @ [Connect], txn := None\<rparr>) = (Inr (), w1) \<and>
           create_sale_record flt u w1 = (Inr sale, w2) \<and>
           txn w2 \<noteq> None \<and>
           inventory (view w2) = inventory (committed w) \<and>
           sale_items_loop flt (e_sale_id sale) its (Fin 0) w2 = (Inr sub, w3) \<and>
           update_totals_and_commit flt (e_sale_id sale) sub
             (default_parameter (JNum 0) discount) w3 = (Inr d, w4) \<and>
           w' = client_release w4"
proof -
  define pct where "pct = default_parameter (JNum 0) discount"
  define w0 where "w0 = w\<lparr>calls := calls w @ [Connect], txn := None\<rparr>"
  have w0: "txn w0 = None" "committed w0 = committed w" by (simp_all add: w0_def)
  from assms have c: "\<not> flt (length (calls w)) Connect"
    by (auto simp: createSaleWithItems_def pool_connect_cases split: if_splits)
  with assms obtain w4 where
    t: "createSaleWithItems_try flt u items discount w0 = (Inr d, w4)" and w': "w' = client_release w4"
    by (auto simp: createSaleWithItems_def pool_connect_cases w0_def[symmetric]
        split: prod.splits sum.splits)
  from t obtain w1 where b: "query_begin flt w0 = (Inr (), w1)"
    by (auto simp: createSaleWithItems_try_def Let_def split: prod.splits sum.splits)
  note b1 = query_begin_Inr[OF w0(1) b]
  hence t1: "txn w1 \<noteq> None" by simp
  from t b have v: "validate_inputs u items pct = None"
    by (auto simp: createSaleWithItems_try_def pct_def Let_def split: option.splits)
  then obtain its where its: "items = Some its"
    by (cases items) (auto simp: validate_inputs_def split: if_splits)
  from t b v obtain sale :: Sales and w2 where c2: "create_sale_record flt u w1 = (Inr sale, w2)"
    by (auto simp: createSaleWithItems_try_def pct_def Let_def split: prod.splits sum.splits)
  have "tx_step w1 w2" by (rule create_sale_record_tx[OF t1 c2])
  hence t2: "txn w2 \<noteq> None" by (simp add: tx_step_def)
  from create_sale_record_Inr[OF t1 c2] b1 w0
  have inv2: "inventory (view w2) = inventory (committed w)" by simp
  from t b v c2 its obtain sub w3 where
    l: "sale_items_loop flt (e_sale_id sale) its (Fin 0) w2 = (Inr sub, w3)"
    by (auto simp: createSaleWithItems_try_def pct_def Let_def split: prod.splits sum.splits)
  from t b v c2 its l have f: "update_totals_and_commit flt (e_sale_id sale) sub pct w3 = (Inr d, w4)"
    by (simp add: createSaleWithItems_try_def pct_def Let_def)
  from its v c b c2 t2 inv2 l f w' show ?thesis unfolding pct_def w0_def by blast
qed

lemma query_begin_accepted:
  assumes "query_begin flt w = (Inr u, w')"
  shows "accepted flt w w'"
  using assms[unfolded query_begin_def]
  by (rule storage_call_accepted) (auto split: option.splits)

lemma createSaleWithItems_Inr_accepted:
  assumes "createSaleWithItems flt u items discount w = (Inr d, w')"
  shows "\<exists>ls. calls w' = calls w @ ls @ [Release] \<and>
              (\<forall>i<length ls. \<not> flt (length (calls w) + i) (ls ! i))"
proof -
  from createSaleWithItems_Inr[OF assms] obtain its and sale :: Sales and w1 w2 sub w3 w4 where
    c: "\<not> flt (length (calls w)) Connect" and
    b: "query_begin flt (w\<lparr>calls := calls w @ [Connect], txn := None\<rparr>) = (Inr (), w1)" and
    c2: "create_sale_record flt u w1 = (Inr sale, w2)" and
    l: "sale_items_loop flt (e_sale_id sale) its (Fin 0) w2 = (Inr sub, w3)" and
    f: "update_totals_and_commit flt (e_sale_id sale) sub
             (default_parameter (JNum 0) discount) w3 = (Inr d, w4)" and
    w': "w' = client_release w4"
    by blast
  have "accepted flt w (w\<lparr>calls := calls w @ [Connect], txn := None\<rparr>)"
    using c by (intro accepted_call) simp_all
  hence a4: "accepted flt w w4"
    using query_begin_accepted[OF b] create_sale_record_accepted[OF c2]
      sale_items_loop_accepted[OF l] update_totals_and_commit_accepted[OF f]
    by (blast intro: accepted_trans)
  then obtain ls where "calls w4 = calls w @ ls"
    "\<forall>i<length ls. \<not> flt (length (calls w) + i) (ls ! i)"
    unfolding accepted_def by blast
  thus ?thesis by (auto simp: w' client_release_def)
qed

section \<open>What a committed sale holds\<close>

lemma percentage_number_bind:
  "v \<noteq> JUndefined \<Longrightarrow> percentage_number (bind_numeric v) = ToNumber v"
  by (cases v) (simp_all add: percentage_number_def bind_numeric_def)

lemma default_parameter_defined: "default_parameter (JNum r) v \<noteq> JUndefined"
  by (simp add: default_parameter_def)

lemma createSaleWithItems_commits:
  assumes "createSaleWithItems flt u (Some its) discount w = (Inr d, w')"
  shows "e_subtotal d = subtotal_of its \<and>
         e_discount_percentage d = bind_numeric (default_parameter (JNum 0) discount) \<and>
         e_discount_amount d =
           js_div (js_mul (e_subtotal d) (ToNumber (default_parameter (JNum 0) discount))) (Fin 100) \<and>
         e_total_amount d = js_sub (e_subtotal d) (e_discount_amount d) \<and>
         (\<exists>r \<in> set (sales (committed w')). returning r = d) \<and>
         map inv_product_id (inventory (committed w')) = map inv_product_id (inventory (committed w)) \<and>
         map (\<lambda>r. of_int (quantity_in_stock r)) (inventory (committed w')) =
           map (stock_after its) (inventory (committed w))"
proof -
  from createSaleWithItems_Inr[OF assms] obtain sale :: Sales and w2 sub w3 w4 where
    t2: "txn w2 \<noteq> None" and inv2: "inventory (view w2) = inventory (committed w)" and
    l: "sale_items_loop flt (e_sale_id sale) its (Fin 0) w2 = (Inr sub, w3)" and
    f: "update_totals_and_commit flt (e_sale_id sale) sub
             (default_parameter (JNum 0) discount) w3 = (Inr d, w4)" and
    w': "w' = client_release w4"
    by blast
  have "tx_step w2 w3" by (rule sale_items_loop_tx[OF t2 l])
  hence t3: "txn w3 \<noteq> None" by (simp add: tx_step_def)
  note loop = sale_items_loop_Inr[OF t2 l]
  note fin = update_totals_and_commit_Inr[OF t3 f]
  have c: "committed w' = committed w4" by (simp add: w' client_release_def)
  from loop fin show ?thesis by (simp add: c inv2 subtotal_of_def)
qed

text \<open>
  Claim C5, as the code has it. Whenever \<^verbatim>\<open>createSaleWithItems\<close> commits, the sale
  it returns, which is a row of the committed \<^verbatim>\<open>sales\<close>, has for \<^verbatim>\<open>subtotal\<close>
  the sum of the line amounts \<^verbatim>\<open>price_at_sale * quantity\<close> in the arithmetic of
  doubles: every product is rounded to a double, and the products are added in the order
  of the items, every sum rounded to a double. Its \<^verbatim>\<open>discount_amount\<close> is
  \<^verbatim>\<open>(subtotal * discount_percentage) / 100\<close> and its \<^verbatim>\<open>total_amount\<close> is
  \<^verbatim>\<open>subtotal - discount_amount\<close>, in the same arithmetic. Every inventory row keeps
  its product and holds its former stock less the quantities of the items of that product,
  exactly.
\<close>

theorem createSaleWithItems_totals_and_stock:
  assumes "createSaleWithItems flt u (Some its) discount w = (Inr d, w')"
  shows "e_subtotal d = subtotal_of its \<and>
         e_discount_percentage d = bind_numeric (default_parameter (JNum 0) discount) \<and>
         e_discount_amount d =
           js_div (js_mul (e_subtotal d) (ToNumber (default_parameter (JNum 0) discount))) (Fin 100) \<and>
         e_total_amount d = js_sub (e_subtotal d) (e_discount_amount d) \<and>
         (\<exists>r \<in> set (sales (committed w')). returning r = d) \<and>
         map inv_product_id (inventory (committed w')) = map inv_product_id (inventory (committed w)) \<and>
         map (\<lambda>r. of_int (quantity_in_stock r)) (inventory (committed w')) =
           map (stock_after its) (inventory (committed w))"
  using assms by (rule createSaleWithItems_commits)

lemmas notion_defs =
  subtotal_of_def add_lines_def line_amount_def stock_after_def sold_of_def

text \<open>
  The scenario of the specification: three at 5.00 with a discount of 10 percent against a
  stock of ten gives a subtotal of 15, a discount of 1.50, a total of 13.50 and a stock
  of seven; no operation rounds here. And a sale of two lines with the discount left out:
  three at 5.00 and two at 2.50 give a subtotal and a total of 20, and stocks of seven and
  zero.
\<close>

theorem createSaleWithItems_totals_and_stock_witness:
  "createSaleWithItems no_fault (JNum 7) (Some [line 1 3 5]) (JNum 10) shop =
     (Inr \<lparr>e_sale_id = 1, e_user_id = 7, e_sale_date = ''15/01/2024'', e_subtotal = Fin 15,
            e_discount_percentage = Some (Fin 10), e_discount_amount = Fin (3 / 2),
            e_total_amount = Fin (27 / 2)\<rparr>,
      shop\<lparr>committed :=
             \<lparr>sales = [\<lparr>sale_id = 1, user_id = 7, sale_date = clock shop, subtotal = Fin 15,
                        discount_percentage = Some (Fin 10), discount_amount = Fin (3 / 2),
                        total_amount = Fin (27 / 2)\<rparr>],
              sale_items = [\<lparr>sale_item_id = 1, si_sale_id = 1, si_product_id = 1,
                             si_quantity = 3, si_price_at_sale = 5\<rparr>],
              inventory =
                [\<lparr>inventory_id = 1, inv_product_id = 1, quantity_in_stock = 7,
                  last_updated = clock shop\<rparr>,
                 \<lparr>inventory_id = 2, inv_product_id = 2, quantity_in_stock = 2,
                  last_updated = \<lparr>ts_date = (2024, 1, 2), ts_secs = 0\<rparr>\<rparr>]\<rparr>,
            sale_seq := 2, sale_item_seq := 2,
            calls := [Connect, Begin, InsertSale 7, SelectStockForUpdate 1,
                      InsertSaleItem 1 1 3 5, UpdateStock 3 1,
                      UpdateSaleTotals (Fin 15) (Some (Fin 10)) (Fin (3 / 2)) (Fin (27 / 2)) 1,
                      Commit, Release]\<rparr>) \<and>
   subtotal_of [line 1 3 5] = Fin 15 \<and>
   map (stock_after [line 1 3 5]) (inventory (committed shop)) = [7, 2] \<and>
   fst (createSaleWithItems no_fault (JNum 7) (Some [line 1 3 5, line 2 2 (5 / 2)]) JUndefined shop) =
     Inr \<lparr>e_sale_id = 1, e_user_id = 7, e_sale_date = ''15/01/2024'', e_subtotal = Fin 20,
          e_discount_percentage = Some (Fin 0), e_discount_amount = Fin 0,
          e_total_amount = Fin 20\<rparr> \<and>
   subtotal_of [line 1 3 5, line 2 2 (5 / 2)] = Fin 20 \<and>
   map quantity_in_stock
     (inventory (committed (snd (createSaleWithItems no_fault (JNum 7)
        (Some [line 1 3 5, line 2 2 (5 / 2)]) JUndefined shop)))) = [7, 0] \<and>
   map (stock_after [line 1 3 5, line 2 2 (5 / 2)]) (inventory (committed shop)) = [7, 0]"
proof -
  have run: "createSaleWithItems no_fault (JNum 7) (Some [line 1 3 5]) (JNum 10) shop =
     (Inr \<lparr>e_sale_id = 1, e_user_id = 7, e_sale_date = ''15/01/2024'', e_subtotal = Fin 15,
            e_discount_percentage = Some (Fin 10), e_discount_amount = Fin (3 / 2),
            e_total_amount = Fin (27 / 2)\<rparr>,
      shop\<lparr>committed :=
             \<lparr>sales = [\<lparr>sale_id = 1, user_id = 7, sale_date = clock shop, subtotal = Fin 15,
                        discount_percentage = Some (Fin 10), discount_amount = Fin (3 / 2),
                        total_amount = Fin (27 / 2)\<rparr>],
              sale_items = [\<lparr>sale_item_id = 1, si_sale_id = 1, si_product_id = 1,
                             si_quantity = 3, si_price_at_sale = 5\<rparr>],
              inventory =
                [\<lparr>inventory_id = 1, inv_product_id = 1, quantity_in_stock = 7,
                  last_updated = clock shop\<rparr>,
                 \<lparr>inventory_id = 2, inv_product_id = 2, quantity_in_stock = 2,
                  last_updated = \<lparr>ts_date = (2024, 1, 2), ts_secs = 0\<rparr>\<rparr>]\<rparr>,
            sale_seq := 2, sale_item_seq := 2,
            calls := [Connect, Begin, InsertSale 7, SelectStockForUpdate 1,
                      InsertSaleItem 1 1 3 5, UpdateStock 3 1,
                      UpdateSaleTotals (Fin 15) (Some (Fin 10)) (Fin (3 / 2)) (Fin (27 / 2)) 1,
                      Commit, Release]\<rparr>)"
    by (simp add: run_defs)
  have two: "fst (createSaleWithItems no_fault (JNum 7) (Some [line 1 3 5, line 2 2 (5 / 2)])
                    JUndefined shop) =
     Inr \<lparr>e_sale_id = 1, e_user_id = 7, e_sale_date = ''15/01/2024'', e_subtotal = Fin 20,
          e_discount_percentage = Some (Fin 0), e_discount_amount = Fin 0,
          e_total_amount = Fin 20\<rparr>"
    by (simp add: run_defs)
  hence two': "createSaleWithItems no_fault (JNum 7) (Some [line 1 3 5, line 2 2 (5 / 2)])
                    JUndefined shop =
     (Inr \<lparr>e_sale_id = 1, e_user_id = 7, e_sale_date = ''15/01/2024'', e_subtotal = Fin 20,
          e_discount_percentage = Some (Fin 0), e_discount_amount = Fin 0,
          e_total_amount = Fin 20\<rparr>,
      snd (createSaleWithItems no_fault (JNum 7) (Some [line 1 3 5, line 2 2 (5 / 2)])
                    JUndefined shop))"
    by (metis prod.collapse)
  have st: "map (stock_after [line 1 3 5, line 2 2 (5 / 2)]) (inventory (committed shop)) = [7, 0]"
    by (simp add: notion_defs shop_def line_def)
  from createSaleWithItems_totals_and_stock[OF two'] st
  have q: "map (\<lambda>r. rat_of_int (quantity_in_stock r))
     (inventory (committed (snd (createSaleWithItems no_fault (JNum 7)
        (Some [line 1 3 5, line 2 2 (5 / 2)]) JUndefined shop)))) = [7, 0]"
    and s2: "subtotal_of [line 1 3 5, line 2 2 (5 / 2)] = Fin 20"
    by simp_all
  have q': "map quantity_in_stock xs = [7, 0]"
    if "map (\<lambda>r. rat_of_int (quantity_in_stock r)) xs = [7, 0]" for xs :: "inventory_row list"
    using that by (auto simp: map_eq_Cons_conv)
  from createSaleWithItems_totals_and_stock[OF run] run two st s2 q'[OF q] show ?thesis
    by (simp add: shop_def)
qed

text \<open>
  Claim C5 as stated fails: the equalities do not hold in exact arithmetic. For three at
  0.1 (the double nearest to one tenth) with a discount of 10 percent, the committed
  subtotal is the double printed \<^verbatim>\<open>0.30000000000000004\<close>, which is neither three
  times the price nor three tenths; the committed discount is the double printed
  \<^verbatim>\<open>0.030000000000000006\<close> and the committed total the double printed
  \<^verbatim>\<open>0.27\<close>.
\<close>

theorem exact_totals_counterexample:
  "fst (createSaleWithItems no_fault (JNum 7) (Some [line 1 3 (double (1 / 10))]) (JNum 10) shop) =
     Inr \<lparr>e_sale_id = 1, e_user_id = 7, e_sale_date = ''15/01/2024'',
          e_subtotal = Fin (1351079888211149 / 4503599627370496),
          e_discount_percentage = Some (Fin 10),
          e_discount_amount = Fin (4323455642275677 / 144115188075855872),
          e_total_amount = Fin (double (27 / 100))\<rparr> \<and>
   sales (committed (snd (createSaleWithItems no_fault (JNum 7)
                            (Some [line 1 3 (double (1 / 10))]) (JNum 10) shop))) =
     [\<lparr>sale_id = 1, user_id = 7, sale_date = clock shop,
       subtotal = Fin (1351079888211149 / 4503599627370496),
       discount_percentage = Some (Fin 10),
       discount_amount = Fin (4323455642275677 / 144115188075855872),
       total_amount = Fin (double (27 / 100))\<rparr>] \<and>
   double (1 / 10) * 3 = 10808639105689191 / 36028797018963968 \<and>
   (1351079888211149 / 4503599627370496 :: rat) \<noteq> double (1 / 10) * 3 \<and>
   (1351079888211149 / 4503599627370496 :: rat) \<noteq> 3 / 10 \<and>
   \<not> exact_totals [line 1 3 (double (1 / 10))] 10
       \<lparr>e_sale_id = 1, e_user_id = 7, e_sale_date = ''15/01/2024'',
        e_subtotal = Fin (1351079888211149 / 4503599627370496),
        e_discount_percentage = Some (Fin 10),
        e_discount_amount = Fin (4323455642275677 / 144115188075855872),
        e_total_amount = Fin (double (27 / 100))\<rparr>"
  by (simp add: run_defs exact_totals_def)

section \<open>The amounts of a committed sale\<close>

lemma on_pool_Inr:
  assumes "on_pool stmt w = (Inr x, w')"
  shows "\<exists>t'. stmt (committed w) = Inr (x, t') \<and> w' = w\<lparr>committed := t'\<rparr>"
  using assms by (auto simp: on_pool_def split: sum.splits prod.splits)

lemma updateWithDiscount_Some:
  assumes "updateWithDiscount flt sid sub pct w = (Inr (Some d), w')"
  shows "e_subtotal d = sub \<and> e_discount_percentage d = Some (Fin pct) \<and>
         e_discount_amount d = js_div (js_mul sub (Fin pct)) (Fin 100) \<and>
         e_total_amount d = js_sub sub (js_div (js_mul sub (Fin pct)) (Fin 100)) \<and>
         (\<exists>r \<in> set (sales (committed w')). returning r = d) \<and>
         (\<exists>s. sid = of_int s \<and> e_sale_id d = s \<and>
           sales (committed w') =
             map (set_totals s sub (Some (Fin pct)) (js_div (js_mul sub (Fin pct)) (Fin 100))
                    (js_sub sub (js_div (js_mul sub (Fin pct)) (Fin 100))))
                 (sales (committed w))) \<and>
         inventory (committed w') = inventory (committed w) \<and>
         sale_items (committed w') = sale_items (committed w)"
proof -
  define disc where "disc = js_div (js_mul sub (Fin pct)) (Fin 100)"
  define tot where "tot = js_sub sub disc"
  define w1 where "w1 = w\<lparr>calls := calls w @ [UpdateSaleTotals sub (Some (Fin pct)) disc tot sid]\<rparr>"
  from assms obtain rs where
    p: "on_pool (UPDATE_sale_totals sub (Some (Fin pct)) disc tot sid) w1 = (Inr (d # rs), w')"
    unfolding updateWithDiscount_def Let_def storage_call_eq disc_def[symmetric] tot_def[symmetric]
      w1_def[symmetric]
    by (auto simp: new_Sales_def split: if_splits prod.splits sum.splits list.splits)
  from on_pool_Inr[OF p] obtain t' where
    u: "UPDATE_sale_totals sub (Some (Fin pct)) disc tot sid (committed w) = Inr (d # rs, t')" and
    w': "committed w' = t'"
    by (auto simp: w1_def)
  from u obtain s where s: "pg_int4 sid = Some s"
    by (auto simp: UPDATE_sale_totals_def split: option.splits)
  hence sid: "sid = of_int s" by (simp add: pg_int4_Some)
  have "d \<in> set (d # rs)" by simp
  note rows = UPDATE_sale_totals_rows[OF u[unfolded sid] this]
  note upd = UPDATE_sale_totals_Inr[OF u[unfolded sid]]
  from rows upd w' sid show ?thesis
    by (simp add: disc_def tot_def)
qed

text \<open>
  Claim C2, as the code has it. For every sale committed by \<^verbatim>\<open>createSaleWithItems\<close>
  or written by \<^verbatim>\<open>updateWithDiscount\<close>, \<^verbatim>\<open>discount_amount\<close> is
  \<^verbatim>\<open>(subtotal * discount_percentage) / 100\<close> as the code computes it (the product
  rounded to a double, then the quotient rounded to a double), with no rounding to two
  decimal places, and \<^verbatim>\<open>total_amount\<close> is \<^verbatim>\<open>subtotal - discount_amount\<close> rounded
  to a double; a percentage stored as \<^verbatim>\<open>NULL\<close> counts as \<^verbatim>\<open>0\<close>, as \<^verbatim>\<open>null\<close>
  does in the product. The sale returned is a row of the committed table.
\<close>

theorem committed_amounts_unrounded:
  "(createSaleWithItems flt u items discount w = (Inr d, w') \<longrightarrow>
      amounts_recomputed d \<and> (\<exists>r \<in> set (sales (committed w')). returning r = d)) \<and>
   (updateWithDiscount flt' sid sub pct v = (Inr (Some e), v') \<longrightarrow>
      amounts_recomputed e \<and> e_subtotal e = sub \<and> e_discount_percentage e = Some (Fin pct) \<and>
      (\<exists>r \<in> set (sales (committed v')). returning r = e))"
proof (intro conjI impI)
  assume run: "createSaleWithItems flt u items discount w = (Inr d, w')"
  from createSaleWithItems_Inr[OF run] obtain its where "items = Some its" by blast
  note f = createSaleWithItems_commits[OF run[unfolded this]]
  from f show "amounts_recomputed d"
    by (simp add: amounts_recomputed_def percentage_number_bind[OF default_parameter_defined])
  from f show "\<exists>r \<in> set (sales (committed w')). returning r = d" by blast
next
  assume run: "updateWithDiscount flt' sid sub pct v = (Inr (Some e), v')"
  note f = updateWithDiscount_Some[OF run]
  from f show "amounts_recomputed e" by (simp add: amounts_recomputed_def percentage_number_def)
  from f show "e_subtotal e = sub" by blast
  from f show "e_discount_percentage e = Some (Fin pct)" by blast
  from f show "\<exists>r \<in> set (sales (committed v')). returning r = e" by blast
qed

text \<open>
  The definitions a run of the other methods on concrete values unfolds.
\<close>

lemmas repo_defs =
  updateTotalAmount_def updateWithDiscount_def findById_def findBetweenDates_def
  updateSaleTotal_def applyDiscount_def getSalesBetweenDates_def
  UPDATE_total_amount_def SELECT_sale_by_id_def SELECT_sales_between_def ledger_def

text \<open>
  One item at 5.55 with a discount of 10 percent, and the same discount applied to the
  second sale of the ledger: the discount is the double printed \<^verbatim>\<open>0.555\<close> in both and
  the total the double printed \<^verbatim>\<open>4.995\<close>. One item at 1.1 with the discount
  \<^verbatim>\<open>null\<close>, which commits the percentage \<^verbatim>\<open>NULL\<close> and a discount of 0, and with
  the discount \<^verbatim>\<open>NaN\<close>, which commits \<^verbatim>\<open>NaN\<close> for the percentage and both
  amounts.
\<close>

theorem committed_amounts_unrounded_witness:
  "createSaleWithItems no_fault (JNum 7) (Some [line 2 1 (double (111 / 20))]) (JNum 10) shop =
     (Inr \<lparr>e_sale_id = 1, e_user_id = 7, e_sale_date = ''15/01/2024'',
            e_subtotal = Fin (double (111 / 20)), e_discount_percentage = Some (Fin 10),
            e_discount_amount = Fin (double (111 / 200)),
            e_total_amount = Fin (double (999 / 200))\<rparr>,
      snd (createSaleWithItems no_fault (JNum 7) (Some [line 2 1 (double (111 / 20))]) (JNum 10)
             shop)) \<and>
   updateWithDiscount no_fault 2 (Fin (double (111 / 20))) 10 ledger =
     (Inr (Some \<lparr>e_sale_id = 2, e_user_id = 8, e_sale_date = ''15/02/2024'',
                  e_subtotal = Fin (double (111 / 20)), e_discount_percentage = Some (Fin 10),
                  e_discount_amount = Fin (double (111 / 200)),
                  e_total_amount = Fin (double (999 / 200))\<rparr>),
      snd (updateWithDiscount no_fault 2 (Fin (double (111 / 20))) 10 ledger)) \<and>
   amounts_recomputed
     \<lparr>e_sale_id = 2, e_user_id = 8, e_sale_date = ''15/02/2024'',
      e_subtotal = Fin (double (111 / 20)), e_discount_percentage = Some (Fin 10),
      e_discount_amount = Fin (double (111 / 200)), e_total_amount = Fin (double (999 / 200))\<rparr> \<and>
   amounts_recomputed
     \<lparr>e_sale_id = 1, e_user_id = 7, e_sale_date = ''15/01/2024'',
      e_subtotal = Fin (double (111 / 20)), e_discount_percentage = Some (Fin 10),
      e_discount_amount = Fin (double (111 / 200)), e_total_amount = Fin (double (999 / 200))\<rparr> \<and>
   createSaleWithItems no_fault (JNum 7) (Some [line 2 1 (double (11 / 10))]) JNull shop =
     (Inr \<lparr>e_sale_id = 1, e_user_id = 7, e_sale_date = ''15/01/2024'',
            e_subtotal = Fin (double (11 / 10)), e_discount_percentage = None,
            e_discount_amount = Fin 0, e_total_amount = Fin (double (11 / 10))\<rparr>,
      snd (createSaleWithItems no_fault (JNum 7) (Some [line 2 1 (double (11 / 10))]) JNull shop)) \<and>
   createSaleWithItems no_fault (JNum 7) (Some [line 2 1 (double (11 / 10))]) JNaN shop =
     (Inr \<lparr>e_sale_id = 1, e_user_id = 7, e_sale_date = ''15/01/2024'',
            e_subtotal = Fin (double (11 / 10)), e_discount_percentage = Some NaN,
            e_discount_amount = NaN, e_total_amount = NaN\<rparr>,
      snd (createSaleWithItems no_fault (JNum 7) (Some [line 2 1 (double (11 / 10))]) JNaN shop))"
proof -
  have a: "fst (createSaleWithItems no_fault (JNum 7) (Some [line 2 1 (double (111 / 20))])
                  (JNum 10) shop) =
     Inr \<lparr>e_sale_id = 1, e_user_id = 7, e_sale_date = ''15/01/2024'',
            e_subtotal = Fin (double (111 / 20)), e_discount_percentage = Some (Fin 10),
            e_discount_amount = Fin (double (111 / 200)),
            e_total_amount = Fin (double (999 / 200))\<rparr>"
    by (simp add: run_defs)
  have b: "fst (updateWithDiscount no_fault 2 (Fin (double (111 / 20))) 10 ledger) =
     Inr (Some \<lparr>e_sale_id = 2, e_user_id = 8, e_sale_date = ''15/02/2024'',
                  e_subtotal = Fin (double (111 / 20)), e_discount_percentage = Some (Fin 10),
                  e_discount_amount = Fin (double (111 / 200)),
                  e_total_amount = Fin (double (999 / 200))\<rparr>)"
    by (simp add: run_defs repo_defs)
  have c: "fst (createSaleWithItems no_fault (JNum 7) (Some [line 2 1 (double (11 / 10))]) JNull
                  shop) =
     Inr \<lparr>e_sale_id = 1, e_user_id = 7, e_sale_date = ''15/01/2024'',
            e_subtotal = Fin (double (11 / 10)), e_discount_percentage = None,
            e_discount_amount = Fin 0, e_total_amount = Fin (double (11 / 10))\<rparr>"
    by (simp add: run_defs)
  have d: "fst (createSaleWithItems no_fault (JNum 7) (Some [line 2 1 (double (11 / 10))]) JNaN
                  shop) =
     Inr \<lparr>e_sale_id = 1, e_user_id = 7, e_sale_date = ''15/01/2024'',
            e_subtotal = Fin (double (11 / 10)), e_discount_percentage = Some NaN,
            e_discount_amount = NaN, e_total_amount = NaN\<rparr>"
    by (simp add: run_defs)
  note a' = a[THEN arg_cong[where f = "\<lambda>x. (x, snd (createSaleWithItems no_fault (JNum 7)
      (Some [line 2 1 (double (111 / 20))]) (JNum 10) shop))"], unfolded prod.collapse]
  note b' = b[THEN arg_cong[where f = "\<lambda>x. (x, snd (updateWithDiscount no_fault 2
      (Fin (double (111 / 20))) 10 ledger))"], unfolded prod.collapse]
  note c' = c[THEN arg_cong[where f = "\<lambda>x. (x, snd (createSaleWithItems no_fault (JNum 7)
      (Some [line 2 1 (double (11 / 10))]) JNull shop))"], unfolded prod.collapse]
  note d' = d[THEN arg_cong[where f = "\<lambda>x. (x, snd (createSaleWithItems no_fault (JNum 7)
      (Some [line 2 1 (double (11 / 10))]) JNaN shop))"], unfolded prod.collapse]
  from committed_amounts_unrounded[of no_fault "JNum 7" "Some [line 2 1 (double (111 / 20))]"
      "JNum 10" shop _ _ no_fault 2 "Fin (double (111 / 20))" 10 ledger] a' b' c' d'
  show ?thesis
    by simp
qed

text \<open>
  Claim C2 as stated fails: for one item at 5.55 and a discount of 10 percent the committed
  \<^verbatim>\<open>discount_amount\<close> is the double printed \<^verbatim>\<open>0.555\<close>. It lies strictly between
  the doubles \<^verbatim>\<open>0.55\<close> and \<^verbatim>\<open>0.56\<close>, so it is no amount of two decimal places.
\<close>

theorem rounded_invariant_counterexample:
  "fst (createSaleWithItems no_fault (JNum 7) (Some [line 2 1 (double (111 / 20))]) (JNum 10) shop) =
     Inr \<lparr>e_sale_id = 1, e_user_id = 7, e_sale_date = ''15/01/2024'',
          e_subtotal = Fin (double (111 / 20)), e_discount_percentage = Some (Fin 10),
          e_discount_amount = Fin (double (111 / 200)),
          e_total_amount = Fin (double (999 / 200))\<rparr> \<and>
   sales (committed (snd (createSaleWithItems no_fault (JNum 7)
                            (Some [line 2 1 (double (111 / 20))]) (JNum 10) shop))) =
     [\<lparr>sale_id = 1, user_id = 7, sale_date = clock shop, subtotal = Fin (double (111 / 20)),
       discount_percentage = Some (Fin 10), discount_amount = Fin (double (111 / 200)),
       total_amount = Fin (double (999 / 200))\<rparr>] \<and>
   double (111 / 200) \<noteq> double (11 / 20) \<and> double (111 / 200) \<noteq> double (14 / 25) \<and>
   double (11 / 20) < double (111 / 200) \<and> double (111 / 200) < double (14 / 25) \<and>
   \<not> rounded_invariant
       \<lparr>e_sale_id = 1, e_user_id = 7, e_sale_date = ''15/01/2024'',
        e_subtotal = Fin (double (111 / 20)), e_discount_percentage = Some (Fin 10),
        e_discount_amount = Fin (double (111 / 200)),
        e_total_amount = Fin (double (999 / 200))\<rparr>"
  by (simp add: run_defs rounded_invariant_def round2_def round_def)

section \<open>Applying a discount\<close>

lemma sale_id_set_totals: "sale_id (set_totals s a b c d r) = sale_id r"
  by (simp add: set_totals_def)

lemma filter_set_totals:
  "filter (\<lambda>r. sale_id r = s) (map (set_totals s a b c d) xs) =
   map (set_totals s a b c d) (filter (\<lambda>r. sale_id r = s) xs)"
  by (induction xs) (simp_all add: sale_id_set_totals)

lemma set_totals_idem: "set_totals s a b c d (set_totals s a b c d r) = set_totals s a b c d r"
  by (simp add: set_totals_def)

lemma subtotal_set_totals: "sale_id r = s \<Longrightarrow> subtotal (set_totals s a b c d r) = a"
  by (simp add: set_totals_def)

lemma UPDATE_sale_totals_eq:
  "pg_int4 sid = Some s \<Longrightarrow>
   UPDATE_sale_totals sub pct disc tot sid t =
     Inr (map returning (map (set_totals s sub pct disc tot) (filter (\<lambda>r. sale_id r = s) (sales t))),
          t\<lparr>sales := map (set_totals s sub pct disc tot) (sales t)\<rparr>)"
  by (simp add: UPDATE_sale_totals_def Let_def set_totals_def[abs_def] filter_set_totals[unfolded set_totals_def[abs_def]])

lemma applyDiscount_found:
  assumes ok: "truthy sid" "\<not> eq_null pct" "\<not> isNaN_js pct" "0 \<le> number_of pct" "number_of pct \<le> 100"
    and s: "pg_int4 (number_of sid) = Some s"
    and x: "filter (\<lambda>r. sale_id r = s) (sales (committed w)) = x # xs"
  shows "applyDiscount flt sid pct w =
     (let sub = subtotal x; p = Some (Fin (number_of pct));
          disc = js_div (js_mul sub (Fin (number_of pct))) (Fin 100); tot = js_sub sub disc;
          q1 = SelectSaleById (number_of sid);
          q2 = UpdateSaleTotals sub p disc tot (number_of sid)
      in if flt (length (calls w)) q1
         then (Inl (Wrapped FailedToApplyDiscount (Wrapped FailedToFindSaleById StorageError)),
               w\<lparr>calls := calls w @ [q1]\<rparr>)
         else if flt (Suc (length (calls w))) q2
         then (Inl (Wrapped FailedToApplyDiscount (Wrapped FailedToUpdateSaleWithDiscount StorageError)),
               w\<lparr>calls := calls w @ [q1, q2]\<rparr>)
         else (Inr (Some (returning (set_totals s sub p disc tot x))),
               w\<lparr>calls := calls w @ [q1, q2],
                  committed := (committed w)\<lparr>sales := map (set_totals s sub p disc tot)
                                                         (sales (committed w))\<rparr>\<rparr>))"
proof -
  from ok(1) have nn: "\<not> isNaN_js sid" by (cases sid) auto
  define w1 where "w1 = w\<lparr>calls := calls w @ [SelectSaleById (number_of sid)]\<rparr>"
  have f: "findById flt (number_of sid) w =
      (if flt (length (calls w)) (SelectSaleById (number_of sid))
       then (Inl (Wrapped FailedToFindSaleById StorageError), w1)
       else (Inr (Some (returning x)), w1))"
    by (simp add: findById_def storage_call_eq on_pool_def SELECT_sale_by_id_def s x w1_def
        new_Sales_def)
  have u: "updateWithDiscount flt (number_of sid) (subtotal x) (number_of pct) w1 =
      (let sub = subtotal x; p = Some (Fin (number_of pct));
           disc = js_div (js_mul sub (Fin (number_of pct))) (Fin 100); tot = js_sub sub disc;
           q2 = UpdateSaleTotals sub p disc tot (number_of sid)
       in if flt (length (calls w1)) q2
          then (Inl (Wrapped FailedToUpdateSaleWithDiscount StorageError), w1\<lparr>calls := calls w1 @ [q2]\<rparr>)
          else (Inr (Some (returning (set_totals s sub p disc tot x))),
                w1\<lparr>calls := calls w1 @ [q2],
                   committed := (committed w1)\<lparr>sales := map (set_totals s sub p disc tot)
                                                         (sales (committed w1))\<rparr>\<rparr>))"
    by (simp add: updateWithDiscount_def storage_call_eq on_pool_def UPDATE_sale_totals_eq[OF s]
        Let_def new_Sales_def, simp add: w1_def x new_Sales_def)
  have sx: "e_subtotal (returning x) = subtotal x" by (simp add: returning_def)
  show ?thesis
    unfolding applyDiscount_def
    by (simp add: ok nn f u sx Let_def SalesDTO_fromEntity_def not_less, simp add: w1_def)
qed

lemma applyDiscount_Some:
  assumes "applyDiscount flt sid pct w = (Inr (Some d), w')"
  shows "\<exists>s x xs. truthy sid \<and> \<not> eq_null pct \<and> \<not> isNaN_js pct \<and> 0 \<le> number_of pct \<and>
           number_of pct \<le> 100 \<and> pg_int4 (number_of sid) = Some s \<and>
           filter (\<lambda>r. sale_id r = s) (sales (committed w)) = x # xs"
proof -
  from assms have ok: "truthy sid" "\<not> eq_null pct" "\<not> isNaN_js pct" "0 \<le> number_of pct"
      "number_of pct \<le> 100"
    by (auto simp: applyDiscount_def split: if_splits)
  from ok(1) have nn: "\<not> isNaN_js sid" by (cases sid) auto
  from assms ok nn obtain c w1 where f: "findById flt (number_of sid) w = (Inr (Some c), w1)"
    by (auto simp: applyDiscount_def not_less split: prod.splits sum.splits option.splits)
  then obtain s where s: "pg_int4 (number_of sid) = Some s"
    by (cases "pg_int4 (number_of sid)")
       (auto simp: findById_def storage_call_eq on_pool_def SELECT_sale_by_id_def split: if_splits)
  from f s obtain x xs where "filter (\<lambda>r. sale_id r = s) (sales (committed w)) = x # xs"
    by (cases "filter (\<lambda>r. sale_id r = s) (sales (committed w))")
       (auto simp: findById_def storage_call_eq on_pool_def SELECT_sale_by_id_def split: if_splits)
  with ok s show ?thesis by blast
qed

text \<open>
  Claim C7. When \<^verbatim>\<open>applyDiscount\<close> has applied a percentage to a sale, applying the
  same percentage to the same sale again changes nothing in the committed tables and
  returns the very same sale, with the same \<^verbatim>\<open>discount_amount\<close> and
  \<^verbatim>\<open>total_amount\<close>; the second call can only fail if the storage refuses one of its
  two statements.
\<close>

theorem applyDiscount_twice:
  assumes "applyDiscount flt sid pct w = (Inr (Some d1), w1)"
    and "applyDiscount flt' sid pct w1 = (r2, w2)"
  shows "committed w2 = committed w1 \<and>
         (r2 = Inr (Some d1) \<or> (\<exists>e. r2 = Inl (Wrapped FailedToApplyDiscount e)) \<and> (\<exists>n q. flt' n q))"
proof -
  from applyDiscount_Some[OF assms(1)] obtain s x xs where
    ok: "truthy sid" "\<not> eq_null pct" "\<not> isNaN_js pct" "0 \<le> number_of pct" "number_of pct \<le> 100"
    and s: "pg_int4 (number_of sid) = Some s"
    and x: "filter (\<lambda>r. sale_id r = s) (sales (committed w)) = x # xs"
    by blast
  define p where "p = Some (Fin (number_of pct))"
  define sub where "sub = subtotal x"
  define disc where "disc = js_div (js_mul sub (Fin (number_of pct))) (Fin 100)"
  define f where "f = set_totals s sub p disc (js_sub sub disc)"
  from x have sx: "sale_id x = s"
    by (metis (mono_tags, lifting) filter_eq_ConsD)
  from assms(1)[unfolded applyDiscount_found[OF ok s x, of flt]]
  have d1: "d1 = returning (f x)" and c1: "committed w1 = (committed w)\<lparr>sales := map f (sales (committed w))\<rparr>"
    by (auto simp: Let_def f_def sub_def p_def disc_def split: if_splits)
  have x1: "filter (\<lambda>r. sale_id r = s) (sales (committed w1)) = f x # map f xs"
    by (simp add: c1 f_def filter_set_totals x)
  have sub1: "subtotal (f x) = sub" by (simp add: f_def subtotal_set_totals[OF sx])
  have idem: "f \<circ> f = f"
    by (rule ext) (simp add: f_def set_totals_idem)
  have ffx: "f (f x) = f x" by (simp add: f_def set_totals_idem)
  have same: "(committed w1)\<lparr>sales := map f (sales (committed w1))\<rparr> = committed w1"
    by (simp add: c1 idem)
  from assms(2)[unfolded applyDiscount_found[OF ok s x1, of flt']]
  show ?thesis
    by (auto simp: Let_def sub1 p_def[symmetric] disc_def[symmetric] f_def[symmetric] same d1 ffx
        split: if_splits)
qed

text \<open>
  Ten percent applied twice to the second sale of the ledger.
\<close>

theorem applyDiscount_twice_witness:
  "applyDiscount no_fault (JNum 2) (JNum 10) ledger =
     (Inr (Some \<lparr>e_sale_id = 2, e_user_id = 8, e_sale_date = ''15/02/2024'',
                  e_subtotal = Fin (double (111 / 20)), e_discount_percentage = Some (Fin 10),
                  e_discount_amount = Fin (double (111 / 200)),
                  e_total_amount = Fin (double (999 / 200))\<rparr>),
      snd (applyDiscount no_fault (JNum 2) (JNum 10) ledger)) \<and>
   applyDiscount no_fault (JNum 2) (JNum 10) (snd (applyDiscount no_fault (JNum 2) (JNum 10) ledger)) =
     (Inr (Some \<lparr>e_sale_id = 2, e_user_id = 8, e_sale_date = ''15/02/2024'',
                  e_subtotal = Fin (double (111 / 20)), e_discount_percentage = Some (Fin 10),
                  e_discount_amount = Fin (double (111 / 200)),
                  e_total_amount = Fin (double (999 / 200))\<rparr>),
      snd (applyDiscount no_fault (JNum 2) (JNum 10)
             (snd (applyDiscount no_fault (JNum 2) (JNum 10) ledger)))) \<and>
   committed (snd (applyDiscount no_fault (JNum 2) (JNum 10)
                    (snd (applyDiscount no_fault (JNum 2) (JNum 10) ledger)))) =
     committed (snd (applyDiscount no_fault (JNum 2) (JNum 10) ledger))"
proof -
  have a: "fst (applyDiscount no_fault (JNum 2) (JNum 10) ledger) =
     Inr (Some \<lparr>e_sale_id = 2, e_user_id = 8, e_sale_date = ''15/02/2024'',
                 e_subtotal = Fin (double (111 / 20)), e_discount_percentage = Some (Fin 10),
                 e_discount_amount = Fin (double (111 / 200)),
                  e_total_amount = Fin (double (999 / 200))\<rparr>)"
    by (simp add: run_defs repo_defs)
  hence a': "applyDiscount no_fault (JNum 2) (JNum 10) ledger =
     (Inr (Some \<lparr>e_sale_id = 2, e_user_id = 8, e_sale_date = ''15/02/2024'',
                  e_subtotal = Fin (double (111 / 20)), e_discount_percentage = Some (Fin 10),
                  e_discount_amount = Fin (double (111 / 200)),
                  e_total_amount = Fin (double (999 / 200))\<rparr>),
      snd (applyDiscount no_fault (JNum 2) (JNum 10) ledger))"
    by (metis prod.collapse)
  obtain r2 w2 where b: "applyDiscount no_fault (JNum 2) (JNum 10)
      (snd (applyDiscount no_fault (JNum 2) (JNum 10) ledger)) = (r2, w2)"
    by (cases "applyDiscount no_fault (JNum 2) (JNum 10)
      (snd (applyDiscount no_fault (JNum 2) (JNum 10) ledger))")
  from applyDiscount_twice[OF a' b] a' b show ?thesis
    by (simp add: no_fault_def)
qed

section \<open>Writing the total alone\<close>

lemma forget_set_total: "(set_total s tot r)\<lparr>total_amount := Fin 0\<rparr> = r\<lparr>total_amount := Fin 0\<rparr>"
  by (simp add: set_total_def)

lemma sale_id_set_total: "sale_id (set_total s tot r) = sale_id r"
  by (simp add: set_total_def)

lemma filter_set_total:
  "filter (\<lambda>r. sale_id r = s) (map (set_total s tot) xs) =
   map (set_total s tot) (filter (\<lambda>r. sale_id r = s) xs)"
  by (induction xs) (simp_all add: sale_id_set_total)

lemma UPDATE_total_amount_eq:
  "UPDATE_total_amount tot sid t =
     (case pg_int4 sid of
        None \<Rightarrow> Inl StorageError
      | Some s \<Rightarrow>
          Inr (map returning (map (set_total s tot) (filter (\<lambda>r. sale_id r = s) (sales t))),
               t\<lparr>sales := map (set_total s tot) (sales t)\<rparr>))"
  by (simp add: UPDATE_total_amount_def Let_def set_total_def[abs_def]
        filter_set_total[unfolded set_total_def[abs_def]] split: option.splits)

lemma updateTotalAmount_cases:
  assumes "pg_int4 sid = Some s"
  shows "updateTotalAmount flt sid tot w =
     (if flt (length (calls w)) (UpdateTotalAmount tot sid)
      then (Inl (Wrapped FailedToUpdateSaleTotalAmount StorageError),
            w\<lparr>calls := calls w @ [UpdateTotalAmount tot sid]\<rparr>)
      else (Inr (case filter (\<lambda>r. sale_id r = s) (sales (committed w)) of
                   [] \<Rightarrow> None
                 | x # xs \<Rightarrow> Some (returning (set_total s tot x))),
            w\<lparr>calls := calls w @ [UpdateTotalAmount tot sid],
               committed := (committed w)\<lparr>sales := map (set_total s tot) (sales (committed w))\<rparr>\<rparr>))"
proof (cases "filter (\<lambda>r. sale_id r = s) (sales (committed w))")
  case Nil
  then show ?thesis
    by (simp add: updateTotalAmount_def storage_call_eq on_pool_def UPDATE_total_amount_eq assms)
next
  case (Cons x xs)
  then show ?thesis
    by (simp add: updateTotalAmount_def storage_call_eq on_pool_def UPDATE_total_amount_eq assms
          new_Sales_def)
qed

lemma updateSaleTotal_cases:
  assumes ok: "truthy sid" "\<not> eq_null tot" "\<not> isNaN_js tot"
    and s: "pg_int4 (number_of sid) = Some s"
  shows "updateSaleTotal flt sid tot w =
     (let q = UpdateTotalAmount (number_of tot) (number_of sid)
      in if flt (length (calls w)) q
         then (Inl (Wrapped FailedToUpdateSaleTotal
                      (Wrapped FailedToUpdateSaleTotalAmount StorageError)),
               w\<lparr>calls := calls w @ [q]\<rparr>)
         else (Inr (case filter (\<lambda>r. sale_id r = s) (sales (committed w)) of
                      [] \<Rightarrow> None
                    | x # xs \<Rightarrow> Some (returning (set_total s (number_of tot) x))),
               w\<lparr>calls := calls w @ [q],
                  committed := (committed w)\<lparr>sales := map (set_total s (number_of tot))
                                                         (sales (committed w))\<rparr>\<rparr>))"
proof -
  from ok(1) have nn: "\<not> isNaN_js sid" by (cases sid) auto
  show ?thesis
    unfolding updateSaleTotal_def updateTotalAmount_cases[OF s]
    by (simp add: ok nn Let_def SalesDTO_fromEntity_def split: list.splits)
qed

lemma set_total_columns:
  "subtotal (set_total s t x) = subtotal x \<and>
   discount_percentage (set_total s t x) = discount_percentage x \<and>
   discount_amount (set_total s t x) = discount_amount x \<and>
   sale_id (set_total s t x) = sale_id x \<and> user_id (set_total s t x) = user_id x \<and>
   sale_date (set_total s t x) = sale_date x \<and>
   total_amount (set_total s t x) = (if sale_id x = s then Fin t else total_amount x)"
  by (simp add: set_total_def)

text \<open>
  Claim C3, as the code has it. \<^verbatim>\<open>updateSaleTotal\<close> writes \<^verbatim>\<open>total_amount\<close> alone.
  For a sale id and a total that pass its guards it sends one \<^verbatim>\<open>UPDATE\<close>; unless the
  storage refuses the statement, the committed sales are then the former ones with
  \<^verbatim>\<open>total_amount\<close> set to the given total in the rows of that id, and the sale
  returned is the first of these rows as written (\<^verbatim>\<open>null\<close> when there is none).
  Setting the total of a row leaves its subtotal, its percentage and its
  \<^verbatim>\<open>discount_amount\<close> as they were, in the rows of the id as in the others.
  \<^verbatim>\<open>applyDiscount\<close>, for parameters that pass its guards and a sale that exists, reads
  the subtotal and writes, in the rows of that id and in one statement, the percentage,
  \<^verbatim>\<open>discount_amount = (subtotal * discount_percentage) / 100\<close> and
  \<^verbatim>\<open>total_amount = subtotal - discount_amount\<close> (in the arithmetic of doubles).
  \<^verbatim>\<open>createSaleWithItems\<close> commits the two amounts computed in the same way.
\<close>

theorem total_amount_written_alone:
  "(truthy sid \<and> \<not> eq_null tot \<and> \<not> isNaN_js tot \<and> pg_int4 (number_of sid) = Some s \<longrightarrow>
      updateSaleTotal flt sid tot w =
        (let q = UpdateTotalAmount (number_of tot) (number_of sid)
         in if flt (length (calls w)) q
            then (Inl (Wrapped FailedToUpdateSaleTotal
                         (Wrapped FailedToUpdateSaleTotalAmount StorageError)),
                  w\<lparr>calls := calls w @ [q]\<rparr>)
            else (Inr (case filter (\<lambda>r. sale_id r = s) (sales (committed w)) of
                         [] \<Rightarrow> None
                       | x # xs \<Rightarrow> Some (returning (set_total s (number_of tot) x))),
                  w\<lparr>calls := calls w @ [q],
                     committed := (committed w)\<lparr>sales := map (set_total s (number_of tot))
                                                            (sales (committed w))\<rparr>\<rparr>))) \<and>
   (subtotal (set_total s0 t0 x0) = subtotal x0 \<and>
    discount_percentage (set_total s0 t0 x0) = discount_percentage x0 \<and>
    discount_amount (set_total s0 t0 x0) = discount_amount x0 \<and>
    sale_id (set_total s0 t0 x0) = sale_id x0 \<and> user_id (set_total s0 t0 x0) = user_id x0 \<and>
    sale_date (set_total s0 t0 x0) = sale_date x0 \<and>
    total_amount (set_total s0 t0 x0) = (if sale_id x0 = s0 then Fin t0 else total_amount x0)) \<and>
   (truthy sid' \<and> \<not> eq_null pct \<and> \<not> isNaN_js pct \<and> 0 \<le> number_of pct \<and> number_of pct \<le> 100 \<and>
    pg_int4 (number_of sid') = Some s' \<and>
    filter (\<lambda>r. sale_id r = s') (sales (committed v)) = y # ys \<longrightarrow>
      applyDiscount flt' sid' pct v =
        (let sub = subtotal y; p = Some (Fin (number_of pct));
             disc = js_div (js_mul sub (Fin (number_of pct))) (Fin 100); tot = js_sub sub disc;
             q1 = SelectSaleById (number_of sid');
             q2 = UpdateSaleTotals sub p disc tot (number_of sid')
         in if flt' (length (calls v)) q1
            then (Inl (Wrapped FailedToApplyDiscount (Wrapped FailedToFindSaleById StorageError)),
                  v\<lparr>calls := calls v @ [q1]\<rparr>)
            else if flt' (Suc (length (calls v))) q2
            then (Inl (Wrapped FailedToApplyDiscount
                         (Wrapped FailedToUpdateSaleWithDiscount StorageError)),
                  v\<lparr>calls := calls v @ [q1, q2]\<rparr>)
            else (Inr (Some (returning (set_totals s' sub p disc tot y))),
                  v\<lparr>calls := calls v @ [q1, q2],
                     committed := (committed v)\<lparr>sales := map (set_totals s' sub p disc tot)
                                                            (sales (committed v))\<rparr>\<rparr>))) \<and>
   (createSaleWithItems flt'' u items discount v2 = (Inr d, v2') \<longrightarrow>
      amounts_recomputed d \<and> (\<exists>r \<in> set (sales (committed v2')). returning r = d))"
proof (intro conjI impI)
  assume "truthy sid \<and> \<not> eq_null tot \<and> \<not> isNaN_js tot \<and> pg_int4 (number_of sid) = Some s"
  thus "updateSaleTotal flt sid tot w =
        (let q = UpdateTotalAmount (number_of tot) (number_of sid)
         in if flt (length (calls w)) q
            then (Inl (Wrapped FailedToUpdateSaleTotal
                         (Wrapped FailedToUpdateSaleTotalAmount StorageError)),
                  w\<lparr>calls := calls w @ [q]\<rparr>)
            else (Inr (case filter (\<lambda>r. sale_id r = s) (sales (committed w)) of
                         [] \<Rightarrow> None
                       | x # xs \<Rightarrow> Some (returning (set_total s (number_of tot) x))),
                  w\<lparr>calls := calls w @ [q],
                     committed := (committed w)\<lparr>sales := map (set_total s (number_of tot))
                                                            (sales (committed w))\<rparr>\<rparr>))"
    by (intro updateSaleTotal_cases) simp_all
next
  assume a: "truthy sid' \<and> \<not> eq_null pct \<and> \<not> isNaN_js pct \<and> 0 \<le> number_of pct \<and>
    number_of pct \<le> 100 \<and> pg_int4 (number_of sid') = Some s' \<and>
    filter (\<lambda>r. sale_id r = s') (sales (committed v)) = y # ys"
  show "applyDiscount flt' sid' pct v =
        (let sub = subtotal y; p = Some (Fin (number_of pct));
             disc = js_div (js_mul sub (Fin (number_of pct))) (Fin 100); tot = js_sub sub disc;
             q1 = SelectSaleById (number_of sid');
             q2 = UpdateSaleTotals sub p disc tot (number_of sid')
         in if flt' (length (calls v)) q1
            then (Inl (Wrapped FailedToApplyDiscount (Wrapped FailedToFindSaleById StorageError)),
                  v\<lparr>calls := calls v @ [q1]\<rparr>)
            else if flt' (Suc (length (calls v))) q2
            then (Inl (Wrapped FailedToApplyDiscount
                         (Wrapped FailedToUpdateSaleWithDiscount StorageError)),
                  v\<lparr>calls := calls v @ [q1, q2]\<rparr>)
            else (Inr (Some (returning (set_totals s' sub p disc tot y))),
                  v\<lparr>calls := calls v @ [q1, q2],
                     committed := (committed v)\<lparr>sales := map (set_totals s' sub p disc tot)
                                                            (sales (committed v))\<rparr>\<rparr>))"
    using a by (intro applyDiscount_found) simp_all
next
  assume run: "createSaleWithItems flt'' u items discount v2 = (Inr d, v2')"
  from createSaleWithItems_Inr[OF run] obtain its where "items = Some its" by blast
  note f = createSaleWithItems_commits[OF run[unfolded this]]
  from f show "amounts_recomputed d"
    by (simp add: amounts_recomputed_def percentage_number_bind[OF default_parameter_defined])
  from f show "\<exists>r \<in> set (sales (committed v2')). returning r = d" by blast
qed (simp_all add: set_total_columns)

text \<open>
  Claim C3 as stated fails: \<^verbatim>\<open>updateSaleTotal\<close> sets the total of the first sale of
  the ledger to 99 and commits, while its subtotal stays 15 and its discount 1.50; the
  amounts of the sale no longer follow from its subtotal and percentage.
\<close>

theorem total_amount_written_alone_counterexample:
  "updateSaleTotal no_fault (JNum 1) (JNum 99) ledger =
     (Inr (Some \<lparr>e_sale_id = 1, e_user_id = 7, e_sale_date = ''20/01/2024'', e_subtotal = Fin 15,
                  e_discount_percentage = Some (Fin 10), e_discount_amount = Fin (3 / 2),
                  e_total_amount = Fin 99\<rparr>),
      ledger\<lparr>committed := (committed ledger)\<lparr>sales :=
                [(hd (sales (committed ledger)))\<lparr>total_amount := Fin 99\<rparr>,
                 hd (tl (sales (committed ledger)))]\<rparr>,
             calls := [UpdateTotalAmount 99 1]\<rparr>) \<and>
   subtotal (hd (sales (committed ledger))) = Fin 15 \<and>
   discount_amount (hd (sales (committed ledger))) = Fin (3 / 2) \<and>
   total_amount (hd (sales (committed ledger))) = Fin (27 / 2) \<and>
   js_sub (Fin 15) (Fin (3 / 2)) = Fin (27 / 2) \<and>
   \<not> amounts_recomputed
       \<lparr>e_sale_id = 1, e_user_id = 7, e_sale_date = ''20/01/2024'', e_subtotal = Fin 15,
        e_discount_percentage = Some (Fin 10), e_discount_amount = Fin (3 / 2),
        e_total_amount = Fin 99\<rparr>"
  by (simp add: run_defs repo_defs amounts_recomputed_def percentage_number_def)

text \<open>
  The total of the first sale of the ledger set to 99; a discount of 20 percent applied
  to it; and the sale of the specification's scenario.
\<close>

theorem total_amount_written_alone_witness:
  "updateSaleTotal no_fault (JNum 1) (JNum 99) ledger =
     (Inr (Some \<lparr>e_sale_id = 1, e_user_id = 7, e_sale_date = ''20/01/2024'', e_subtotal = Fin 15,
                  e_discount_percentage = Some (Fin 10), e_discount_amount = Fin (3 / 2),
                  e_total_amount = Fin 99\<rparr>),
      ledger\<lparr>calls := [UpdateTotalAmount 99 1],
             committed := (committed ledger)\<lparr>sales :=
                [(hd (sales (committed ledger)))\<lparr>total_amount := Fin 99\<rparr>,
                 hd (tl (sales (committed ledger)))]\<rparr>\<rparr>) \<and>
   applyDiscount no_fault (JNum 1) (JNum 20) ledger =
     (Inr (Some \<lparr>e_sale_id = 1, e_user_id = 7, e_sale_date = ''20/01/2024'', e_subtotal = Fin 15,
                  e_discount_percentage = Some (Fin 20), e_discount_amount = Fin 3,
                  e_total_amount = Fin 12\<rparr>),
      ledger\<lparr>calls := [SelectSaleById 1, UpdateSaleTotals (Fin 15) (Some (Fin 20)) (Fin 3) (Fin 12) 1],
             committed := (committed ledger)\<lparr>sales :=
                [(hd (sales (committed ledger)))\<lparr>discount_percentage := Some (Fin 20),
                    discount_amount := Fin 3, total_amount := Fin 12\<rparr>,
                 hd (tl (sales (committed ledger)))]\<rparr>\<rparr>) \<and>
   amounts_recomputed
     \<lparr>e_sale_id = 1, e_user_id = 7, e_sale_date = ''20/01/2024'', e_subtotal = Fin 15,
      e_discount_percentage = Some (Fin 10), e_discount_amount = Fin (3 / 2),
      e_total_amount = Fin (27 / 2)\<rparr>"
proof -
  have c: "fst (createSaleWithItems no_fault (JNum 7) (Some [line 1 3 5]) (JNum 10) shop) =
     Inr \<lparr>e_sale_id = 1, e_user_id = 7, e_sale_date = ''15/01/2024'', e_subtotal = Fin 15,
            e_discount_percentage = Some (Fin 10), e_discount_amount = Fin (3 / 2),
            e_total_amount = Fin (27 / 2)\<rparr>"
    by (simp add: run_defs)
  note c' = c[THEN arg_cong[where f = "\<lambda>x. (x, snd (createSaleWithItems no_fault (JNum 7)
      (Some [line 1 3 5]) (JNum 10) shop))"], unfolded prod.collapse]
  have f: "filter (\<lambda>r. sale_id r = 1) (sales (committed ledger)) = [hd (sales (committed ledger))]"
    by (simp add: ledger_def)
  from total_amount_written_alone[of "JNum 1" "JNum 99" 1 no_fault ledger _ _ _ "JNum 1" "JNum 20" 1
      ledger "hd (sales (committed ledger))" "[]" no_fault no_fault "JNum 7" "Some [line 1 3 5]"
      "JNum 10" shop] c' f
  show ?thesis
    by (simp add: pg_int4_def int4_ok_def no_fault_def Let_def)
       (simp add: ledger_def set_total_def set_totals_def returning_def TO_CHAR_def digit_char_def
          number_defs amounts_recomputed_def percentage_number_def)
qed

section \<open>Validation\<close>



lemma validate_inputs_invalid:
  assumes "\<not> truthy u \<or> isNaN_js u \<or> items = None \<or> items = Some [] \<or>
           js_lt (ToNumber pct) (Fin 0) \<or> js_lt (Fin 100) (ToNumber pct)"
  shows "validate_inputs u items pct =
     Some (if \<not> truthy u \<or> isNaN_js u then InvalidUserID
           else if items = None \<or> items = Some [] then SaleMustHaveItems
           else DiscountOutOfRange)"
  using assms unfolding validate_inputs_def by auto

text \<open>
  Claim C6, as the code has it. \<^verbatim>\<open>createSaleWithItems\<close> takes a connection and
  sends \<^verbatim>\<open>BEGIN\<close> before it validates. For every invalid input (a user id that is
  missing, zero or not a number; an item list that is absent or empty; a discount below 0
  or above 100), and a storage that accepts the three calls, it fails with the validation
  error under the method's message; the calls made are the connection, \<^verbatim>\<open>BEGIN\<close>,
  \<^verbatim>\<open>ROLLBACK\<close> and the release, so that no row is read or written; and the storage
  is otherwise left as it was.
\<close>

theorem invalid_input_fails_inside_transaction:
  assumes "\<not> truthy u \<or> isNaN_js u \<or> items = None \<or> items = Some [] \<or>
           js_lt (ToNumber (default_parameter (JNum 0) discount)) (Fin 0) \<or>
           js_lt (Fin 100) (ToNumber (default_parameter (JNum 0) discount))"
    and "\<not> flt (length (calls w)) Connect"
    and "\<not> flt (length (calls w) + 1) Begin"
    and "\<not> flt (length (calls w) + 2) Rollback"
  shows "createSaleWithItems flt u items discount w =
           (Inl (Wrapped FailedToCreateSaleWithItems
                   (if \<not> truthy u \<or> isNaN_js u then InvalidUserID
                    else if items = None \<or> items = Some [] then SaleMustHaveItems
                    else DiscountOutOfRange)),
            w\<lparr>txn := None, calls := calls w @ [Connect, Begin, Rollback, Release]\<rparr>)"
proof -
  define w0 where "w0 = w\<lparr>calls := calls w @ [Connect], txn := None\<rparr>"
  define w1 where "w1 = w0\<lparr>calls := calls w0 @ [Begin], txn := Some (committed w0)\<rparr>"
  note v = validate_inputs_invalid[OF assms(1)]
  have c: "pool_connect flt w = (Inr (), w0)"
    using assms(2) by (simp add: pool_connect_cases w0_def)
  have b: "query_begin flt w0 = (Inr (), w1)"
    using assms(3) by (simp add: query_begin_def storage_call_eq w0_def w1_def)
  have t: "createSaleWithItems_try flt u items discount w0 =
       (Inl (if \<not> truthy u \<or> isNaN_js u then InvalidUserID
             else if items = None \<or> items = Some [] then SaleMustHaveItems
             else DiscountOutOfRange), w1)"
    by (simp only: createSaleWithItems_try_def Let_def b v prod.case sum.case option.case)
  have r: "query_rollback flt w1 = (Inr (), w1\<lparr>calls := calls w1 @ [Rollback], txn := None\<rparr>)"
    using assms(4) by (simp add: query_rollback_cases w1_def w0_def)
  show ?thesis
    by (simp only: createSaleWithItems_def c t r prod.case sum.case)
       (simp add: client_release_def w1_def w0_def)
qed

text \<open>
  No user id.
\<close>

theorem invalid_input_fails_inside_transaction_witness:
  "createSaleWithItems no_fault JUndefined (Some [line 1 3 5]) JUndefined shop =
     (Inl (Wrapped FailedToCreateSaleWithItems InvalidUserID),
      shop\<lparr>txn := None, calls := calls shop @ [Connect, Begin, Rollback, Release]\<rparr>)"
proof -
  have "\<not> truthy JUndefined \<or> isNaN_js JUndefined \<or> Some [line 1 3 5] = None \<or>
          Some [line 1 3 5] = Some [] \<or>
          js_lt (ToNumber (default_parameter (JNum 0) JUndefined)) (Fin 0) \<or>
          js_lt (Fin 100) (ToNumber (default_parameter (JNum 0) JUndefined))"
    by simp
  from invalid_input_fails_inside_transaction[OF this, of no_fault shop]
  show ?thesis by (simp add: no_fault_def)
qed

text \<open>
  Claim C6 as stated fails: with no user id the method has called the storage
  (the connection, \<^verbatim>\<open>BEGIN\<close>) before the validation error is raised.
\<close>

theorem validation_before_storage_counterexample:
  "fst (createSaleWithItems no_fault JUndefined (Some [line 1 3 5]) JUndefined shop) =
     Inl (Wrapped FailedToCreateSaleWithItems InvalidUserID) \<and>
   calls shop = [] \<and>
   calls (snd (createSaleWithItems no_fault JUndefined (Some [line 1 3 5]) JUndefined shop)) =
     [Connect, Begin, Rollback, Release]"
  by (simp add: run_defs)

section \<open>Insufficient stock\<close>

lemma view_calls [simp]: "view (w\<lparr>calls := c\<rparr>) = view w"
  by (simp add: view_def split: option.splits)

lemma store_view: "store (view w) w = w"
  by (simp add: store_def view_def split: option.splits)


lemma sale_items_loop_append:
  "sale_items_loop flt sid pre sub w = (Inr sub', w1) \<Longrightarrow>
   sale_items_loop flt sid (pre @ its) sub w = sale_items_loop flt sid its sub' w1"
proof (induction pre arbitrary: sub w)
  case Nil
  then show ?case by simp
next
  case (Cons a pre)
  from Cons.prems obtain amount w0 where
    s: "sale_item_step flt sid a w = (Inr amount, w0)" and
    r: "sale_items_loop flt sid pre (js_add sub amount) w0 = (Inr sub', w1)"
    by (auto split: prod.splits sum.splits)
  from Cons.IH[OF r] s show ?case by simp
qed









section \<open>Line items with a missing, zero or negative field\<close>

lemma falsy_item_never_commits:
  assumes "it \<in> set its"
    and "\<not> truthy (product_id it) \<or> \<not> truthy (quantity it) \<or> \<not> truthy (price_at_sale it) \<or>
         number_of (quantity it) < 0"
  shows "\<exists>e w'. createSaleWithItems flt u (Some its) discount w = (Inl e, w') \<and>
           committed w' = committed w"
proof -
  obtain r w' where run: "createSaleWithItems flt u (Some its) discount w = (r, w')"
    by (cases "createSaleWithItems flt u (Some its) discount w")
  show ?thesis
  proof (cases r)
    case (Inl e)
    with run createSaleWithItems_Inl[of flt u "Some its" discount w e w'] show ?thesis by simp
  next
    case (Inr d)
    from createSaleWithItems_Inr[OF run[unfolded Inr]] obtain sale :: Sales and w2 sub w3 where
      "txn w2 \<noteq> None" "sale_items_loop flt (e_sale_id sale) its (Fin 0) w2 = (Inr sub, w3)"
      by blast
    from sale_items_loop_Inr_items[OF this] assms(1) have "sellable it" by blast
    with assms(2) show ?thesis by (auto simp: sellable_def)
  qed
qed

lemma sale_item_step_negative:
  assumes tr: "truthy (product_id it)" "truthy (price_at_sale it)"
    and neg: "number_of (quantity it) < 0"
    and nf: "\<not> flt (length (calls w)) (SelectStockForUpdate (number_of (product_id it)))"
    and p: "pg_int4 (number_of (product_id it)) = Some p"
    and f: "filter (\<lambda>r. inv_product_id r = p) (inventory (view w)) = row # rows"
    and st: "0 \<le> quantity_in_stock row"
  shows "fst (sale_item_step flt sid it w) = Inl StorageError \<and>
         calls (snd (sale_item_step flt sid it w)) =
           calls w @ [SelectStockForUpdate (number_of (product_id it)),
                      InsertSaleItem (of_int sid) (number_of (product_id it))
                        (number_of (quantity it)) (number_of (price_at_sale it))] \<and>
         committed (snd (sale_item_step flt sid it w)) = committed w \<and>
         txn (snd (sale_item_step flt sid it w)) = txn w"
proof -
  define w1 where "w1 = w\<lparr>calls := calls w @ [SelectStockForUpdate (number_of (product_id it))]\<rparr>"
  from neg have tq: "truthy (quantity it)" by (cases "quantity it") auto
  have sel: "storage_call flt (SelectStockForUpdate (number_of (product_id it)))
               (on_client (SELECT_stock_for_update (number_of (product_id it)))) w =
             (Inr (quantity_in_stock row # map quantity_in_stock rows), w1)"
    using nf p f
    by (simp add: storage_call_eq on_client_def SELECT_stock_for_update_def w1_def[symmetric])
       (simp add: w1_def store_view[of "w\<lparr>calls := calls w @ [SelectStockForUpdate (number_of (product_id it))]\<rparr>", simplified])
  have enough: "\<not> rat_of_int (quantity_in_stock row) < number_of (quantity it)"
  proof -
    from st have "(0::rat) \<le> of_int (quantity_in_stock row)" by simp
    with neg show ?thesis by linarith
  qed
  have ins: "INSERT_sale_item a b (number_of (quantity it)) c i t = Inl StorageError" for a b c i t
  proof (cases "pg_int4 (number_of (quantity it))")
    case None
    then show ?thesis by (simp add: INSERT_sale_item_def split: option.splits)
  next
    case (Some n)
    from pg_int4_Some[OF this] neg have "n \<le> 0" by simp
    with Some show ?thesis by (simp add: INSERT_sale_item_def split: option.splits)
  qed
  show ?thesis
    unfolding sale_item_step_def Let_def sel
    using tr tq enough
    by (simp add: storage_call_eq on_client_def ins w1_def)
qed

text \<open>
  Claim C10, as the code has it. A list with an item whose \<^verbatim>\<open>product_id\<close>,
  \<^verbatim>\<open>quantity\<close> or \<^verbatim>\<open>price_at_sale\<close> is missing or zero, or whose quantity is
  negative, never commits. The loop rejects an item with a missing or zero field before
  any statement is sent for it. It does not reject a negative quantity: when the storage
  accepts the \<^verbatim>\<open>SELECT\<close> and the row it locks holds a stock of zero or more, the
  stock check passes and the \<^verbatim>\<open>INSERT\<close> of the item is sent. The storage does not
  take the row (the check \<^verbatim>\<open>quantity > 0\<close> of the schema), so the step fails with
  the storage's error after these two calls, with nothing committed and the transaction
  as it was.
\<close>

theorem negative_quantity_refused:
  "((\<exists>it \<in> set its. \<not> truthy (product_id it) \<or> \<not> truthy (quantity it) \<or>
                     \<not> truthy (price_at_sale it) \<or> number_of (quantity it) < 0)
      \<longrightarrow> (\<exists>e w'. createSaleWithItems flt u (Some its) discount w = (Inl e, w') \<and>
                   committed w' = committed w)) \<and>
   (\<not> truthy (product_id it') \<or> \<not> truthy (quantity it') \<or> \<not> truthy (price_at_sale it')
      \<longrightarrow> sale_item_step flt' sid it' v = (Inl ItemFieldsRequired, v)) \<and>
   (truthy (product_id it'') \<and> truthy (price_at_sale it'') \<and> number_of (quantity it'') < 0 \<and>
    \<not> flt'' (length (calls v'')) (SelectStockForUpdate (number_of (product_id it''))) \<and>
    pg_int4 (number_of (product_id it'')) = Some p \<and>
    filter (\<lambda>r. inv_product_id r = p) (inventory (view v'')) = row # rows \<and>
    0 \<le> quantity_in_stock row
      \<longrightarrow> fst (sale_item_step flt'' sid'' it'' v'') = Inl StorageError \<and>
          calls (snd (sale_item_step flt'' sid'' it'' v'')) =
            calls v'' @ [SelectStockForUpdate (number_of (product_id it'')),
                         InsertSaleItem (of_int sid'') (number_of (product_id it''))
                           (number_of (quantity it'')) (number_of (price_at_sale it''))] \<and>
          committed (snd (sale_item_step flt'' sid'' it'' v'')) = committed v'' \<and>
          txn (snd (sale_item_step flt'' sid'' it'' v'')) = txn v'')"
proof (intro conjI impI)
  assume "\<exists>it \<in> set its. \<not> truthy (product_id it) \<or> \<not> truthy (quantity it) \<or>
                     \<not> truthy (price_at_sale it) \<or> number_of (quantity it) < 0"
  then obtain it where "it \<in> set its"
    "\<not> truthy (product_id it) \<or> \<not> truthy (quantity it) \<or> \<not> truthy (price_at_sale it) \<or>
     number_of (quantity it) < 0" by blast
  then show "\<exists>e w'. createSaleWithItems flt u (Some its) discount w = (Inl e, w') \<and>
                   committed w' = committed w"
    by (rule falsy_item_never_commits)
next
  assume "\<not> truthy (product_id it') \<or> \<not> truthy (quantity it') \<or> \<not> truthy (price_at_sale it')"
  then show "sale_item_step flt' sid it' v = (Inl ItemFieldsRequired, v)"
    by (simp add: sale_item_step_def)
next
  assume a: "truthy (product_id it'') \<and> truthy (price_at_sale it'') \<and> number_of (quantity it'') < 0 \<and>
    \<not> flt'' (length (calls v'')) (SelectStockForUpdate (number_of (product_id it''))) \<and>
    pg_int4 (number_of (product_id it'')) = Some p \<and>
    filter (\<lambda>r. inv_product_id r = p) (inventory (view v'')) = row # rows \<and>
    0 \<le> quantity_in_stock row"
  have s: "fst (sale_item_step flt'' sid'' it'' v'') = Inl StorageError \<and>
          calls (snd (sale_item_step flt'' sid'' it'' v'')) =
            calls v'' @ [SelectStockForUpdate (number_of (product_id it'')),
                         InsertSaleItem (of_int sid'') (number_of (product_id it''))
                           (number_of (quantity it'')) (number_of (price_at_sale it''))] \<and>
          committed (snd (sale_item_step flt'' sid'' it'' v'')) = committed v'' \<and>
          txn (snd (sale_item_step flt'' sid'' it'' v'')) = txn v''"
  proof (rule sale_item_step_negative[where p=p and row=row and rows=rows])
    from a show "truthy (product_id it'')" by blast
    from a show "truthy (price_at_sale it'')" by blast
    from a show "number_of (quantity it'') < 0" by blast
    from a show "\<not> flt'' (length (calls v'')) (SelectStockForUpdate (number_of (product_id it'')))"
      by blast
    from a show "pg_int4 (number_of (product_id it'')) = Some p" by blast
    from a show "filter (\<lambda>r. inv_product_id r = p) (inventory (view v'')) = row # rows" by blast
    from a show "0 \<le> quantity_in_stock row" by blast
  qed
  from s show "fst (sale_item_step flt'' sid'' it'' v'') = Inl StorageError" by blast
  from s show "calls (snd (sale_item_step flt'' sid'' it'' v'')) =
            calls v'' @ [SelectStockForUpdate (number_of (product_id it'')),
                         InsertSaleItem (of_int sid'') (number_of (product_id it''))
                           (number_of (quantity it'')) (number_of (price_at_sale it''))]" by blast
  from s show "committed (snd (sale_item_step flt'' sid'' it'' v'')) = committed v''" by blast
  from s show "txn (snd (sale_item_step flt'' sid'' it'' v'')) = txn v''" by blast
qed

text \<open>
  An item with quantity 0; a list whose second item has quantity \<open>-3\<close>; and the step of
  an item with quantity \<open>-3\<close> against a stock of ten.
\<close>

theorem negative_quantity_refused_witness:
  "(\<exists>e w'. createSaleWithItems no_fault (JNum 7) (Some [line 1 0 5]) JUndefined shop = (Inl e, w') \<and>
            committed w' = committed shop) \<and>
   (\<exists>e w'. createSaleWithItems no_fault (JNum 7) (Some [line 1 3 5, line 1 (- 3) 5]) JUndefined shop
              = (Inl e, w') \<and>
            committed w' = committed shop) \<and>
   sale_item_step no_fault 1 (line 1 0 5) shop = (Inl ItemFieldsRequired, shop) \<and>
   fst (sale_item_step no_fault 1 (line 1 (- 3) 5) shop) = Inl StorageError \<and>
   calls (snd (sale_item_step no_fault 1 (line 1 (- 3) 5) shop)) =
     [SelectStockForUpdate 1, InsertSaleItem 1 1 (- 3) 5]"
proof -
  have a: "\<exists>it \<in> set [line 1 0 5]. \<not> truthy (product_id it) \<or> \<not> truthy (quantity it) \<or>
             \<not> truthy (price_at_sale it) \<or> number_of (quantity it) < 0"
    by (simp add: line_def)
  have a': "\<exists>it \<in> set [line 1 3 5, line 1 (- 3) 5]. \<not> truthy (product_id it) \<or>
             \<not> truthy (quantity it) \<or> \<not> truthy (price_at_sale it) \<or> number_of (quantity it) < 0"
    by (simp add: line_def)
  have b: "\<not> truthy (product_id (line 1 0 5)) \<or> \<not> truthy (quantity (line 1 0 5)) \<or>
           \<not> truthy (price_at_sale (line 1 0 5))"
    by (simp add: line_def)
  have c: "truthy (product_id (line 1 (- 3) 5)) \<and> truthy (price_at_sale (line 1 (- 3) 5)) \<and>
    number_of (quantity (line 1 (- 3) 5)) < 0 \<and>
    \<not> no_fault (length (calls shop)) (SelectStockForUpdate (number_of (product_id (line 1 (- 3) 5)))) \<and>
    pg_int4 (number_of (product_id (line 1 (- 3) 5))) = Some 1 \<and>
    filter (\<lambda>r. inv_product_id r = 1) (inventory (view shop)) =
      hd (inventory (committed shop)) # [] \<and>
    0 \<le> quantity_in_stock (hd (inventory (committed shop)))"
    by (simp add: line_def no_fault_def pg_int4_def int4_ok_def view_def shop_def)
  note t = negative_quantity_refused[of "[line 1 0 5]" no_fault "JNum 7" JUndefined shop
      "line 1 0 5" no_fault 1 shop "line 1 (- 3) 5" no_fault shop 1
      "hd (inventory (committed shop))" "[]" 1]
  note t' = negative_quantity_refused[THEN conjunct1,
      of "[line 1 3 5, line 1 (- 3) 5]" no_fault "JNum 7" JUndefined shop]
  from t t' a a' b c show ?thesis
    by (simp add: line_def shop_def)
qed

text \<open>
  Claim C10 as stated fails: the sale of \<open>-3\<close> of product 1 at 5.00 against a stock of
  ten does not commit. It is rolled back when the \<^verbatim>\<open>INSERT\<close> of its item is refused,
  and the stock stays at 10. (By the theorem above no list with an item of negative
  quantity commits, whatever the storage and the other parameters.)
\<close>

theorem negative_quantity_counterexample:
  "createSaleWithItems no_fault (JNum 7) (Some [line 1 (- 3) 5]) JUndefined shop =
     (Inl (Wrapped FailedToCreateSaleWithItems StorageError),
      shop\<lparr>sale_seq := 2, sale_item_seq := 2,
            calls := [Connect, Begin, InsertSale 7, SelectStockForUpdate 1,
                      InsertSaleItem 1 1 (- 3) 5, Rollback, Release]\<rparr>) \<and>
   map quantity_in_stock (inventory (committed shop)) = [10, 2] \<and>
   map quantity_in_stock
     (inventory (committed (shop\<lparr>sale_seq := 2, sale_item_seq := 2,
            calls := [Connect, Begin, InsertSale 7, SelectStockForUpdate 1,
                      InsertSaleItem 1 1 (- 3) 5, Rollback, Release]\<rparr>))) = [10, 2] \<and>
   committed (shop\<lparr>sale_seq := 2, sale_item_seq := 2,
            calls := [Connect, Begin, InsertSale 7, SelectStockForUpdate 1,
                      InsertSaleItem 1 1 (- 3) 5, Rollback, Release]\<rparr>) = committed shop"
proof -
  have run: "createSaleWithItems no_fault (JNum 7) (Some [line 1 (- 3) 5]) JUndefined shop =
     (Inl (Wrapped FailedToCreateSaleWithItems StorageError),
      shop\<lparr>sale_seq := 2, sale_item_seq := 2,
            calls := [Connect, Begin, InsertSale 7, SelectStockForUpdate 1,
                      InsertSaleItem 1 1 (- 3) 5, Rollback, Release]\<rparr>)"
    by (simp add: run_defs)
  from run show ?thesis by (simp add: shop_def)
qed

section \<open>Date-range queries\<close>

lemma digit_of_iff: "(digit_of c \<noteq> None) = (c \<in> set ''0123456789'')"
  by (auto simp: digit_of_def split: if_splits)

lemma regex_test_Digit:
  "regex_test (Digit # as) s \<Longrightarrow> \<exists>c t. s = c # t \<and> c \<in> set ''0123456789'' \<and> regex_test as t"
  by (cases s) (simp_all add: digit_of_iff[unfolded not_None_eq])

lemma regex_test_Lit:
  "regex_test (Lit x # as) s \<Longrightarrow> \<exists>t. s = x # t \<and> regex_test as t"
  by (cases s) simp_all

lemma dateRegex_shape: "regex_test dateRegex s = DD_MM_YYYY_shape s"
proof
  assume "regex_test dateRegex s"
  hence r0: "regex_test [Digit, Digit, Lit (CHR ''/''), Digit, Digit, Lit (CHR ''/''),
                Digit, Digit, Digit, Digit] s"
    by (simp only: dateRegex_def)
  from regex_test_Digit[OF r0] obtain d1 t1 where
    s1: "s = d1 # t1" and d1: "d1 \<in> set ''0123456789''" and
    r1: "regex_test [Digit, Lit (CHR ''/''), Digit, Digit, Lit (CHR ''/''), Digit, Digit, Digit, Digit] t1"
    by blast
  from regex_test_Digit[OF r1] obtain d2 t2 where
    s2: "t1 = d2 # t2" and d2: "d2 \<in> set ''0123456789''" and
    r2: "regex_test [Lit (CHR ''/''), Digit, Digit, Lit (CHR ''/''), Digit, Digit, Digit, Digit] t2"
    by blast
  from regex_test_Lit[OF r2] obtain t3 where
    s3: "t2 = CHR ''/'' # t3" and
    r3: "regex_test [Digit, Digit, Lit (CHR ''/''), Digit, Digit, Digit, Digit] t3"
    by blast
  from regex_test_Digit[OF r3] obtain m1 t4 where
    s4: "t3 = m1 # t4" and m1: "m1 \<in> set ''0123456789''" and
    r4: "regex_test [Digit, Lit (CHR ''/''), Digit, Digit, Digit, Digit] t4"
    by blast
  from regex_test_Digit[OF r4] obtain m2 t5 where
    s5: "t4 = m2 # t5" and m2: "m2 \<in> set ''0123456789''" and
    r5: "regex_test [Lit (CHR ''/''), Digit, Digit, Digit, Digit] t5"
    by blast
  from regex_test_Lit[OF r5] obtain t6 where
    s6: "t5 = CHR ''/'' # t6" and
    r6: "regex_test [Digit, Digit, Digit, Digit] t6"
    by blast
  from regex_test_Digit[OF r6] obtain y1 t7 where
    s7: "t6 = y1 # t7" and y1: "y1 \<in> set ''0123456789''" and
    r7: "regex_test [Digit, Digit, Digit] t7"
    by blast
  from regex_test_Digit[OF r7] obtain y2 t8 where
    s8: "t7 = y2 # t8" and y2: "y2 \<in> set ''0123456789''" and
    r8: "regex_test [Digit, Digit] t8"
    by blast
  from regex_test_Digit[OF r8] obtain y3 t9 where
    s9: "t8 = y3 # t9" and y3: "y3 \<in> set ''0123456789''" and
    r9: "regex_test [Digit] t9"
    by blast
  from regex_test_Digit[OF r9] obtain y4 t10 where
    s10: "t9 = y4 # t10" and y4: "y4 \<in> set ''0123456789''" and
    r10: "regex_test [] t10"
    by blast
  from r10 have "t10 = []" by simp
  with s1 s2 s3 s4 s5 s6 s7 s8 s9 s10
  have s: "s = [d1, d2, CHR ''/'', m1, m2, CHR ''/'', y1, y2, y3, y4]" by simp
  have "set [d1, d2, m1, m2, y1, y2, y3, y4] \<subseteq> set ''0123456789''"
    using d1 d2 m1 m2 y1 y2 y3 y4 by (simp only: set_simps insert_subset empty_subsetI simp_thms)
  with s show "DD_MM_YYYY_shape s" unfolding DD_MM_YYYY_shape_def by blast
next
  assume "DD_MM_YYYY_shape s"
  then obtain d1 d2 m1 m2 y1 y2 y3 y4 where
    s: "s = [d1, d2, CHR ''/'', m1, m2, CHR ''/'', y1, y2, y3, y4]" and
    d: "set [d1, d2, m1, m2, y1, y2, y3, y4] \<subseteq> set ''0123456789''"
    unfolding DD_MM_YYYY_shape_def by blast
  from d have "d1 \<in> set ''0123456789''" "d2 \<in> set ''0123456789''" "m1 \<in> set ''0123456789''"
    "m2 \<in> set ''0123456789''" "y1 \<in> set ''0123456789''" "y2 \<in> set ''0123456789''"
    "y3 \<in> set ''0123456789''" "y4 \<in> set ''0123456789''"
    by (simp_all only: set_simps insert_subset)
  then show "regex_test dateRegex s"
    by (simp only: s dateRegex_def regex_test.simps digit_of_iff simp_thms)
qed

text \<open>
  Claim C8. When either date of \<^verbatim>\<open>getSalesBetweenDates\<close> is absent or empty, or does
  not have the shape \<^verbatim>\<open>DD/MM/YYYY\<close>, the method fails, and the storage is exactly as
  before: no call has been made on it.
\<close>

theorem getSalesBetweenDates_rejects_malformed:
  assumes "absent startDate \<or> absent endDate \<or>
           \<not> DD_MM_YYYY_shape (the startDate) \<or> \<not> DD_MM_YYYY_shape (the endDate)"
  shows "getSalesBetweenDates flt startDate endDate w =
           (Inl (Wrapped FailedToGetSales
                   (if absent startDate \<or> absent endDate then DatesRequired
                    else InvalidDateFormat)), w)"
proof (cases "absent startDate \<or> absent endDate")
  case True
  then show ?thesis by (simp only: getSalesBetweenDates_def if_True)
next
  case False
  with assms have "\<not> regex_test dateRegex (the startDate) \<or> \<not> regex_test dateRegex (the endDate)"
    unfolding dateRegex_shape by blast
  with False show ?thesis by (simp only: getSalesBetweenDates_def if_True if_False)
qed

text \<open>
  A start date in the shape \<^verbatim>\<open>YYYY-MM-DD\<close>, and a start date left out.
\<close>

theorem getSalesBetweenDates_rejects_malformed_witness:
  "getSalesBetweenDates no_fault (Some ''2024-01-01'') (Some ''31/01/2024'') ledger =
     (Inl (Wrapped FailedToGetSales InvalidDateFormat), ledger) \<and>
   getSalesBetweenDates no_fault None (Some ''31/01/2024'') ledger =
     (Inl (Wrapped FailedToGetSales DatesRequired), ledger)"
proof -
  have "\<not> regex_test dateRegex ''2024-01-01''"
    by (simp add: dateRegex_def digit_of_def)
  hence a: "absent (Some ''2024-01-01'') \<or> absent (Some ''31/01/2024'') \<or>
           \<not> DD_MM_YYYY_shape (the (Some ''2024-01-01'')) \<or> \<not> DD_MM_YYYY_shape (the (Some ''31/01/2024''))"
    by (simp only: dateRegex_shape option.sel simp_thms)
  have b: "absent None \<or> absent (Some ''31/01/2024'') \<or>
           \<not> DD_MM_YYYY_shape (the None) \<or> \<not> DD_MM_YYYY_shape (the (Some ''31/01/2024''))"
    by (simp add: absent_def)
  have na: "\<not> (absent (Some ''2024-01-01'') \<or> absent (Some ''31/01/2024''))"
    by (simp add: absent_def)
  have nb: "absent None \<or> absent (Some ''31/01/2024'')"
    by (simp add: absent_def)
  from getSalesBetweenDates_rejects_malformed[OF a, of no_fault ledger]
    getSalesBetweenDates_rejects_malformed[OF b, of no_fault ledger]
  show ?thesis by (simp only: na nb if_True if_False simp_thms)
qed

lemma set_insert_desc: "set (insert_desc key x xs) = insert x (set xs)"
  by (induction xs) auto

lemma set_order_by_desc: "set (order_by_desc key xs) = set xs"
  unfolding order_by_desc_def by (induction xs) (simp_all add: set_insert_desc)

lemma text_le_total: "text_le s t \<or> text_le t s"
proof (induction s arbitrary: t)
  case Nil
  then show ?case by simp
next
  case (Cons c s)
  show ?case
  proof (cases t)
    case Nil
    then show ?thesis by simp
  next
    case (Cons c' t')
    with Cons.IH[of t'] show ?thesis by auto
  qed
qed

lemma text_le_trans: "text_le s t \<Longrightarrow> text_le t u \<Longrightarrow> text_le s u"
proof (induction s arbitrary: t u)
  case Nil
  then show ?case by simp
next
  case (Cons c s)
  from Cons.prems(1) obtain c' t' where t: "t = c' # t'" by (cases t) auto
  from Cons.prems(2) t obtain c'' u' where u: "u = c'' # u'" by (cases u) auto
  from Cons.prems t u Cons.IH[of t' u'] show ?case by auto
qed

lemma sorted_insert_desc:
  "sorted_wrt (\<lambda>x y. text_le (key y) (key x)) xs \<Longrightarrow>
   sorted_wrt (\<lambda>x y. text_le (key y) (key x)) (insert_desc key x xs)"
proof (induction xs)
  case Nil
  then show ?case by simp
next
  case (Cons y ys)
  show ?case
  proof (cases "text_le (key y) (key x)")
    case True
    with Cons.prems show ?thesis by (auto intro: text_le_trans)
  next
    case False
    with text_le_total[of "key y" "key x"] have "text_le (key x) (key y)" by simp
    with False Cons show ?thesis by (auto simp: set_insert_desc)
  qed
qed

lemma sorted_order_by_desc:
  "sorted_wrt (\<lambda>x y. text_le (key y) (key x)) (order_by_desc key xs)"
  unfolding order_by_desc_def by (induction xs) (simp_all add: sorted_insert_desc)

text \<open>
  What the date-range lookup returns for two dates the storage can read, when the storage
  accepts the query: exactly the sales whose date lies in the window, both ends included,
  ordered by the text \<^verbatim>\<open>DD/MM/YYYY\<close> of their date, greatest text first.
\<close>

lemma findBetweenDates_rows:
  assumes "TO_DATE startDate = Some lo" and "TO_DATE endDate = Some hi"
    and "\<not> flt (length (calls w)) (SelectSalesBetween startDate endDate)"
  shows "\<exists>rows. findBetweenDates flt startDate endDate w =
             (Inr rows, w\<lparr>calls := calls w @ [SelectSalesBetween startDate endDate]\<rparr>) \<and>
           set rows = returning ` {r \<in> set (sales (committed w)).
                         date_le lo (ts_date (sale_date r)) \<and> date_le (ts_date (sale_date r)) hi} \<and>
           sorted_wrt (\<lambda>x y. text_le (e_sale_date y) (e_sale_date x)) rows"
proof -
  define rows where "rows = order_by_desc e_sale_date
                 (map returning
                    (filter (\<lambda>r. date_le lo (ts_date (sale_date r)) \<and>
                                  date_le (ts_date (sale_date r)) hi)
                            (sales (committed w))))"
  have "findBetweenDates flt startDate endDate w =
             (Inr rows, w\<lparr>calls := calls w @ [SelectSalesBetween startDate endDate]\<rparr>)"
    using assms
    by (simp add: findBetweenDates_def storage_call_eq on_pool_def SELECT_sales_between_def
        new_Sales_def[abs_def] rows_def)
  moreover have "set rows = returning ` {r \<in> set (sales (committed w)).
                         date_le lo (ts_date (sale_date r)) \<and> date_le (ts_date (sale_date r)) hi}"
    by (simp add: rows_def set_order_by_desc)
  moreover have "sorted_wrt (\<lambda>x y. text_le (e_sale_date y) (e_sale_date x)) rows"
    unfolding rows_def by (rule sorted_order_by_desc)
  ultimately show ?thesis by blast
qed

text \<open>
  A day or a month \<^verbatim>\<open>00\<close> reads as the first; a day or a month beyond its range is
  refused.
\<close>

lemma TO_DATE_zero_fields:
  "TO_DATE ''00/01/2024'' = Some (2024, 1, 1)" "TO_DATE ''01/00/2024'' = Some (2024, 1, 1)"
  "TO_DATE ''31/01/2024'' = Some (2024, 1, 31)" "TO_DATE ''30/02/2024'' = None"
  "TO_DATE ''01/13/2024'' = None"
  by (simp_all add: TO_DATE_def field_or_first_def digit_of_def days_in_month_def leap_year_def)

text \<open>
  Claim C9 is about this lookup. On the ledger, for the window from 01/01/2024 to
  29/02/2024, the sale of 20 January comes before the sale of 15 February: the rows are in
  descending order of the text of the date, day first, which is not the descending order
  of the dates.
\<close>

theorem findBetweenDates_orders_by_text:
  "fst (findBetweenDates no_fault ''01/01/2024'' ''29/02/2024'' ledger) =
     Inr [\<lparr>e_sale_id = 1, e_user_id = 7, e_sale_date = ''20/01/2024'', e_subtotal = Fin 15,
           e_discount_percentage = Some (Fin 10), e_discount_amount = Fin (3 / 2),
           e_total_amount = Fin (27 / 2)\<rparr>,
          \<lparr>e_sale_id = 2, e_user_id = 8, e_sale_date = ''15/02/2024'', e_subtotal = Fin (double (111 / 20)),
           e_discount_percentage = Some (Fin 0), e_discount_amount = Fin 0,
           e_total_amount = Fin (double (111 / 20))\<rparr>] \<and>
   TO_DATE ''20/01/2024'' = Some (2024, 1, 20) \<and> TO_DATE ''15/02/2024'' = Some (2024, 2, 15) \<and>
   date_le (2024, 1, 20) (2024, 2, 15) \<and> \<not> date_le (2024, 2, 15) (2024, 1, 20)"
  by (simp add: run_defs repo_defs TO_DATE_def field_or_first_def digit_of_def days_in_month_def leap_year_def
      date_le_def order_by_desc_def)

section \<open>Atomicity of createSaleWithItems\<close>

lemma createSaleWithItems_Inl_imp:
  "createSaleWithItems flt user_id' items discount w = (Inl e, w') \<longrightarrow>
     committed w' = committed w \<and>
     ((\<exists>cause. e = Wrapped FailedToCreateSaleWithItems cause \<and> txn w' = None \<and>
         (\<exists>pre. calls w' = calls w @ pre @ [Rollback, Release])) \<or>
      (e = StorageError \<and> (flt (length (calls w)) Connect \<or> (\<exists>n. flt n Rollback))))"
  using createSaleWithItems_Inl by blast

lemma in_inventory_inventory:
  "inventory t' = inventory t \<Longrightarrow> in_inventory t' it = in_inventory t it"
  by (simp add: in_inventory_def)

lemma createSaleWithItems_Inr_imp:
  "createSaleWithItems flt u items discount w = (Inr d, w') \<longrightarrow>
     validate_inputs u items (default_parameter (JNum 0) discount) = None \<and>
     (\<exists>its. items = Some its \<and>
        (\<forall>it \<in> set its. sellable it \<and> in_inventory (committed w) it) \<and>
        (\<forall>r \<in> set (inventory (committed w)). sold_in its r \<longrightarrow> 0 \<le> stock_after its r)) \<and>
     (\<exists>ls. calls w' = calls w @ ls @ [Release] \<and>
           (\<forall>i<length ls. \<not> flt (length (calls w) + i) (ls ! i)))"
proof
  assume run: "createSaleWithItems flt u items discount w = (Inr d, w')"
  from createSaleWithItems_Inr[OF run] obtain its and sale :: Sales and w2 sub w3 where
    its: "items = Some its" and
    v: "validate_inputs u items (default_parameter (JNum 0) discount) = None" and
    t2: "txn w2 \<noteq> None" and inv2: "inventory (view w2) = inventory (committed w)" and
    l: "sale_items_loop flt (e_sale_id sale) its (Fin 0) w2 = (Inr sub, w3)"
    by blast
  note items = sale_items_loop_Inr_items[OF t2 l]
  have a: "\<forall>it \<in> set its. sellable it \<and> in_inventory (committed w) it"
    using items in_inventory_inventory[OF inv2] by simp
  have b: "\<forall>r \<in> set (inventory (committed w)). sold_in its r \<longrightarrow> 0 \<le> stock_after its r"
    using items inv2 by simp
  from v its a b createSaleWithItems_Inr_accepted[OF run]
  show "validate_inputs u items (default_parameter (JNum 0) discount) = None \<and>
     (\<exists>its. items = Some its \<and>
        (\<forall>it \<in> set its. sellable it \<and> in_inventory (committed w) it) \<and>
        (\<forall>r \<in> set (inventory (committed w)). sold_in its r \<longrightarrow> 0 \<le> stock_after its r)) \<and>
     (\<exists>ls. calls w' = calls w @ ls @ [Release] \<and>
           (\<forall>i<length ls. \<not> flt (length (calls w) + i) (ls ! i)))"
    by blast
qed

lemma createSaleWithItems_item_fails:
  "\<not> flt (length (calls w)) Connect \<and> \<not> flt (length (calls w) + 1) Begin \<and>
   validate_inputs u (Some (pre @ it # post)) (default_parameter (JNum 0) discount) = None \<and>
   create_sale_record flt u (w\<lparr>calls := calls w @ [Connect, Begin], txn := Some (committed w)\<rparr>) =
     (Inr (sale :: Sales), w2) \<and>
   sale_items_loop flt (e_sale_id sale) pre (Fin 0) w2 = (Inr sub, w3) \<and>
   sale_item_step flt (e_sale_id sale) it w3 = (Inl cause, w4) \<and>
   \<not> flt (length (calls w4)) Rollback
   \<longrightarrow>
     createSaleWithItems flt u (Some (pre @ it # post)) discount w =
       (Inl (Wrapped FailedToCreateSaleWithItems cause),
        w4\<lparr>calls := calls w4 @ [Rollback, Release], txn := None\<rparr>) \<and>
     committed w4 = committed w"
proof
  assume 1: "\<not> flt (length (calls w)) Connect \<and> \<not> flt (length (calls w) + 1) Begin \<and>
   validate_inputs u (Some (pre @ it # post)) (default_parameter (JNum 0) discount) = None \<and>
   create_sale_record flt u (w\<lparr>calls := calls w @ [Connect, Begin], txn := Some (committed w)\<rparr>) =
     (Inr (sale :: Sales), w2) \<and>
   sale_items_loop flt (e_sale_id sale) pre (Fin 0) w2 = (Inr sub, w3) \<and>
   sale_item_step flt (e_sale_id sale) it w3 = (Inl cause, w4) \<and>
   \<not> flt (length (calls w4)) Rollback"
  define w0 where "w0 = w\<lparr>calls := calls w @ [Connect], txn := None\<rparr>"
  define w1 where "w1 = w\<lparr>calls := calls w @ [Connect, Begin], txn := Some (committed w)\<rparr>"
  from 1 have c: "pool_connect flt w = (Inr (), w0)"
    by (simp add: pool_connect_cases w0_def)
  from 1 have b: "query_begin flt w0 = (Inr (), w1)"
    by (simp add: query_begin_def storage_call_eq w0_def w1_def)
  from 1 have cs: "create_sale_record flt u w1 = (Inr sale, w2)"
    and lp: "sale_items_loop flt (e_sale_id sale) pre (Fin 0) w2 = (Inr sub, w3)"
    and v: "validate_inputs u (Some (pre @ it # post)) (default_parameter (JNum 0) discount) = None"
    and st: "sale_item_step flt (e_sale_id sale) it w3 = (Inl cause, w4)"
    by (simp_all add: w1_def)
  have l: "sale_items_loop flt (e_sale_id sale) (pre @ it # post) (Fin 0) w2 = (Inl cause, w4)"
    by (simp add: sale_items_loop_append[OF lp] st)
  have t: "createSaleWithItems_try flt u (Some (pre @ it # post)) discount w0 = (Inl cause, w4)"
    by (simp only: createSaleWithItems_try_def Let_def b v cs l prod.case sum.case option.case
        option.sel)
  from 1 have r: "query_rollback flt w4 = (Inr (), w4\<lparr>calls := calls w4 @ [Rollback], txn := None\<rparr>)"
    by (simp add: query_rollback_cases)
  have t1: "txn w1 \<noteq> None" by (simp add: w1_def)
  have s12: "tx_step w1 w2" by (rule create_sale_record_tx[OF t1 cs])
  hence "txn w2 \<noteq> None" by (simp add: tx_step_def)
  from sale_items_loop_tx[OF this lp] have s23: "tx_step w2 w3" .
  hence "txn w3 \<noteq> None" by (simp add: tx_step_def)
  from sale_item_step_tx[OF this st] have s34: "tx_step w3 w4" .
  from s12 s23 s34 have "committed w4 = committed w" by (simp add: tx_step_def w1_def)
  moreover have "createSaleWithItems flt u (Some (pre @ it # post)) discount w =
        (Inl (Wrapped FailedToCreateSaleWithItems cause),
         w4\<lparr>calls := calls w4 @ [Rollback, Release], txn := None\<rparr>)"
    by (simp only: createSaleWithItems_def c t r prod.case sum.case)
       (simp add: client_release_def)
  ultimately show "createSaleWithItems flt u (Some (pre @ it # post)) discount w =
       (Inl (Wrapped FailedToCreateSaleWithItems cause),
        w4\<lparr>calls := calls w4 @ [Rollback, Release], txn := None\<rparr>) \<and>
     committed w4 = committed w" by simp
qed

lemma sale_item_step_not_found:
  "truthy (product_id it) \<and> truthy (quantity it) \<and> truthy (price_at_sale it) \<and>
   \<not> flt (length (calls w)) (SelectStockForUpdate (number_of (product_id it))) \<and>
   pg_int4 (number_of (product_id it)) = Some p \<and>
   filter (\<lambda>r. inv_product_id r = p) (inventory (view w)) = []
   \<longrightarrow>
     sale_item_step flt sid it w =
       (Inl (InventoryNotFound (number_of (product_id it))),
        w\<lparr>calls := calls w @ [SelectStockForUpdate (number_of (product_id it))]\<rparr>)"
proof
  assume a: "truthy (product_id it) \<and> truthy (quantity it) \<and> truthy (price_at_sale it) \<and>
   \<not> flt (length (calls w)) (SelectStockForUpdate (number_of (product_id it))) \<and>
   pg_int4 (number_of (product_id it)) = Some p \<and>
   filter (\<lambda>r. inv_product_id r = p) (inventory (view w)) = []"
  define w1 where "w1 = w\<lparr>calls := calls w @ [SelectStockForUpdate (number_of (product_id it))]\<rparr>"
  have sel: "storage_call flt (SelectStockForUpdate (number_of (product_id it)))
               (on_client (SELECT_stock_for_update (number_of (product_id it)))) w =
             (Inr [], w1)"
    using a
    by (simp add: storage_call_eq on_client_def SELECT_stock_for_update_def w1_def[symmetric])
       (simp add: w1_def store_view[of "w\<lparr>calls := calls w @ [SelectStockForUpdate (number_of (product_id it))]\<rparr>", simplified])
  show "sale_item_step flt sid it w =
       (Inl (InventoryNotFound (number_of (product_id it))),
        w\<lparr>calls := calls w @ [SelectStockForUpdate (number_of (product_id it))]\<rparr>)"
    unfolding sale_item_step_def Let_def sel w1_def[symmetric]
    using a by simp
qed

lemma sale_item_step_accepted_imp:
  "sale_item_step flt sid it w = (Inr amount, w') \<longrightarrow>
     (\<exists>ls. calls w' = calls w @ ls \<and> (\<forall>i<length ls. \<not> flt (length (calls w) + i) (ls ! i)))"
  using sale_item_step_accepted[of flt sid it w amount w'] unfolding accepted_def by blast

text \<open>
  Claim C1. \<^verbatim>\<open>createSaleWithItems\<close> is atomic.

  First, for every input and every behaviour of the storage, when the method fails, the
  committed tables are what they were before the call: no row of \<^verbatim>\<open>sales\<close> or
  \<^verbatim>\<open>sale_items\<close> and no change of \<^verbatim>\<open>inventory\<close> from the attempt persists. The
  error that surfaces is the cause under the method's one message, after a
  \<^verbatim>\<open>ROLLBACK\<close> (the last call before the connection is released) that has left no
  transaction open. The only other error is the storage's own, and it surfaces only when
  the storage refused the connection or the \<^verbatim>\<open>ROLLBACK\<close> itself.

  Second, when the method succeeds, every step has gone through: the parameters are valid;
  every item has its three fields and a positive quantity; the product of every item has
  an inventory row; no inventory row of a product sold ends below zero; and the storage
  has refused none of the calls made. So an invalid input, a missing inventory row, a
  stock that does not suffice, and a statement the storage refuses each make the method
  fail, and then nothing of the attempt persists.

  Third, take any list of items and one item of it. When the storage has accepted the
  connection, \<^verbatim>\<open>BEGIN\<close> and the new sale, the items before this one have gone
  through, and the step of this item fails, for whatever cause, then the method fails with
  that cause under its one message, after a \<^verbatim>\<open>ROLLBACK\<close>, and nothing has been
  committed.

  Fourth, an item whose product has no inventory row makes its step fail with the error
  that names the product, after the one \<^verbatim>\<open>SELECT\<close>.

  Fifth, a step that succeeds has made no call that the storage refused: a statement
  refused on a line item makes the step of that item fail.
\<close>

theorem createSaleWithItems_atomic:
  "(createSaleWithItems flt user_id' items discount w = (Inl e, w') \<longrightarrow>
     committed w' = committed w \<and>
     ((\<exists>cause. e = Wrapped FailedToCreateSaleWithItems cause \<and> txn w' = None \<and>
         (\<exists>pre. calls w' = calls w @ pre @ [Rollback, Release])) \<or>
      (e = StorageError \<and> (flt (length (calls w)) Connect \<or> (\<exists>n. flt n Rollback))))) \<and>
   (createSaleWithItems flt_a u_a items_a discount_a w_a = (Inr d, w_a') \<longrightarrow>
     validate_inputs u_a items_a (default_parameter (JNum 0) discount_a) = None \<and>
     (\<exists>its. items_a = Some its \<and>
        (\<forall>it \<in> set its. sellable it \<and> in_inventory (committed w_a) it) \<and>
        (\<forall>r \<in> set (inventory (committed w_a)). sold_in its r \<longrightarrow> 0 \<le> stock_after its r)) \<and>
     (\<exists>ls. calls w_a' = calls w_a @ ls @ [Release] \<and>
           (\<forall>i<length ls. \<not> flt_a (length (calls w_a) + i) (ls ! i)))) \<and>
   (\<not> flt_b (length (calls w_b)) Connect \<and> \<not> flt_b (length (calls w_b) + 1) Begin \<and>
    validate_inputs u_b (Some (pre_b @ it_b # post_b)) (default_parameter (JNum 0) discount_b) = None \<and>
    create_sale_record flt_b u_b
        (w_b\<lparr>calls := calls w_b @ [Connect, Begin], txn := Some (committed w_b)\<rparr>) =
      (Inr (sale :: Sales), w_sale) \<and>
    sale_items_loop flt_b (e_sale_id sale) pre_b (Fin 0) w_sale = (Inr sub, w_pre) \<and>
    sale_item_step flt_b (e_sale_id sale) it_b w_pre = (Inl cause_b, w_fail) \<and>
    \<not> flt_b (length (calls w_fail)) Rollback
    \<longrightarrow>
      createSaleWithItems flt_b u_b (Some (pre_b @ it_b # post_b)) discount_b w_b =
        (Inl (Wrapped FailedToCreateSaleWithItems cause_b),
         w_fail\<lparr>calls := calls w_fail @ [Rollback, Release], txn := None\<rparr>) \<and>
      committed w_fail = committed w_b) \<and>
   (truthy (product_id it_c) \<and> truthy (quantity it_c) \<and> truthy (price_at_sale it_c) \<and>
    \<not> flt_c (length (calls v_c)) (SelectStockForUpdate (number_of (product_id it_c))) \<and>
    pg_int4 (number_of (product_id it_c)) = Some p \<and>
    filter (\<lambda>r. inv_product_id r = p) (inventory (view v_c)) = []
    \<longrightarrow>
      sale_item_step flt_c sid_c it_c v_c =
        (Inl (InventoryNotFound (number_of (product_id it_c))),
         v_c\<lparr>calls := calls v_c @ [SelectStockForUpdate (number_of (product_id it_c))]\<rparr>)) \<and>
   (sale_item_step flt_d sid_d it_d v_d = (Inr amount, v_d') \<longrightarrow>
     (\<exists>ls. calls v_d' = calls v_d @ ls \<and>
           (\<forall>i<length ls. \<not> flt_d (length (calls v_d) + i) (ls ! i))))"
  by (rule conjI, rule createSaleWithItems_Inl_imp,
      rule conjI, rule createSaleWithItems_Inr_imp,
      rule conjI, rule createSaleWithItems_item_fails,
      rule conjI, rule sale_item_step_not_found,
      rule sale_item_step_accepted_imp)

text \<open>
  A sale of two lines whose second line names a product with no inventory row: the first
  line's item row and decrement are undone with the rest. A storage that refuses every
  \<^verbatim>\<open>INSERT\<close> into \<^verbatim>\<open>sale_items\<close>: the sale fails with the storage's error
  under the method's message and nothing is committed. And the sale of the
  specification's scenario, which succeeds.
\<close>

theorem createSaleWithItems_atomic_witness:
  "createSaleWithItems no_fault (JNum 7) (Some [line 1 3 5, line 9 1 4]) JUndefined shop =
     (Inl (Wrapped FailedToCreateSaleWithItems (InventoryNotFound 9)),
      shop\<lparr>sale_seq := 2, sale_item_seq := 2,
            calls := [Connect, Begin, InsertSale 7, SelectStockForUpdate 1, InsertSaleItem 1 1 3 5,
                      UpdateStock 3 1, SelectStockForUpdate 9, Rollback, Release]\<rparr>) \<and>
   committed (shop\<lparr>sale_seq := 2, sale_item_seq := 2,
            calls := [Connect, Begin, InsertSale 7, SelectStockForUpdate 1, InsertSaleItem 1 1 3 5,
                      UpdateStock 3 1, SelectStockForUpdate 9, Rollback, Release]\<rparr>) =
     committed shop \<and>
   createSaleWithItems refuse_item_inserts (JNum 7) (Some [line 1 3 5]) JUndefined shop =
     (Inl (Wrapped FailedToCreateSaleWithItems StorageError),
      shop\<lparr>sale_seq := 2,
            calls := [Connect, Begin, InsertSale 7, SelectStockForUpdate 1, InsertSaleItem 1 1 3 5,
                      Rollback, Release]\<rparr>) \<and>
   fst (createSaleWithItems no_fault (JNum 7) (Some [line 1 3 5]) (JNum 10) shop) =
     Inr \<lparr>e_sale_id = 1, e_user_id = 7, e_sale_date = ''15/01/2024'', e_subtotal = Fin 15,
          e_discount_percentage = Some (Fin 10), e_discount_amount = Fin (3 / 2),
          e_total_amount = Fin (27 / 2)\<rparr> \<and>
   sellable (line 1 3 5) \<and> in_inventory (committed shop) (line 1 3 5) \<and>
   \<not> in_inventory (committed shop) (line 9 1 4) \<and>
   stock_after [line 1 3 5] (hd (inventory (committed shop))) = 7 \<and>
   fst (sale_item_step no_fault 1 (line 1 3 5) (shop\<lparr>txn := Some (committed shop)\<rparr>)) =
     Inr (Fin 15) \<and>
   (\<exists>ls. calls (snd (sale_item_step no_fault 1 (line 1 3 5)
                        (shop\<lparr>txn := Some (committed shop)\<rparr>))) =
            calls (shop\<lparr>txn := Some (committed shop)\<rparr>) @ ls \<and>
         (\<forall>i<length ls. \<not> no_fault (length (calls (shop\<lparr>txn := Some (committed shop)\<rparr>)) + i)
                             (ls ! i)))"
proof -
  define sale :: Sales where "sale = \<lparr>e_sale_id = 1, e_user_id = 7, e_sale_date = ''15/01/2024'',
     e_subtotal = Fin 0, e_discount_percentage = Some (Fin 0), e_discount_amount = Fin 0,
     e_total_amount = Fin 0\<rparr>"
  define w2 where "w2 = shop\<lparr>calls := [Connect, Begin, InsertSale 7], sale_seq := 2,
     txn := Some ((committed shop)\<lparr>sales := [\<lparr>sale_id = 1, user_id = 7, sale_date = clock shop,
        subtotal = Fin 0, discount_percentage = Some (Fin 0), discount_amount = Fin 0,
        total_amount = Fin 0\<rparr>]\<rparr>)\<rparr>"
  define w3 where "w3 = snd (sale_items_loop no_fault 1 [line 1 3 5] (Fin 0) w2)"
  have w3: "w3 = w2\<lparr>sale_item_seq := 2,
      calls := [Connect, Begin, InsertSale 7, SelectStockForUpdate 1, InsertSaleItem 1 1 3 5,
                UpdateStock 3 1],
      txn := Some \<lparr>sales = [\<lparr>sale_id = 1, user_id = 7, sale_date = clock shop,
                        subtotal = Fin 0, discount_percentage = Some (Fin 0),
                        discount_amount = Fin 0, total_amount = Fin 0\<rparr>],
              sale_items = [\<lparr>sale_item_id = 1, si_sale_id = 1, si_product_id = 1,
                             si_quantity = 3, si_price_at_sale = 5\<rparr>],
              inventory =
                [\<lparr>inventory_id = 1, inv_product_id = 1, quantity_in_stock = 7,
                  last_updated = clock shop\<rparr>,
                 \<lparr>inventory_id = 2, inv_product_id = 2, quantity_in_stock = 2,
                  last_updated = \<lparr>ts_date = (2024, 1, 2), ts_secs = 0\<rparr>\<rparr>]\<rparr>\<rparr>"
    by (simp add: w3_def w2_def run_defs)
  have lp: "sale_items_loop no_fault (e_sale_id sale) [line 1 3 5] (Fin 0) w2 = (Inr (Fin 15), w3)"
    by (simp add: w3 sale_def w2_def run_defs)
  have h4: "truthy (product_id (line 9 1 4)) \<and> truthy (quantity (line 9 1 4)) \<and>
    truthy (price_at_sale (line 9 1 4)) \<and>
    \<not> no_fault (length (calls w3)) (SelectStockForUpdate (number_of (product_id (line 9 1 4)))) \<and>
    pg_int4 (number_of (product_id (line 9 1 4))) = Some 9 \<and>
    filter (\<lambda>r. inv_product_id r = 9) (inventory (view w3)) = []"
    by (simp add: w3 w2_def line_def no_fault_def pg_int4_def int4_ok_def view_def)
  note st = createSaleWithItems_atomic[where flt_c = no_fault and v_c = w3 and it_c = "line 9 1 4"
      and p = 9 and sid_c = 1, THEN conjunct2, THEN conjunct2, THEN conjunct2, THEN conjunct1,
      rule_format, OF h4]
  have h3: "\<not> no_fault (length (calls shop)) Connect \<and> \<not> no_fault (length (calls shop) + 1) Begin \<and>
    validate_inputs (JNum 7) (Some ([line 1 3 5] @ line 9 1 4 # []))
      (default_parameter (JNum 0) JUndefined) = None \<and>
    create_sale_record no_fault (JNum 7)
        (shop\<lparr>calls := calls shop @ [Connect, Begin], txn := Some (committed shop)\<rparr>) =
      (Inr sale, w2) \<and>
    sale_items_loop no_fault (e_sale_id sale) [line 1 3 5] (Fin 0) w2 = (Inr (Fin 15), w3) \<and>
    sale_item_step no_fault (e_sale_id sale) (line 9 1 4) w3 =
      (Inl (InventoryNotFound (number_of (product_id (line 9 1 4)))),
       w3\<lparr>calls := calls w3 @ [SelectStockForUpdate (number_of (product_id (line 9 1 4)))]\<rparr>) \<and>
    \<not> no_fault (length (calls (w3\<lparr>calls := calls w3 @
           [SelectStockForUpdate (number_of (product_id (line 9 1 4)))]\<rparr>))) Rollback"
    using lp st
    by (simp add: sale_def) (simp add: run_defs sale_def w2_def)
  note run = createSaleWithItems_atomic[where flt_b = no_fault and w_b = shop
      and w_sale = w2 and w_pre = w3 and it_b = "line 9 1 4" and pre_b = "[line 1 3 5]"
      and post_b = "[]" and sale = sale and sub = "Fin 15" and u_b = "JNum 7"
      and discount_b = JUndefined,
      THEN conjunct2, THEN conjunct2, THEN conjunct1, rule_format, OF h3]
  have run': "createSaleWithItems no_fault (JNum 7) (Some [line 1 3 5, line 9 1 4]) JUndefined shop =
     (Inl (Wrapped FailedToCreateSaleWithItems (InventoryNotFound 9)),
      shop\<lparr>sale_seq := 2, sale_item_seq := 2,
            calls := [Connect, Begin, InsertSale 7, SelectStockForUpdate 1, InsertSaleItem 1 1 3 5,
                      UpdateStock 3 1, SelectStockForUpdate 9, Rollback, Release]\<rparr>)"
    using run by (simp add: w3 w2_def line_def) (simp add: shop_def)
  note inl = createSaleWithItems_atomic[THEN conjunct1, rule_format, OF run']
  have fault: "createSaleWithItems refuse_item_inserts (JNum 7) (Some [line 1 3 5]) JUndefined shop =
     (Inl (Wrapped FailedToCreateSaleWithItems StorageError),
      shop\<lparr>sale_seq := 2,
            calls := [Connect, Begin, InsertSale 7, SelectStockForUpdate 1, InsertSaleItem 1 1 3 5,
                      Rollback, Release]\<rparr>)"
    by (simp add: run_defs refuse_item_inserts_def)
  have ok: "fst (createSaleWithItems no_fault (JNum 7) (Some [line 1 3 5]) (JNum 10) shop) =
     Inr \<lparr>e_sale_id = 1, e_user_id = 7, e_sale_date = ''15/01/2024'', e_subtotal = Fin 15,
          e_discount_percentage = Some (Fin 10), e_discount_amount = Fin (3 / 2),
          e_total_amount = Fin (27 / 2)\<rparr>"
    by (simp add: run_defs)
  note ok' = ok[THEN arg_cong[where f = "\<lambda>x. (x, snd (createSaleWithItems no_fault (JNum 7)
      (Some [line 1 3 5]) (JNum 10) shop))"], unfolded prod.collapse]
  note inr = createSaleWithItems_atomic[THEN conjunct2, THEN conjunct1, rule_format, OF ok']
  from inr have items: "sellable (line 1 3 5) \<and> in_inventory (committed shop) (line 1 3 5)"
    by auto
  have no9: "\<not> in_inventory (committed shop) (line 9 1 4)"
    by (simp add: in_inventory_def shop_def line_def)
  have st7: "stock_after [line 1 3 5] (hd (inventory (committed shop))) = 7"
    by (simp add: notion_defs shop_def line_def)
  have step: "fst (sale_item_step no_fault 1 (line 1 3 5) (shop\<lparr>txn := Some (committed shop)\<rparr>)) =
     Inr (Fin 15)"
    by (simp add: run_defs)
  note step' = step[THEN arg_cong[where f = "\<lambda>x. (x, snd (sale_item_step no_fault 1 (line 1 3 5)
      (shop\<lparr>txn := Some (committed shop)\<rparr>)))"], unfolded prod.collapse]
  note acc = createSaleWithItems_atomic[THEN conjunct2, THEN conjunct2, THEN conjunct2,
      THEN conjunct2, rule_format, OF step']
  from run' inl fault ok items no9 st7 step acc show ?thesis by simp
qed

end
